theory Spec2Isabelle
  imports Complex_Main
begin

section \<open>The household projection engine of SwissFamilyPlan\<close>

text \<open>
  A shallow embedding of \<^verbatim>\<open>src/services/financeEngine.ts\<close> (the current engine) and of
  its older copy \<^verbatim>\<open>src/unnamed/part_000\<close>. The two files are the same function with a
  handful of differing lines; the embedding is one set of definitions with a parameter of
  type \<open>engine\<close> that selects, at exactly those lines, which file is followed: the
  university cost of a child, the pillar-3 contribution when the net income cannot fund
  the plan, the retirement note and the form of the pillar-3 payout, the depletion test,
  the viability flag, and the range and criterion of the early-retirement search.

  JavaScript numbers are modelled as exact numbers: money, rates and factors are \<open>real\<close>,
  ages, child counts and year offsets are \<open>int\<close> (the loop variable \<open>age\<close> only ever holds
  \<open>currentAge + k\<close>, so \<open>yearIndex\<close> is a natural number and \<open>Math.pow\<close> is a power with a
  natural exponent). Rounding of IEEE doubles is not modelled. The calendar year read by
  \<open>new Date().getFullYear()\<close> is the explicit parameter \<open>startYear\<close>.

  One value of the engine need not be a number: the tax factor looked up for the canton
  (see \<open>getTaxFactor\<close>). Every variable and every reported figure that is computed from
  it has the type \<open>jsnum\<close>, a real number or \<open>NaN\<close>, with the arithmetic and the
  comparisons of JavaScript on \<open>NaN\<close>; the figures computed from the numbers of the
  profile alone stay \<open>real\<close>.
\<close>

subsection \<open>Numbers that may be \<open>NaN\<close>\<close>

datatype jsnum = Num real | NaN

text \<open>
  Arithmetic: a result is \<open>NaN\<close> as soon as an operand is. The only division of the engine
  has a divisor of at least 1. (The reciprocal is defined because the division sign belongs
  to the class that also has it; the engine never uses it.)
\<close>

instantiation jsnum :: "{plus, minus, uminus, times, inverse, ord}"
begin

definition plus_jsnum :: "jsnum \<Rightarrow> jsnum \<Rightarrow> jsnum" where
  "plus_jsnum x y =
     (case x of NaN \<Rightarrow> NaN | Num a \<Rightarrow> (case y of NaN \<Rightarrow> NaN | Num b \<Rightarrow> Num (a + b)))"

definition minus_jsnum :: "jsnum \<Rightarrow> jsnum \<Rightarrow> jsnum" where
  "minus_jsnum x y =
     (case x of NaN \<Rightarrow> NaN | Num a \<Rightarrow> (case y of NaN \<Rightarrow> NaN | Num b \<Rightarrow> Num (a - b)))"

definition uminus_jsnum :: "jsnum \<Rightarrow> jsnum" where
  "uminus_jsnum x = (case x of NaN \<Rightarrow> NaN | Num a \<Rightarrow> Num (- a))"

definition times_jsnum :: "jsnum \<Rightarrow> jsnum \<Rightarrow> jsnum" where
  "times_jsnum x y =
     (case x of NaN \<Rightarrow> NaN | Num a \<Rightarrow> (case y of NaN \<Rightarrow> NaN | Num b \<Rightarrow> Num (a * b)))"

definition divide_jsnum :: "jsnum \<Rightarrow> jsnum \<Rightarrow> jsnum" where
  "divide_jsnum x y =
     (case x of NaN \<Rightarrow> NaN | Num a \<Rightarrow> (case y of NaN \<Rightarrow> NaN | Num b \<Rightarrow> Num (a / b)))"

definition inverse_jsnum :: "jsnum \<Rightarrow> jsnum" where
  "inverse_jsnum x = (case x of NaN \<Rightarrow> NaN | Num a \<Rightarrow> Num (1 / a))"

text \<open>Comparisons: every comparison with \<open>NaN\<close> is false.\<close>

definition less_eq_jsnum :: "jsnum \<Rightarrow> jsnum \<Rightarrow> bool" where
  "less_eq_jsnum x y =
     (case x of NaN \<Rightarrow> False | Num a \<Rightarrow> (case y of NaN \<Rightarrow> False | Num b \<Rightarrow> a \<le> b))"

definition less_jsnum :: "jsnum \<Rightarrow> jsnum \<Rightarrow> bool" where
  "less_jsnum x y =
     (case x of NaN \<Rightarrow> False | Num a \<Rightarrow> (case y of NaN \<Rightarrow> False | Num b \<Rightarrow> a < b))"

instance ..

end

text \<open>\<open>Math.max\<close> and \<open>Math.min\<close> of two arguments: \<open>NaN\<close> if either argument is.\<close>

definition Math_max :: "jsnum \<Rightarrow> jsnum \<Rightarrow> jsnum" where
  "Math_max x y =
     (case x of NaN \<Rightarrow> NaN | Num a \<Rightarrow> (case y of NaN \<Rightarrow> NaN | Num b \<Rightarrow> Num (max a b)))"

definition Math_min :: "jsnum \<Rightarrow> jsnum \<Rightarrow> jsnum" where
  "Math_min x y =
     (case x of NaN \<Rightarrow> NaN | Num a \<Rightarrow> (case y of NaN \<Rightarrow> NaN | Num b \<Rightarrow> Num (min a b)))"

subsection \<open>Types of \<^verbatim>\<open>types.ts\<close>\<close>

datatype ScenarioType = Pessimistic | Neutral | Optimistic

datatype CareerStage = Junior | Mid | Senior | Executive

datatype LuxuryLevel = Humble | Comfortable | Luxury

text \<open>
  The three note texts the engines push: \<open>MovedHouse\<close> is "Mudanca: Pis mes gran",
  \<open>RetirementStarted\<close> is "Jubilacio: Inici Rendes" (older engine only) and
  \<open>FundsDepleted\<close> is the "Fons Esgotats" warning.
\<close>

datatype noteText = MovedHouse | RetirementStarted | FundsDepleted

text \<open>Which source file a definition follows where the two differ.\<close>

datatype engine = Current | Older

text \<open>The fields of \<open>FinancialData\<close> that the engine reads.\<close>

record FinancialData =
  currentAge :: int
  retirementAge :: int
  currentChildren :: int
  futureChildren :: int
  firstChildBirthYearOffset :: "int option"
  childSpacingYears :: "int option"
  annualGrossSalary1 :: real
  annualGrossSalary2 :: real
  careerStage1 :: CareerStage
  careerStage2 :: CareerStage
  annualBonus :: real
  expectedSalaryIncrease :: real
  currentSavings :: real
  investmentReturn :: real
  pillar2Balance1 :: real
  pillar2Balance2 :: real
  pillar3Balance1 :: real
  pillar3Balance2 :: real
  pillar3AnnualContribution1 :: real
  pillar3AnnualContribution2 :: real
  currentHousingCost :: real
  currentRooms :: real
  housingCostIncrease :: real
  monthlyLivingCost :: real
  monthlyDaycareCost :: real
  monthlySchoolActivityCost :: real
  yearlyTravelBudget :: real
  universitySupport :: real
  canton :: string
  luxuryLevel :: LuxuryLevel

record ProjectionPoint =
  age :: int
  year :: int
  totalGrossIncome :: jsnum
  totalIncome :: jsnum
  salary1 :: jsnum
  salary2 :: jsnum
  bonus :: real
  pensionAHV :: real
  pensionLPP :: real
  pension3a :: jsnum
  pension :: jsnum
  activeChildren :: nat
  housingExpenses :: real
  livingExpenses :: real
  childrenExpenses :: real
  travelExpenses :: real
  totalExpenses :: real
  yearlyContribution :: real
  yearlySavings :: jsnum
  cashSavings :: jsnum
  investedAssets :: jsnum
  pillar2Wealth :: real
  pillar3Wealth :: jsnum
  pensionWealth :: jsnum
  investmentGrowth :: real
  totalWealth :: jsnum
  isDeficit :: bool
  notes_opt :: "noteText list option"

record ScenarioResult =
  scenarioType :: ScenarioType
  label :: ScenarioType
  data :: "ProjectionPoint list"
  finalWealth :: jsnum
  maxWealth :: jsnum
  isViable :: bool
  savingsDepletedAge :: "int option"

record ScenarioModifiers =
  salaryGrowthModPct :: real
  returnModPct :: real
  inflationModPct :: real
  expenseMultiplier :: "real option"

subsection \<open>Constants and small helpers\<close>

definition DEFAULT_MAX_AGE :: int where
  "DEFAULT_MAX_AGE = 90"

definition RETIREMENT_SAFETY_BUFFER :: real where
  "RETIREMENT_SAFETY_BUFFER = 100000"

definition AHV_COUPLE_MAX_ANNUAL_2025 :: real where
  "AHV_COUPLE_MAX_ANNUAL_2025 = 44100"

definition LPP_CONVERSION_RATE :: real where
  "LPP_CONVERSION_RATE = 0.058"

definition LPP_INTEREST_RATE :: real where
  "LPP_INTEREST_RATE = 0.02"

text \<open>
  \<open>taxFactorByCanton\<close>, an association list in the order of the object literal. The first
  key is "Zurich" written with u-umlaut (UTF-8 bytes C3 BC).
\<close>

definition taxFactorByCanton :: "(string \<times> real) list" where
  "taxFactorByCanton =
     [(''Z'' @ [CHR 0xC3, CHR 0xBC] @ ''rich'', 0.78), (''Zurich'', 0.78), (''Zug'', 0.82),
      (''Geneva'', 0.70), (''Vaud'', 0.73), (''default'', 0.75)]"

text \<open>
  The table is a plain object literal, so a lookup that finds no own key goes on to
  \<open>Object.prototype\<close>: the names below are its members (methods, \<open>constructor\<close> and the
  accessor \<open>__proto__\<close>).
\<close>

definition objectPrototypeKeys :: "string list" where
  "objectPrototypeKeys =
     [''constructor'', ''__defineGetter__'', ''__defineSetter__'', ''hasOwnProperty'',
      ''__lookupGetter__'', ''__lookupSetter__'', ''isPrototypeOf'', ''propertyIsEnumerable'',
      ''toString'', ''valueOf'', ''__proto__'', ''toLocaleString'']"

text \<open>
  \<open>getTaxFactor\<close>: an empty canton gets the default factor; otherwise the lookup returns
  the own entry of the table, or else the inherited member, or else (the lookup being
  \<open>undefined\<close>) the default of the \<open>??\<close>. An inherited member is a function or an object,
  not \<open>null\<close> or \<open>undefined\<close>, so the \<open>??\<close> keeps it; the tax factor is only ever used as
  a factor of a product, where such a value converts to \<open>NaN\<close>, and it is \<open>NaN\<close> here.
\<close>

definition getTaxFactor :: "string \<Rightarrow> jsnum" where
  "getTaxFactor c =
     (if c = [] then Num 0.75
      else (case map_of taxFactorByCanton c of
              Some f \<Rightarrow> Num f
            | None \<Rightarrow> (if c \<in> set objectPrototypeKeys then NaN else Num 0.75)))"

definition computeChildrenSchedule :: "FinancialData \<Rightarrow> int list" where
  "computeChildrenSchedule d =
     (let firstOffset = (case firstChildBirthYearOffset d of None \<Rightarrow> 1 | Some x \<Rightarrow> x);
          spacing = (case childSpacingYears d of None \<Rightarrow> 2 | Some x \<Rightarrow> x)
      in map (\<lambda>i. 2 + int i * 2) [0 ..< nat (currentChildren d)] @
         map (\<lambda>j. - (firstOffset + int j * spacing)) [0 ..< nat (futureChildren d)])"

definition getSalaryGrowthRate :: "int \<Rightarrow> CareerStage \<Rightarrow> real \<Rightarrow> real" where
  "getSalaryGrowthRate ageNow stage baseInflation =
     baseInflation +
     (if ageNow < 35 then
        (if stage = Junior then 0.035 else if stage = Mid then 0.025 else 0.015)
      else if ageNow < 45 then
        (if stage = Junior then 0.025 else if stage = Mid then 0.020
         else if stage = Senior then 0.015 else 0.020)
      else if ageNow < 55 then 0.01
      else 0.00)"

definition modifiersFor :: "ScenarioType \<Rightarrow> ScenarioModifiers" where
  "modifiersFor scenario =
     (if scenario = Pessimistic then
        \<lparr>salaryGrowthModPct = - 0.5, returnModPct = - 2.0, inflationModPct = 1.0,
         expenseMultiplier = Some 1.05\<rparr>
      else if scenario = Optimistic then
        \<lparr>salaryGrowthModPct = 0.5, returnModPct = 1.5, inflationModPct = - 0.5,
         expenseMultiplier = Some 0.95\<rparr>
      else
        \<lparr>salaryGrowthModPct = 0, returnModPct = 0, inflationModPct = 0,
         expenseMultiplier = Some 1.0\<rparr>)"

text \<open>\<open>modifiers.expenseMultiplier ?? 1\<close>\<close>

definition expMult :: "ScenarioModifiers \<Rightarrow> real" where
  "expMult m = (case expenseMultiplier m of None \<Rightarrow> 1 | Some x \<Rightarrow> x)"

text \<open>
  \<open>(data.expectedSalaryIncrease ?? 1.5) + modifiers.inflationModPct\<close>: the field is a
  required number of \<open>FinancialData\<close>, so the default of the \<open>??\<close> is never taken.
\<close>

definition baseInflationPct :: "FinancialData \<Rightarrow> ScenarioModifiers \<Rightarrow> real" where
  "baseInflationPct d m = expectedSalaryIncrease d + inflationModPct m"

definition effectiveInvestmentReturnPct :: "FinancialData \<Rightarrow> ScenarioModifiers \<Rightarrow> real" where
  "effectiveInvestmentReturnPct d m = max 0 (investmentReturn d + returnModPct m)"

subsection \<open>The variables of \<open>calculateProjections\<close>\<close>

text \<open>The variables that live across iterations of the age loop.\<close>

record loopState =
  v_grossSalary1 :: real
  v_grossSalary2 :: real
  v_grossBonus :: real
  v_pillar2Wealth :: real
  v_pillar3Wealth :: jsnum
  v_cashBuffer :: jsnum
  v_investedWealth :: jsnum
  v_ahvAnnualPensionSnapshot :: real
  v_lppAnnualPensionSnapshot :: real
  v_pillar3AnnualDrawdownSnapshot :: jsnum
  v_retirementSnapshotTaken :: bool
  v_childrenAges :: "int list"
  v_points :: "ProjectionPoint list"
  v_maxWealth :: jsnum
  v_savingsDepletedAge :: "int option"
  v_currentRent :: real
  v_hasMovedHouse :: bool

text \<open>The variables declared afresh inside each iteration.\<close>

record locals =
  l_notes :: "noteText list"
  l_inflationFactor :: real
  l_activeChildrenCount :: nat
  l_annualChildrenExpenses :: real
  l_livingAnnual :: real
  l_travelAnnual :: real
  l_housingAnnual :: real
  l_totalExpenses :: real
  l_totalIncomeNet :: jsnum
  l_totalGrossIncome :: jsnum
  l_pensionAHV :: real
  l_pensionLPP :: real
  l_pension3a :: jsnum
  l_annualSavingsCapacity :: jsnum

definition initialState :: "FinancialData \<Rightarrow> loopState" where
  "initialState d =
     \<lparr>v_grossSalary1 = annualGrossSalary1 d,
      v_grossSalary2 = annualGrossSalary2 d,
      v_grossBonus = annualBonus d,
      v_pillar2Wealth = pillar2Balance1 d + pillar2Balance2 d,
      v_pillar3Wealth = Num (pillar3Balance1 d + pillar3Balance2 d),
      v_cashBuffer = Num (currentSavings d * 0.3),
      v_investedWealth = Num (currentSavings d * 0.7),
      v_ahvAnnualPensionSnapshot = 0,
      v_lppAnnualPensionSnapshot = 0,
      v_pillar3AnnualDrawdownSnapshot = Num 0,
      v_retirementSnapshotTaken = False,
      v_childrenAges = computeChildrenSchedule d,
      v_points = [],
      v_maxWealth = Num 0,
      v_savingsDepletedAge = None,
      v_currentRent = currentHousingCost d,
      v_hasMovedHouse = False\<rparr>"

subsection \<open>The loop body\<close>

text \<open>
  The university line of the child loop: the current engine adds \<open>universitySupport\<close>, the
  older one a \<open>uniCost\<close> that defaults to 25000 and is 12000 for the humble tier.
\<close>

definition uniCost :: "engine \<Rightarrow> FinancialData \<Rightarrow> real" where
  "uniCost e d =
     (case e of
        Current \<Rightarrow> universitySupport d
      | Older \<Rightarrow>
          (if luxuryLevel d = Humble then 12000
           else if universitySupport d > 0 then universitySupport d else 25000))"

definition childCost :: "engine \<Rightarrow> FinancialData \<Rightarrow> int \<Rightarrow> real" where
  "childCost e d childAge =
     (if childAge < 5 then monthlyDaycareCost d * 12
      else if childAge \<ge> 5 \<and> childAge < 19 then monthlySchoolActivityCost d * 12
      else if childAge \<ge> 19 \<and> childAge < 25 then uniCost e d
      else 0)"

text \<open>
  The inner \<open>for\<close> over \<open>childrenAges\<close>: the accumulators \<open>annualChildrenExpenses\<close> and
  \<open>activeChildrenCount\<close> are threaded through, every slot is written back one year older,
  and a slot with a negative age takes the \<open>continue\<close>.
\<close>

fun childrenLoop ::
  "engine \<Rightarrow> FinancialData \<Rightarrow> int list \<Rightarrow> real \<Rightarrow> nat \<Rightarrow> int list \<times> real \<times> nat" where
  "childrenLoop e d [] annualChildrenExpenses activeChildrenCount =
     ([], annualChildrenExpenses, activeChildrenCount)"
| "childrenLoop e d (childAge # rest) annualChildrenExpenses activeChildrenCount =
     (if childAge < 0 then
        (case childrenLoop e d rest annualChildrenExpenses activeChildrenCount of
           (ages, r) \<Rightarrow> ((childAge + 1) # ages, r))
      else
        (case childrenLoop e d rest
                (annualChildrenExpenses + childCost e d childAge)
                (if childAge \<ge> 0 \<and> childAge < 25 then activeChildrenCount + 1
                 else activeChildrenCount) of
           (ages, r) \<Rightarrow> ((childAge + 1) # ages, r)))"

text \<open>
  First part of the body: rent inflation, the child loop, the relocation test and the
  expense figures.
\<close>

definition expensesPhase ::
  "engine \<Rightarrow> FinancialData \<Rightarrow> ScenarioModifiers \<Rightarrow> int \<Rightarrow> loopState \<Rightarrow> loopState \<times> locals" where
  "expensesPhase e d m ageNow st =
     (let yearIndex = ageNow - currentAge d;
          inflationFactor = (1 + baseInflationPct d m / 100) ^ nat yearIndex;
          rent1 = v_currentRent st * (1 + (housingCostIncrease d + inflationModPct m) / 100);
          kids = childrenLoop e d (v_childrenAges st) 0 0;
          activeChildrenCount = snd (snd kids);
          annualChildrenExpenses = fst (snd kids) * expMult m;
          moves = (\<not> v_hasMovedHouse st \<and> 2 + real activeChildrenCount > currentRooms d + 0.5);
          rent2 = (if moves then rent1 * 1.30 else rent1);
          livingAnnual = monthlyLivingCost d * 12 * inflationFactor * expMult m;
          travelAnnual = yearlyTravelBudget d * inflationFactor * expMult m;
          housingAnnual = rent2 * 12
      in (st\<lparr>v_currentRent := rent2,
              v_childrenAges := fst kids,
              v_hasMovedHouse := (v_hasMovedHouse st \<or> moves)\<rparr>,
          \<lparr>l_notes = (if moves then [MovedHouse] else []),
           l_inflationFactor = inflationFactor,
           l_activeChildrenCount = activeChildrenCount,
           l_annualChildrenExpenses = annualChildrenExpenses,
           l_livingAnnual = livingAnnual,
           l_travelAnnual = travelAnnual,
           l_housingAnnual = housingAnnual,
           l_totalExpenses = housingAnnual + livingAnnual + annualChildrenExpenses + travelAnnual,
           l_totalIncomeNet = Num 0,
           l_totalGrossIncome = Num 0,
           l_pensionAHV = 0,
           l_pensionLPP = 0,
           l_pension3a = Num 0,
           l_annualSavingsCapacity = Num 0\<rparr>))"

text \<open>
  The deficit cascade, written twice in the source with the same text: the cash buffer pays
  first, the invested wealth pays the rest and is floored at zero.
\<close>

definition absorbDeficit :: "jsnum \<Rightarrow> jsnum \<Rightarrow> jsnum \<Rightarrow> jsnum \<times> jsnum" where
  "absorbDeficit cashBuffer investedWealth deficit =
     (if cashBuffer \<ge> deficit then (cashBuffer - deficit, investedWealth)
      else (Num 0, Math_max (Num 0) (investedWealth - (deficit - cashBuffer))))"

text \<open>
  The surplus/deficit blocks of the two branches. A working-year surplus is split 30/70
  between cash and invested wealth; a retirement surplus (zero included) goes to cash.
\<close>

definition allocateWorking :: "jsnum \<Rightarrow> jsnum \<Rightarrow> jsnum \<Rightarrow> jsnum \<times> jsnum" where
  "allocateWorking cashBuffer investedWealth annualSavingsCapacity =
     (if annualSavingsCapacity > Num 0 then
        (cashBuffer + annualSavingsCapacity * Num 0.3,
         investedWealth + annualSavingsCapacity * Num 0.7)
      else absorbDeficit cashBuffer investedWealth (- annualSavingsCapacity))"

definition allocateRetired :: "jsnum \<Rightarrow> jsnum \<Rightarrow> jsnum \<Rightarrow> jsnum \<times> jsnum" where
  "allocateRetired cashBuffer investedWealth annualSavingsCapacity =
     (if annualSavingsCapacity \<ge> Num 0 then (cashBuffer + annualSavingsCapacity, investedWealth)
      else absorbDeficit cashBuffer investedWealth (- annualSavingsCapacity))"

text \<open>
  The working branch (\<open>!isRetired\<close>). The engines differ in \<open>actualP3\<close>: the current one
  floors the contribution at zero when the net income cannot fund the plan.
\<close>

definition workingPhase ::
  "engine \<Rightarrow> FinancialData \<Rightarrow> ScenarioModifiers \<Rightarrow> int \<Rightarrow> loopState \<times> locals \<Rightarrow> loopState \<times> locals" where
  "workingPhase e d m ageNow sl =
     (let st = fst sl; l = snd sl;
          taxFactor = getTaxFactor (canton d);
          eff = effectiveInvestmentReturnPct d m;
          growthRate1 = getSalaryGrowthRate ageNow (careerStage1 d) (baseInflationPct d m / 100);
          growthRate2 = getSalaryGrowthRate ageNow (careerStage2 d) (baseInflationPct d m / 100);
          salaryNet1 = Num (v_grossSalary1 st) * taxFactor;
          salaryNet2 = Num (v_grossSalary2 st) * taxFactor;
          bonusNet = v_grossBonus st * 0.65;
          totalGrossIncome = v_grossSalary1 st + v_grossSalary2 st + v_grossBonus st;
          totalIncomeNet = salaryNet1 + salaryNet2 + Num bonusNet;
          plannedP3 = pillar3AnnualContribution1 d + pillar3AnnualContribution2 d;
          actualP3 = (if totalIncomeNet \<ge> Num plannedP3 then Num plannedP3
                      else (case e of Current \<Rightarrow> Math_max (Num 0) totalIncomeNet
                            | Older \<Rightarrow> totalIncomeNet));
          annualSavingsCapacity = totalIncomeNet - actualP3 - Num (l_totalExpenses l);
          lppContribution = (v_grossSalary1 st + v_grossSalary2 st) * 0.12;
          free = allocateWorking (v_cashBuffer st) (v_investedWealth st) annualSavingsCapacity
      in (st\<lparr>v_pillar2Wealth := v_pillar2Wealth st * (1 + LPP_INTEREST_RATE) + lppContribution,
              v_pillar3Wealth := v_pillar3Wealth st * Num (1 + eff / 100) + actualP3,
              v_cashBuffer := fst free,
              v_investedWealth := snd free * Num (1 + eff / 100),
              v_grossSalary1 := v_grossSalary1 st * (1 + growthRate1 + salaryGrowthModPct m / 100),
              v_grossSalary2 := v_grossSalary2 st * (1 + growthRate2 + salaryGrowthModPct m / 100),
              v_grossBonus := v_grossBonus st * (1 + baseInflationPct d m / 100)\<rparr>,
          l\<lparr>l_totalGrossIncome := Num totalGrossIncome,
            l_totalIncomeNet := totalIncomeNet,
            l_annualSavingsCapacity := annualSavingsCapacity\<rparr>))"

text \<open>
  The retirement branch. The snapshot block runs under \<open>!retirementSnapshotTaken\<close> and sets
  the flag; the older engine also pushes the retirement note there and computes
  \<open>pension3a\<close> with nested tests instead of \<open>Math.min\<close>.
\<close>

definition takeSnapshot ::
  "engine \<Rightarrow> FinancialData \<Rightarrow> loopState \<times> locals \<Rightarrow> loopState \<times> locals" where
  "takeSnapshot e d sl =
     (let st = fst sl; l = snd sl in
      if \<not> v_retirementSnapshotTaken st then
        (st\<lparr>v_ahvAnnualPensionSnapshot := AHV_COUPLE_MAX_ANNUAL_2025 * l_inflationFactor l,
             v_lppAnnualPensionSnapshot := v_pillar2Wealth st * LPP_CONVERSION_RATE,
             v_pillar3AnnualDrawdownSnapshot :=
               v_pillar3Wealth st / Num (max 1 (real_of_int (DEFAULT_MAX_AGE - retirementAge d))),
             v_retirementSnapshotTaken := True\<rparr>,
         (case e of Current \<Rightarrow> l | Older \<Rightarrow> l\<lparr>l_notes := l_notes l @ [RetirementStarted]\<rparr>))
      else (st, l))"

definition retiredPhase ::
  "engine \<Rightarrow> FinancialData \<Rightarrow> ScenarioModifiers \<Rightarrow> loopState \<times> locals \<Rightarrow> loopState \<times> locals" where
  "retiredPhase e d m sl0 =
     (let sl = takeSnapshot e d sl0; st = fst sl; l = snd sl;
          eff = effectiveInvestmentReturnPct d m;
          pensionAHV = AHV_COUPLE_MAX_ANNUAL_2025 * l_inflationFactor l;
          pensionLPP = v_lppAnnualPensionSnapshot st;
          pension3a =
            (case e of
               Current \<Rightarrow> Math_min (v_pillar3Wealth st) (v_pillar3AnnualDrawdownSnapshot st)
             | Older \<Rightarrow>
                 (if v_pillar3Wealth st > Num 0 then
                    (if v_pillar3AnnualDrawdownSnapshot st > v_pillar3Wealth st
                     then v_pillar3Wealth st else v_pillar3AnnualDrawdownSnapshot st)
                  else Num 0));
          totalGrossIncome = Num pensionAHV + Num pensionLPP + pension3a;
          totalIncomeNet = totalGrossIncome * Num 0.85;
          annualSavingsCapacity = totalIncomeNet - Num (l_totalExpenses l);
          free = allocateRetired (v_cashBuffer st) (v_investedWealth st) annualSavingsCapacity
      in (st\<lparr>v_pillar2Wealth := 0,
              v_pillar3Wealth :=
                Math_max (Num 0) (v_pillar3Wealth st - pension3a) * Num (1 + (eff / 100) * 0.3),
              v_cashBuffer := fst free,
              v_investedWealth := snd free * Num (1 + eff / 100)\<rparr>,
          l\<lparr>l_pensionAHV := pensionAHV,
            l_pensionLPP := pensionLPP,
            l_pension3a := pension3a,
            l_totalGrossIncome := totalGrossIncome,
            l_totalIncomeNet := totalIncomeNet,
            l_annualSavingsCapacity := annualSavingsCapacity\<rparr>))"

text \<open>
  The end of the body: total wealth, the peak, the depletion test and the snapshot pushed
  to \<open>points\<close>. The older engine records depletion only when the free assets and the
  pillar-3 capital are both at most 100.
\<close>

definition totalWealthOf :: "loopState \<Rightarrow> jsnum" where
  "totalWealthOf st =
     v_cashBuffer st + v_investedWealth st + Num (v_pillar2Wealth st) + v_pillar3Wealth st"

definition depletedNow :: "engine \<Rightarrow> loopState \<Rightarrow> bool" where
  "depletedNow e st =
     (totalWealthOf st < Num 0 \<and> v_savingsDepletedAge st = None \<and>
      (case e of Current \<Rightarrow> True
       | Older \<Rightarrow> v_cashBuffer st + v_investedWealth st \<le> Num 100 \<and>
                  v_pillar3Wealth st \<le> Num 100))"

definition notesNow :: "engine \<Rightarrow> loopState \<times> locals \<Rightarrow> noteText list" where
  "notesNow e sl =
     (if depletedNow e (fst sl) then l_notes (snd sl) @ [FundsDepleted] else l_notes (snd sl))"

text \<open>The object literal pushed to \<open>points\<close>.\<close>

definition makePoint ::
  "engine \<Rightarrow> int \<Rightarrow> FinancialData \<Rightarrow> int \<Rightarrow> loopState \<times> locals \<Rightarrow> ProjectionPoint" where
  "makePoint e startYear d ageNow sl =
     (let st = fst sl; l = snd sl;
          isRetired = (ageNow \<ge> retirementAge d);
          taxFactor = getTaxFactor (canton d)
      in \<lparr>age = ageNow,
          year = startYear + (ageNow - currentAge d),
          totalGrossIncome = l_totalGrossIncome l,
          totalIncome = l_totalIncomeNet l,
          salary1 = (if isRetired then Num 0 else Num (v_grossSalary1 st) * taxFactor),
          salary2 = (if isRetired then Num 0 else Num (v_grossSalary2 st) * taxFactor),
          bonus = (if isRetired then 0 else v_grossBonus st * 0.65),
          pensionAHV = l_pensionAHV l,
          pensionLPP = l_pensionLPP l,
          pension3a = l_pension3a l,
          pension = Num (l_pensionAHV l) + Num (l_pensionLPP l) + l_pension3a l,
          activeChildren = l_activeChildrenCount l,
          housingExpenses = l_housingAnnual l,
          livingExpenses = l_livingAnnual l,
          childrenExpenses = l_annualChildrenExpenses l,
          travelExpenses = l_travelAnnual l,
          totalExpenses = l_totalExpenses l,
          yearlyContribution = 0,
          yearlySavings = l_annualSavingsCapacity l,
          cashSavings = v_cashBuffer st,
          investedAssets = v_investedWealth st,
          pillar2Wealth = v_pillar2Wealth st,
          pillar3Wealth = v_pillar3Wealth st,
          pensionWealth = Num (v_pillar2Wealth st) + v_pillar3Wealth st,
          investmentGrowth = 0,
          totalWealth = totalWealthOf st,
          isDeficit = (l_annualSavingsCapacity l < Num 0),
          notes_opt = (if length (notesNow e sl) > 0 then Some (notesNow e sl) else None)\<rparr>)"

definition recordPhase ::
  "engine \<Rightarrow> int \<Rightarrow> FinancialData \<Rightarrow> int \<Rightarrow> loopState \<times> locals \<Rightarrow> loopState" where
  "recordPhase e startYear d ageNow sl =
     (let st = fst sl
      in st\<lparr>v_maxWealth := (if totalWealthOf st > v_maxWealth st then totalWealthOf st
                             else v_maxWealth st),
             v_savingsDepletedAge := (if depletedNow e st then Some ageNow
                                      else v_savingsDepletedAge st),
             v_points := v_points st @ [makePoint e startYear d ageNow sl]\<rparr>)"

text \<open>The \<open>if (!isRetired) ... else ...\<close> in the middle of the body.\<close>

definition incomePhase ::
  "engine \<Rightarrow> FinancialData \<Rightarrow> ScenarioModifiers \<Rightarrow> int \<Rightarrow> loopState \<times> locals \<Rightarrow> loopState \<times> locals" where
  "incomePhase e d m ageNow sl =
     (if \<not> (ageNow \<ge> retirementAge d) then workingPhase e d m ageNow sl
      else retiredPhase e d m sl)"

definition yearStep ::
  "engine \<Rightarrow> int \<Rightarrow> FinancialData \<Rightarrow> ScenarioModifiers \<Rightarrow> int \<Rightarrow> loopState \<Rightarrow> loopState" where
  "yearStep e startYear d m ageNow st =
     recordPhase e startYear d ageNow (incomePhase e d m ageNow (expensesPhase e d m ageNow st))"

subsection \<open>The age loop and the exported functions\<close>

function ageLoop ::
  "engine \<Rightarrow> int \<Rightarrow> FinancialData \<Rightarrow> ScenarioModifiers \<Rightarrow> int \<Rightarrow> loopState \<Rightarrow> loopState" where
  "ageLoop e startYear d m ageNow st =
     (if ageNow \<le> DEFAULT_MAX_AGE
      then ageLoop e startYear d m (ageNow + 1) (yearStep e startYear d m ageNow st)
      else st)"
  by pat_completeness auto
termination
  by (relation "measure (\<lambda>(e, startYear, d, m, ageNow, st). nat (DEFAULT_MAX_AGE + 1 - ageNow))") auto

text \<open>
  \<open>finalWealth\<close> is \<open>points[points.length - 1]?.totalWealth ?? 0\<close>: 0 for an empty list,
  otherwise the total wealth of the last snapshot (\<open>NaN\<close> is neither \<open>null\<close> nor
  \<open>undefined\<close>, so the \<open>??\<close> keeps it). The engines differ in \<open>isViable\<close>: final wealth
  at least zero (current), never depleted (older).
\<close>

definition lastTotalWealth :: "ProjectionPoint list \<Rightarrow> jsnum" where
  "lastTotalWealth ps = (case ps of [] \<Rightarrow> Num 0 | _ \<Rightarrow> totalWealth (last ps))"

text \<open>The object returned after the loop.\<close>

definition makeResult :: "engine \<Rightarrow> ScenarioType \<Rightarrow> loopState \<Rightarrow> ScenarioResult" where
  "makeResult e scenario st =
     \<lparr>scenarioType = scenario,
      label = scenario,
      data = v_points st,
      finalWealth = lastTotalWealth (v_points st),
      maxWealth = v_maxWealth st,
      isViable = (case e of Current \<Rightarrow> lastTotalWealth (v_points st) \<ge> Num 0
                  | Older \<Rightarrow> v_savingsDepletedAge st = None),
      savingsDepletedAge = v_savingsDepletedAge st\<rparr>"

definition calculateProjections ::
  "engine \<Rightarrow> int \<Rightarrow> FinancialData \<Rightarrow> ScenarioType \<Rightarrow> ScenarioResult" where
  "calculateProjections e startYear d scenario =
     makeResult e scenario
       (ageLoop e startYear d (modifiersFor scenario) (currentAge d) (initialState d))"

text \<open>
  \<open>JSON.parse(JSON.stringify(d))\<close> on a record of numbers and strings is a copy of the
  value, so the clone of \<open>runAllScenarios\<close> is the profile itself here.
\<close>

definition runAllScenarios :: "engine \<Rightarrow> int \<Rightarrow> FinancialData \<Rightarrow> ScenarioResult list" where
  "runAllScenarios e startYear d =
     [calculateProjections e startYear d Pessimistic,
      calculateProjections e startYear d Neutral,
      calculateProjections e startYear d Optimistic]"

text \<open>
  The early-retirement search. The criterion of one candidate age: the current engine
  asks for a final wealth above the safety buffer, the older one for \<open>isViable\<close>.
\<close>

definition meetsCriterion :: "engine \<Rightarrow> ScenarioResult \<Rightarrow> bool" where
  "meetsCriterion e result =
     (case e of Current \<Rightarrow> finalWealth result > Num RETIREMENT_SAFETY_BUFFER
      | Older \<Rightarrow> isViable result)"

definition candidateViable :: "engine \<Rightarrow> int \<Rightarrow> FinancialData \<Rightarrow> int \<Rightarrow> bool" where
  "candidateViable e startYear d testAge =
     meetsCriterion e (calculateProjections e startYear (d\<lparr>retirementAge := testAge\<rparr>) Neutral)"

definition searchFrom :: "engine \<Rightarrow> int" where
  "searchFrom e = (case e of Current \<Rightarrow> 45 | Older \<Rightarrow> 50)"

definition searchTo :: "engine \<Rightarrow> FinancialData \<Rightarrow> int" where
  "searchTo e d = (case e of Current \<Rightarrow> 65 | Older \<Rightarrow> max (retirementAge d) 65)"

function searchLoop :: "engine \<Rightarrow> int \<Rightarrow> FinancialData \<Rightarrow> int \<Rightarrow> int \<Rightarrow> int option" where
  "searchLoop e startYear d maxCheckAge testAge =
     (if testAge \<le> maxCheckAge
      then (if candidateViable e startYear d testAge then Some testAge
            else searchLoop e startYear d maxCheckAge (testAge + 1))
      else None)"
  by pat_completeness auto
termination
  by (relation "measure (\<lambda>(e, startYear, d, maxCheckAge, testAge). nat (maxCheckAge + 1 - testAge))") auto

definition calculateViableEarlyRetirement :: "engine \<Rightarrow> int \<Rightarrow> FinancialData \<Rightarrow> int option" where
  "calculateViableEarlyRetirement e startYear d =
     searchLoop e startYear d (searchTo e d) (searchFrom e)"

subsection \<open>Example households\<close>

text \<open>A retired couple aged 89 with no income, no assets and no expenses.\<close>

definition soloRetiree :: FinancialData where
  "soloRetiree =
     \<lparr>currentAge = 89, retirementAge = 89, currentChildren = 0, futureChildren = 0,
      firstChildBirthYearOffset = None, childSpacingYears = None,
      annualGrossSalary1 = 0, annualGrossSalary2 = 0, careerStage1 = Mid, careerStage2 = Mid,
      annualBonus = 0, expectedSalaryIncrease = 0, currentSavings = 0, investmentReturn = 0,
      pillar2Balance1 = 0, pillar2Balance2 = 0, pillar3Balance1 = 0, pillar3Balance2 = 0,
      pillar3AnnualContribution1 = 0, pillar3AnnualContribution2 = 0,
      currentHousingCost = 0, currentRooms = 3, housingCostIncrease = 0,
      monthlyLivingCost = 0, monthlyDaycareCost = 0, monthlySchoolActivityCost = 0,
      yearlyTravelBudget = 0, universitySupport = 0, canton = ''Zug'', luxuryLevel = Comfortable\<rparr>"

text \<open>The same household expecting one child next year, with daycare at 2500 a month.\<close>

definition newbornHousehold :: FinancialData where
  "newbornHousehold = soloRetiree\<lparr>futureChildren := 1, monthlyDaycareCost := 2500\<rparr>"

text \<open>
  The profile invariant of the specification: every monetary field is non-negative.
\<close>

definition nonNegativeMonetary :: "FinancialData \<Rightarrow> bool" where
  "nonNegativeMonetary d =
     (0 \<le> annualGrossSalary1 d \<and> 0 \<le> annualGrossSalary2 d \<and> 0 \<le> annualBonus d \<and>
      0 \<le> currentSavings d \<and>
      0 \<le> pillar2Balance1 d \<and> 0 \<le> pillar2Balance2 d \<and>
      0 \<le> pillar3Balance1 d \<and> 0 \<le> pillar3Balance2 d \<and>
      0 \<le> pillar3AnnualContribution1 d \<and> 0 \<le> pillar3AnnualContribution2 d \<and>
      0 \<le> currentHousingCost d \<and> 0 \<le> monthlyLivingCost d \<and>
      0 \<le> monthlyDaycareCost d \<and> 0 \<le> monthlySchoolActivityCost d \<and>
      0 \<le> yearlyTravelBudget d \<and> 0 \<le> universitySupport d)"

text \<open>
  The tax factor of the profile's canton is a number: the canton is empty, a key of the
  table, or not the name of a member of \<open>Object.prototype\<close>.
\<close>

definition taxFactorIsNumber :: "FinancialData \<Rightarrow> bool" where
  "taxFactorIsNumber d = (getTaxFactor (canton d) \<noteq> NaN)"

text \<open>Whether a snapshot carries a given note.\<close>

definition hasNote :: "noteText \<Rightarrow> ProjectionPoint \<Rightarrow> bool" where
  "hasNote n p = (case notes_opt p of None \<Rightarrow> False | Some ns \<Rightarrow> n \<in> set ns)"

text \<open>A value that is not a negative number: a non-negative number or \<open>NaN\<close>.\<close>

definition notNegative :: "jsnum \<Rightarrow> bool" where
  "notNegative x = (\<not> x < Num 0)"

text \<open>
  The invariant behind the dead depletion branch: salaries, bonus and pillar-2 capital are
  non-negative, the cash, invested and pillar-3 balances are not negative numbers, no
  depletion has been recorded, and no snapshot so far carries the depletion note.
\<close>

definition solvent :: "loopState \<Rightarrow> bool" where
  "solvent st =
     (0 \<le> v_grossSalary1 st \<and> 0 \<le> v_grossSalary2 st \<and> 0 \<le> v_grossBonus st \<and>
      0 \<le> v_pillar2Wealth st \<and> notNegative (v_pillar3Wealth st) \<and>
      notNegative (v_cashBuffer st) \<and> notNegative (v_investedWealth st) \<and>
      v_savingsDepletedAge st = None \<and>
      (\<forall>p \<in> set (v_points st). \<not> hasNote FundsDepleted p))"

text \<open>The cash, invested and pillar-3 balances and the pillar-3 payout are numbers.\<close>

definition numericBuckets :: "loopState \<Rightarrow> bool" where
  "numericBuckets st =
     (v_cashBuffer st \<noteq> NaN \<and> v_investedWealth st \<noteq> NaN \<and> v_pillar3Wealth st \<noteq> NaN \<and>
      v_pillar3AnnualDrawdownSnapshot st \<noteq> NaN)"

text \<open>
  A working earner aged 89 with a salary of 100 and a baseline growth assumption of
  -300 percent: the salary turns negative after one year.
\<close>

definition shrinkingSalary :: FinancialData where
  "shrinkingSalary =
     soloRetiree\<lparr>retirementAge := 95, annualGrossSalary1 := 100, expectedSalaryIncrease := - 300\<rparr>"

text \<open>
  A working earner aged 89 with a salary of 100 whose canton is the name of a method of
  \<open>Object.prototype\<close>.
\<close>

definition prototypeCanton :: FinancialData where
  "prototypeCanton =
     soloRetiree\<lparr>retirementAge := 95, annualGrossSalary1 := 100, canton := ''toString''\<rparr>"

subsection \<open>The run as a sequence of states\<close>

text \<open>
  \<open>stateAfter k\<close> is the state of the age loop after its first \<open>k\<close> iterations, that is,
  when the years of the ages \<open>currentAge, ..., currentAge + k - 1\<close> have been simulated;
  \<open>simulatedYears\<close> is the number of iterations of the whole loop and \<open>pointAt k\<close> the
  snapshot pushed by iteration \<open>k\<close>.
\<close>

primrec stateAfter ::
  "engine \<Rightarrow> int \<Rightarrow> FinancialData \<Rightarrow> ScenarioModifiers \<Rightarrow> nat \<Rightarrow> loopState" where
  "stateAfter e startYear d m 0 = initialState d"
| "stateAfter e startYear d m (Suc k) =
     yearStep e startYear d m (currentAge d + int k) (stateAfter e startYear d m k)"

definition simulatedYears :: "FinancialData \<Rightarrow> nat" where
  "simulatedYears d = nat (DEFAULT_MAX_AGE + 1 - currentAge d)"

definition pointAt ::
  "engine \<Rightarrow> int \<Rightarrow> FinancialData \<Rightarrow> ScenarioModifiers \<Rightarrow> nat \<Rightarrow> ProjectionPoint" where
  "pointAt e startYear d m k =
     makePoint e startYear d (currentAge d + int k)
       (incomePhase e d m (currentAge d + int k)
          (expensesPhase e d m (currentAge d + int k) (stateAfter e startYear d m k)))"

text \<open>
  The default household of the application (\<open>initialData\<close> in \<^verbatim>\<open>App.tsx\<close>), with the
  canton written without the umlaut (same tax factor).
\<close>

definition initialData :: FinancialData where
  "initialData =
     \<lparr>currentAge = 30, retirementAge = 65, currentChildren = 0, futureChildren = 2,
      firstChildBirthYearOffset = Some 1, childSpacingYears = Some 2,
      annualGrossSalary1 = 110000, annualGrossSalary2 = 90000,
      careerStage1 = Mid, careerStage2 = Mid,
      annualBonus = 0, expectedSalaryIncrease = 2.0, currentSavings = 150000,
      investmentReturn = 4.5,
      pillar2Balance1 = 50000, pillar2Balance2 = 20000, pillar3Balance1 = 14000,
      pillar3Balance2 = 0,
      pillar3AnnualContribution1 = 7056, pillar3AnnualContribution2 = 3000,
      currentHousingCost = 1800, currentRooms = 3.5, housingCostIncrease = 2.0,
      monthlyLivingCost = 6000, monthlyDaycareCost = 2500, monthlySchoolActivityCost = 400,
      yearlyTravelBudget = 6000, universitySupport = 25000, canton = ''Zurich'',
      luxuryLevel = Comfortable\<rparr>"

text \<open>
  Iteration \<open>k\<close> is the first one in retirement: its age has reached the retirement age and
  the age of the iteration before it (if any) had not.
\<close>

definition firstRetiredYear :: "FinancialData \<Rightarrow> nat \<Rightarrow> bool" where
  "firstRetiredYear d k =
     (retirementAge d \<le> currentAge d + int k \<and>
      (k = 0 \<or> currentAge d + int k - 1 < retirementAge d))"

text \<open>The three snapshot variables and the flag that guards them.\<close>

definition snapshotOf :: "loopState \<Rightarrow> real \<times> real \<times> jsnum \<times> bool" where
  "snapshotOf st =
     (v_ahvAnnualPensionSnapshot st, v_lppAnnualPensionSnapshot st,
      v_pillar3AnnualDrawdownSnapshot st, v_retirementSnapshotTaken st)"

text \<open>
  The relocation test \<open>2 + activeChildrenCount > currentRooms + 0.5\<close>, read off a
  snapshot, and the yearly rent factor.
\<close>

definition outgrown :: "FinancialData \<Rightarrow> ProjectionPoint \<Rightarrow> bool" where
  "outgrown d p = (2 + real (activeChildren p) > currentRooms d + 0.5)"

definition rentFactor :: "FinancialData \<Rightarrow> ScenarioModifiers \<Rightarrow> real" where
  "rentFactor d m = 1 + (housingCostIncrease d + inflationModPct m) / 100"

text \<open>
  The retired couple with two children (aged 2 and 4 by the schedule) in three rooms, a
  rent of 1000 and a rent increase of 10 percent.
\<close>

definition crowdedHousehold :: FinancialData where
  "crowdedHousehold =
     soloRetiree\<lparr>currentChildren := 2, currentHousingCost := 1000, housingCostIncrease := 10\<rparr>"

subsection \<open>Comparing two runs\<close>

text \<open>
  Names for intermediate values of the two branches: the net income and the pillar-3
  contribution of a working year, and the pillar-3 payout of a retirement year (read after
  the snapshot block).
\<close>

definition workingNet :: "FinancialData \<Rightarrow> loopState \<Rightarrow> jsnum" where
  "workingNet d st =
     Num (v_grossSalary1 st) * getTaxFactor (canton d) +
     Num (v_grossSalary2 st) * getTaxFactor (canton d) +
     Num (v_grossBonus st * 0.65)"

definition plannedP3 :: "FinancialData \<Rightarrow> real" where
  "plannedP3 d = pillar3AnnualContribution1 d + pillar3AnnualContribution2 d"

definition workingP3 :: "engine \<Rightarrow> FinancialData \<Rightarrow> loopState \<Rightarrow> jsnum" where
  "workingP3 e d st =
     (if workingNet d st \<ge> Num (plannedP3 d) then Num (plannedP3 d)
      else (case e of Current \<Rightarrow> Math_max (Num 0) (workingNet d st) | Older \<Rightarrow> workingNet d st))"

definition drawdown :: "engine \<Rightarrow> loopState \<Rightarrow> jsnum" where
  "drawdown e st =
     (case e of
        Current \<Rightarrow> Math_min (v_pillar3Wealth st) (v_pillar3AnnualDrawdownSnapshot st)
      | Older \<Rightarrow>
          (if v_pillar3Wealth st > Num 0 then
             (if v_pillar3AnnualDrawdownSnapshot st > v_pillar3Wealth st
              then v_pillar3Wealth st else v_pillar3AnnualDrawdownSnapshot st)
           else Num 0))"

text \<open>
  \<open>wealthOrdered s t\<close>: the cash, invested and pillar-3 balances of both states are
  numbers, those of \<open>s\<close> are non-negative and at most those of \<open>t\<close>, and the pillar-3
  payout of \<open>t\<close> is at least as large and lasts at least as long.
\<close>

definition wealthOrdered :: "loopState \<Rightarrow> loopState \<Rightarrow> bool" where
  "wealthOrdered s t =
     (Num 0 \<le> v_cashBuffer s \<and> v_cashBuffer s \<le> v_cashBuffer t \<and>
      Num 0 \<le> v_investedWealth s \<and> v_investedWealth s \<le> v_investedWealth t \<and>
      Num 0 \<le> v_pillar3Wealth s \<and> v_pillar3Wealth s \<le> v_pillar3Wealth t \<and>
      v_retirementSnapshotTaken s = v_retirementSnapshotTaken t \<and>
      Num 0 \<le> v_pillar3AnnualDrawdownSnapshot s \<and>
      v_pillar3AnnualDrawdownSnapshot s \<le> v_pillar3AnnualDrawdownSnapshot t \<and>
      v_pillar3Wealth s * v_pillar3AnnualDrawdownSnapshot t \<le>
        v_pillar3Wealth t * v_pillar3AnnualDrawdownSnapshot s \<and>
      (\<not> v_retirementSnapshotTaken s \<longrightarrow>
         v_pillar3AnnualDrawdownSnapshot s = Num 0 \<and> v_pillar3AnnualDrawdownSnapshot t = Num 0))"

text \<open>
  The retired couple with savings of -1000 (an overdraft), and the default household two
  years before the end of the horizon, retiring next year.
\<close>

definition indebtedRetiree :: FinancialData where
  "indebtedRetiree = soloRetiree\<lparr>currentSavings := - 1000\<rparr>"


subsection \<open>The functions over an explicit store\<close>

text \<open>
  In the source the profile is an object passed by reference and \<open>childrenAges\<close> is an
  array written in place. Here objects live in a store: profile objects and number arrays
  at references, with \<open>nextRef\<close> the next unused reference. The functions below are the
  exported functions acting on the store: they read the profile through its reference in
  every iteration, keep the child ages in a freshly allocated array that each iteration
  writes back, and clone by allocating a new profile object with the same field values.
  A missing object makes the function fail (\<open>None\<close>).
\<close>

record store =
  profiles :: "nat \<Rightarrow> FinancialData option"
  arrays :: "nat \<Rightarrow> int list option"
  nextRef :: nat

definition allocProfile :: "FinancialData \<Rightarrow> store \<Rightarrow> nat \<times> store" where
  "allocProfile d h =
     (nextRef h, h\<lparr>profiles := (profiles h)(nextRef h \<mapsto> d), nextRef := Suc (nextRef h)\<rparr>)"

definition allocArray :: "int list \<Rightarrow> store \<Rightarrow> nat \<times> store" where
  "allocArray xs h =
     (nextRef h, h\<lparr>arrays := (arrays h)(nextRef h \<mapsto> xs), nextRef := Suc (nextRef h)\<rparr>)"

text \<open>\<open>JSON.parse(JSON.stringify(d))\<close>: a new object with the field values of the old one.\<close>

definition clone :: "nat \<Rightarrow> store \<Rightarrow> (nat \<times> store) option" where
  "clone r h = (case profiles h r of None \<Rightarrow> None | Some d \<Rightarrow> Some (allocProfile d h))"

text \<open>
  One iteration of the age loop on the store: the profile is read through \<open>dataRef\<close>, the
  child ages through \<open>agesRef\<close>, and the aged child ages are written back to \<open>agesRef\<close>.
\<close>

definition yearStep_ref ::
  "engine \<Rightarrow> int \<Rightarrow> ScenarioModifiers \<Rightarrow> nat \<Rightarrow> nat \<Rightarrow> int \<Rightarrow> loopState \<times> store \<Rightarrow>
   (loopState \<times> store) option" where
  "yearStep_ref e startYear m dataRef agesRef ageNow sh =
     (case profiles (snd sh) dataRef of
        None \<Rightarrow> None
      | Some d \<Rightarrow>
          (case arrays (snd sh) agesRef of
             None \<Rightarrow> None
           | Some ages \<Rightarrow>
               (let st = yearStep e startYear d m ageNow ((fst sh)\<lparr>v_childrenAges := ages\<rparr>)
                in Some (st, (snd sh)\<lparr>arrays := (arrays (snd sh))(agesRef \<mapsto> v_childrenAges st)\<rparr>))))"

function ageLoop_ref ::
  "engine \<Rightarrow> int \<Rightarrow> ScenarioModifiers \<Rightarrow> nat \<Rightarrow> nat \<Rightarrow> int \<Rightarrow> loopState \<times> store \<Rightarrow>
   (loopState \<times> store) option" where
  "ageLoop_ref e startYear m dataRef agesRef ageNow sh =
     (if ageNow \<le> DEFAULT_MAX_AGE
      then (case yearStep_ref e startYear m dataRef agesRef ageNow sh of
              None \<Rightarrow> None
            | Some sh' \<Rightarrow> ageLoop_ref e startYear m dataRef agesRef (ageNow + 1) sh')
      else Some sh)"
  by pat_completeness auto
termination
  by (relation "measure (\<lambda>(e, startYear, m, dataRef, agesRef, ageNow, sh).
        nat (DEFAULT_MAX_AGE + 1 - ageNow))") auto

definition calculateProjections_ref ::
  "engine \<Rightarrow> int \<Rightarrow> nat \<Rightarrow> ScenarioType \<Rightarrow> store \<Rightarrow> (ScenarioResult \<times> store) option" where
  "calculateProjections_ref e startYear dataRef scenario h =
     (case profiles h dataRef of
        None \<Rightarrow> None
      | Some d \<Rightarrow>
          (let alloc = allocArray (computeChildrenSchedule d) h
           in (case ageLoop_ref e startYear (modifiersFor scenario) dataRef (fst alloc)
                      (currentAge d) (initialState d, snd alloc) of
                 None \<Rightarrow> None
               | Some sh \<Rightarrow> Some (makeResult e scenario (fst sh), snd sh))))"

definition runOnClone ::
  "engine \<Rightarrow> int \<Rightarrow> nat \<Rightarrow> ScenarioType \<Rightarrow> store \<Rightarrow> (ScenarioResult \<times> store) option" where
  "runOnClone e startYear dataRef scenario h =
     (case clone dataRef h of
        None \<Rightarrow> None
      | Some c \<Rightarrow> calculateProjections_ref e startYear (fst c) scenario (snd c))"

definition runAllScenarios_ref ::
  "engine \<Rightarrow> int \<Rightarrow> nat \<Rightarrow> store \<Rightarrow> (ScenarioResult list \<times> store) option" where
  "runAllScenarios_ref e startYear dataRef h =
     (case runOnClone e startYear dataRef Pessimistic h of
        None \<Rightarrow> None
      | Some r1 \<Rightarrow>
          (case runOnClone e startYear dataRef Neutral (snd r1) of
             None \<Rightarrow> None
           | Some r2 \<Rightarrow>
               (case runOnClone e startYear dataRef Optimistic (snd r2) of
                  None \<Rightarrow> None
                | Some r3 \<Rightarrow> Some ([fst r1, fst r2, fst r3], snd r3))))"

text \<open>
  One candidate of the search on the store: clone, assign \<open>testData.retirementAge\<close> on the
  clone, run the neutral projection on it.
\<close>

definition testCandidate ::
  "engine \<Rightarrow> int \<Rightarrow> nat \<Rightarrow> int \<Rightarrow> store \<Rightarrow> (ScenarioResult \<times> store) option" where
  "testCandidate e startYear dataRef testAge h =
     (case clone dataRef h of
        None \<Rightarrow> None
      | Some c \<Rightarrow>
          (case profiles (snd c) (fst c) of
             None \<Rightarrow> None
           | Some testData \<Rightarrow>
               calculateProjections_ref e startYear (fst c) Neutral
                 ((snd c)\<lparr>profiles :=
                    (profiles (snd c))(fst c \<mapsto> testData\<lparr>retirementAge := testAge\<rparr>)\<rparr>)))"

function searchLoop_ref ::
  "engine \<Rightarrow> int \<Rightarrow> nat \<Rightarrow> int \<Rightarrow> int \<Rightarrow> store \<Rightarrow> (int option \<times> store) option" where
  "searchLoop_ref e startYear dataRef maxCheckAge testAge h =
     (if testAge \<le> maxCheckAge
      then (case testCandidate e startYear dataRef testAge h of
              None \<Rightarrow> None
            | Some r \<Rightarrow>
                (if meetsCriterion e (fst r) then Some (Some testAge, snd r)
                 else searchLoop_ref e startYear dataRef maxCheckAge (testAge + 1) (snd r)))
      else Some (None, h))"
  by pat_completeness auto
termination
  by (relation "measure (\<lambda>(e, startYear, dataRef, maxCheckAge, testAge, h).
        nat (maxCheckAge + 1 - testAge))") auto

definition calculateViableEarlyRetirement_ref ::
  "engine \<Rightarrow> int \<Rightarrow> nat \<Rightarrow> store \<Rightarrow> (int option \<times> store) option" where
  "calculateViableEarlyRetirement_ref e startYear dataRef h =
     (case profiles h dataRef of
        None \<Rightarrow> None
      | Some d \<Rightarrow> searchLoop_ref e startYear dataRef (searchTo e d) (searchFrom e) h)"

text \<open>A store holding the retired couple at reference 0.\<close>

definition exampleStore :: store where
  "exampleStore =
     \<lparr>profiles = (\<lambda>r. None)(0 \<mapsto> soloRetiree), arrays = (\<lambda>r. None), nextRef = 1\<rparr>"

section \<open>Properties\<close>

subsection \<open>Arithmetic and comparisons with \<open>NaN\<close>\<close>

lemma jsnum_arith [simp]:
  "Num a + Num b = Num (a + b)" "NaN + x = NaN" "x + NaN = NaN"
  "Num a - Num b = Num (a - b)" "NaN - x = NaN" "x - NaN = NaN"
  "Num a * Num b = Num (a * b)" "NaN * x = NaN" "x * NaN = NaN"
  "Num a / Num b = Num (a / b)" "NaN / x = NaN" "x / NaN = NaN"
  "- Num a = Num (- a)" "- NaN = NaN"
  by (simp_all add: plus_jsnum_def minus_jsnum_def times_jsnum_def divide_jsnum_def
        uminus_jsnum_def split: jsnum.splits)

lemma jsnum_compare [simp]:
  "Num a \<le> Num b \<longleftrightarrow> a \<le> b" "\<not> NaN \<le> x" "\<not> x \<le> NaN"
  "Num a < Num b \<longleftrightarrow> a < b" "\<not> NaN < x" "\<not> x < NaN"
  by (simp_all add: less_eq_jsnum_def less_jsnum_def split: jsnum.splits)

lemma Math_max_min [simp]:
  "Math_max (Num a) (Num b) = Num (max a b)" "Math_max NaN x = NaN" "Math_max x NaN = NaN"
  "Math_min (Num a) (Num b) = Num (min a b)" "Math_min NaN x = NaN" "Math_min x NaN = NaN"
  by (simp_all add: Math_max_def Math_min_def split: jsnum.splits)

lemma notNegative_simps [simp]: "notNegative (Num a) \<longleftrightarrow> 0 \<le> a" "notNegative NaN"
  by (simp_all add: notNegative_def not_less)

lemma Num_le_iff: "Num a \<le> x \<longleftrightarrow> (\<exists>b. x = Num b \<and> a \<le> b)"
  by (cases x) simp_all

lemma jsnum_le_cases:
  assumes "x \<le> y"
  obtains a b where "x = Num a" and "y = Num b" and "a \<le> b"
  using assms by (cases x; cases y) simp_all

subsection \<open>Reasoning about the loop\<close>

lemma childrenLoop_eq:
  "childrenLoop e d ages x c =
     (map (\<lambda>a. a + 1) ages,
      x + sum_list (map (\<lambda>a. if a < 0 then 0 else childCost e d a) ages),
      c + length (filter (\<lambda>a. 0 \<le> a \<and> a < 25) ages))"
  by (induction ages arbitrary: x c) (auto)

lemma ageLoop_rule:
  assumes "I a0 st"
    and "\<And>a s. a0 \<le> a \<Longrightarrow> a \<le> DEFAULT_MAX_AGE \<Longrightarrow> I a s \<Longrightarrow> I (a + 1) (yearStep e sy d m a s)"
  shows "I (max a0 (DEFAULT_MAX_AGE + 1)) (ageLoop e sy d m a0 st)"
  using assms
proof (induction "nat (DEFAULT_MAX_AGE + 1 - a0)" arbitrary: a0 st)
  case 0
  then have "max a0 (DEFAULT_MAX_AGE + 1) = a0" and "\<not> a0 \<le> DEFAULT_MAX_AGE" by simp_all
  with 0 show ?case by simp
next
  case (Suc n)
  then have le: "a0 \<le> DEFAULT_MAX_AGE" by simp
  have n: "n = nat (DEFAULT_MAX_AGE + 1 - (a0 + 1))" using Suc.hyps(2) by simp
  have i: "I (a0 + 1) (yearStep e sy d m a0 st)" using Suc.prems le by simp
  have "I (max (a0 + 1) (DEFAULT_MAX_AGE + 1)) (ageLoop e sy d m (a0 + 1) (yearStep e sy d m a0 st))"
    by (rule Suc.hyps(1)[OF n i]) (use Suc.prems(2) in simp)
  moreover have "max (a0 + 1) (DEFAULT_MAX_AGE + 1) = max a0 (DEFAULT_MAX_AGE + 1)" using le by simp
  ultimately show ?case using le by (simp del: ageLoop.simps add: ageLoop.simps[of e sy d m a0 st])
qed

declare ageLoop.simps [simp del]

lemma yearStep_working:
  "a < retirementAge d \<Longrightarrow>
   yearStep e sy d m a st = recordPhase e sy d a (workingPhase e d m a (expensesPhase e d m a st))"
  by (simp add: yearStep_def incomePhase_def)

lemma yearStep_retired:
  "retirementAge d \<le> a \<Longrightarrow>
   yearStep e sy d m a st = recordPhase e sy d a (retiredPhase e d m (expensesPhase e d m a st))"
  by (simp add: yearStep_def incomePhase_def)

lemma recordPhase_points [simp]:
  "v_points (recordPhase e sy d a sl) = v_points (fst sl) @ [makePoint e sy d a sl]"
  by (simp add: recordPhase_def Let_def)

lemma expensesPhase_points [simp]: "v_points (fst (expensesPhase e d m a st)) = v_points st"
  by (simp add: expensesPhase_def Let_def)

lemma workingPhase_points [simp]: "v_points (fst (workingPhase e d m a sl)) = v_points (fst sl)"
  by (simp add: workingPhase_def Let_def)

lemma retiredPhase_points [simp]: "v_points (fst (retiredPhase e d m sl)) = v_points (fst sl)"
  by (simp add: retiredPhase_def takeSnapshot_def Let_def)

lemma retiredPhase_pillar2 [simp]: "v_pillar2Wealth (fst (retiredPhase e d m sl)) = 0"
  by (simp add: retiredPhase_def Let_def)

lemma makePoint_age [simp]: "age (makePoint e sy d a sl) = a"
  by (simp add: makePoint_def Let_def)

lemma makePoint_buckets [simp]:
  "cashSavings (makePoint e sy d a sl) = v_cashBuffer (fst sl)"
  "investedAssets (makePoint e sy d a sl) = v_investedWealth (fst sl)"
  "pillar2Wealth (makePoint e sy d a sl) = v_pillar2Wealth (fst sl)"
  "pillar3Wealth (makePoint e sy d a sl) = v_pillar3Wealth (fst sl)"
  "totalWealth (makePoint e sy d a sl) = totalWealthOf (fst sl)"
  by (simp_all add: makePoint_def Let_def)

lemma incomePhase_points [simp]: "v_points (fst (incomePhase e d m a sl)) = v_points (fst sl)"
  by (simp add: incomePhase_def)

lemma yearStep_points:
  "v_points (yearStep e sy d m a st) =
     v_points st @ [makePoint e sy d a (incomePhase e d m a (expensesPhase e d m a st))]"
  by (simp add: yearStep_def)

lemma incomePhase_retired_pillar2:
  "retirementAge d \<le> a \<Longrightarrow> v_pillar2Wealth (fst (incomePhase e d m a sl)) = 0"
  by (simp add: incomePhase_def)

lemmas engine_defs =
  calculateProjections_def makeResult_def modifiersFor_def initialState_def
  computeChildrenSchedule_def
  DEFAULT_MAX_AGE_def yearStep_def incomePhase_def expensesPhase_def workingPhase_def retiredPhase_def
  takeSnapshot_def recordPhase_def makePoint_def notesNow_def depletedNow_def totalWealthOf_def
  lastTotalWealth_def absorbDeficit_def allocateWorking_def allocateRetired_def
  baseInflationPct_def effectiveInvestmentReturnPct_def expMult_def getSalaryGrowthRate_def
  getTaxFactor_def taxFactorByCanton_def objectPrototypeKeys_def childCost_def uniCost_def
  AHV_COUPLE_MAX_ANNUAL_2025_def LPP_CONVERSION_RATE_def LPP_INTEREST_RATE_def
  RETIREMENT_SAFETY_BUFFER_def ageLoop.simps Let_def

lemma calc_fields [simp]:
  "data (calculateProjections e sy d sc) =
     v_points (ageLoop e sy d (modifiersFor sc) (currentAge d) (initialState d))"
  "finalWealth (calculateProjections e sy d sc) =
     lastTotalWealth (v_points (ageLoop e sy d (modifiersFor sc) (currentAge d) (initialState d)))"
  "savingsDepletedAge (calculateProjections e sy d sc) =
     v_savingsDepletedAge (ageLoop e sy d (modifiersFor sc) (currentAge d) (initialState d))"
  by (simp_all add: calculateProjections_def makeResult_def)

lemma expensesPhase_frame [simp]:
  "v_grossSalary1 (fst (expensesPhase e d m a st)) = v_grossSalary1 st"
  "v_grossSalary2 (fst (expensesPhase e d m a st)) = v_grossSalary2 st"
  "v_grossBonus (fst (expensesPhase e d m a st)) = v_grossBonus st"
  "v_pillar2Wealth (fst (expensesPhase e d m a st)) = v_pillar2Wealth st"
  "v_pillar3Wealth (fst (expensesPhase e d m a st)) = v_pillar3Wealth st"
  "v_cashBuffer (fst (expensesPhase e d m a st)) = v_cashBuffer st"
  "v_investedWealth (fst (expensesPhase e d m a st)) = v_investedWealth st"
  "v_ahvAnnualPensionSnapshot (fst (expensesPhase e d m a st)) = v_ahvAnnualPensionSnapshot st"
  "v_lppAnnualPensionSnapshot (fst (expensesPhase e d m a st)) = v_lppAnnualPensionSnapshot st"
  "v_pillar3AnnualDrawdownSnapshot (fst (expensesPhase e d m a st)) = v_pillar3AnnualDrawdownSnapshot st"
  "v_retirementSnapshotTaken (fst (expensesPhase e d m a st)) = v_retirementSnapshotTaken st"
  "v_maxWealth (fst (expensesPhase e d m a st)) = v_maxWealth st"
  "v_savingsDepletedAge (fst (expensesPhase e d m a st)) = v_savingsDepletedAge st"
  by (simp_all add: expensesPhase_def Let_def)

lemma expensesPhase_children [simp]:
  "v_childrenAges (fst (expensesPhase e d m a st)) = map (\<lambda>x. x + 1) (v_childrenAges st)"
  "l_annualChildrenExpenses (snd (expensesPhase e d m a st)) =
     sum_list (map (\<lambda>x. if x < 0 then 0 else childCost e d x) (v_childrenAges st)) * expMult m"
  "l_activeChildrenCount (snd (expensesPhase e d m a st)) =
     length (filter (\<lambda>x. 0 \<le> x \<and> x < 25) (v_childrenAges st))"
  by (simp_all add: expensesPhase_def Let_def childrenLoop_eq)

lemma workingPhase_frame [simp]:
  "v_ahvAnnualPensionSnapshot (fst (workingPhase e d m a sl)) = v_ahvAnnualPensionSnapshot (fst sl)"
  "v_lppAnnualPensionSnapshot (fst (workingPhase e d m a sl)) = v_lppAnnualPensionSnapshot (fst sl)"
  "v_pillar3AnnualDrawdownSnapshot (fst (workingPhase e d m a sl)) = v_pillar3AnnualDrawdownSnapshot (fst sl)"
  "v_retirementSnapshotTaken (fst (workingPhase e d m a sl)) = v_retirementSnapshotTaken (fst sl)"
  "v_childrenAges (fst (workingPhase e d m a sl)) = v_childrenAges (fst sl)"
  "v_maxWealth (fst (workingPhase e d m a sl)) = v_maxWealth (fst sl)"
  "v_savingsDepletedAge (fst (workingPhase e d m a sl)) = v_savingsDepletedAge (fst sl)"
  "v_currentRent (fst (workingPhase e d m a sl)) = v_currentRent (fst sl)"
  "v_hasMovedHouse (fst (workingPhase e d m a sl)) = v_hasMovedHouse (fst sl)"
  "l_notes (snd (workingPhase e d m a sl)) = l_notes (snd sl)"
  "l_inflationFactor (snd (workingPhase e d m a sl)) = l_inflationFactor (snd sl)"
  "l_activeChildrenCount (snd (workingPhase e d m a sl)) = l_activeChildrenCount (snd sl)"
  "l_annualChildrenExpenses (snd (workingPhase e d m a sl)) = l_annualChildrenExpenses (snd sl)"
  "l_livingAnnual (snd (workingPhase e d m a sl)) = l_livingAnnual (snd sl)"
  "l_travelAnnual (snd (workingPhase e d m a sl)) = l_travelAnnual (snd sl)"
  "l_housingAnnual (snd (workingPhase e d m a sl)) = l_housingAnnual (snd sl)"
  "l_totalExpenses (snd (workingPhase e d m a sl)) = l_totalExpenses (snd sl)"
  "l_pensionAHV (snd (workingPhase e d m a sl)) = l_pensionAHV (snd sl)"
  "l_pensionLPP (snd (workingPhase e d m a sl)) = l_pensionLPP (snd sl)"
  "l_pension3a (snd (workingPhase e d m a sl)) = l_pension3a (snd sl)"
  by (simp_all add: workingPhase_def Let_def)

lemma takeSnapshot_frame [simp]:
  "v_grossSalary1 (fst (takeSnapshot e d sl)) = v_grossSalary1 (fst sl)"
  "v_grossSalary2 (fst (takeSnapshot e d sl)) = v_grossSalary2 (fst sl)"
  "v_grossBonus (fst (takeSnapshot e d sl)) = v_grossBonus (fst sl)"
  "v_pillar2Wealth (fst (takeSnapshot e d sl)) = v_pillar2Wealth (fst sl)"
  "v_pillar3Wealth (fst (takeSnapshot e d sl)) = v_pillar3Wealth (fst sl)"
  "v_cashBuffer (fst (takeSnapshot e d sl)) = v_cashBuffer (fst sl)"
  "v_investedWealth (fst (takeSnapshot e d sl)) = v_investedWealth (fst sl)"
  "v_childrenAges (fst (takeSnapshot e d sl)) = v_childrenAges (fst sl)"
  "v_points (fst (takeSnapshot e d sl)) = v_points (fst sl)"
  "v_maxWealth (fst (takeSnapshot e d sl)) = v_maxWealth (fst sl)"
  "v_savingsDepletedAge (fst (takeSnapshot e d sl)) = v_savingsDepletedAge (fst sl)"
  "v_currentRent (fst (takeSnapshot e d sl)) = v_currentRent (fst sl)"
  "v_hasMovedHouse (fst (takeSnapshot e d sl)) = v_hasMovedHouse (fst sl)"
  "v_retirementSnapshotTaken (fst (takeSnapshot e d sl)) = True"
  "l_inflationFactor (snd (takeSnapshot e d sl)) = l_inflationFactor (snd sl)"
  "l_activeChildrenCount (snd (takeSnapshot e d sl)) = l_activeChildrenCount (snd sl)"
  "l_annualChildrenExpenses (snd (takeSnapshot e d sl)) = l_annualChildrenExpenses (snd sl)"
  "l_livingAnnual (snd (takeSnapshot e d sl)) = l_livingAnnual (snd sl)"
  "l_travelAnnual (snd (takeSnapshot e d sl)) = l_travelAnnual (snd sl)"
  "l_housingAnnual (snd (takeSnapshot e d sl)) = l_housingAnnual (snd sl)"
  "l_totalExpenses (snd (takeSnapshot e d sl)) = l_totalExpenses (snd sl)"
  by (cases e; simp add: takeSnapshot_def Let_def)+

lemma retiredPhase_frame [simp]:
  "v_grossSalary1 (fst (retiredPhase e d m sl)) = v_grossSalary1 (fst sl)"
  "v_grossSalary2 (fst (retiredPhase e d m sl)) = v_grossSalary2 (fst sl)"
  "v_grossBonus (fst (retiredPhase e d m sl)) = v_grossBonus (fst sl)"
  "v_childrenAges (fst (retiredPhase e d m sl)) = v_childrenAges (fst sl)"
  "v_maxWealth (fst (retiredPhase e d m sl)) = v_maxWealth (fst sl)"
  "v_savingsDepletedAge (fst (retiredPhase e d m sl)) = v_savingsDepletedAge (fst sl)"
  "v_currentRent (fst (retiredPhase e d m sl)) = v_currentRent (fst sl)"
  "v_hasMovedHouse (fst (retiredPhase e d m sl)) = v_hasMovedHouse (fst sl)"
  "v_retirementSnapshotTaken (fst (retiredPhase e d m sl)) = True"
  "l_inflationFactor (snd (retiredPhase e d m sl)) = l_inflationFactor (snd sl)"
  "l_activeChildrenCount (snd (retiredPhase e d m sl)) = l_activeChildrenCount (snd sl)"
  "l_annualChildrenExpenses (snd (retiredPhase e d m sl)) = l_annualChildrenExpenses (snd sl)"
  "l_livingAnnual (snd (retiredPhase e d m sl)) = l_livingAnnual (snd sl)"
  "l_travelAnnual (snd (retiredPhase e d m sl)) = l_travelAnnual (snd sl)"
  "l_housingAnnual (snd (retiredPhase e d m sl)) = l_housingAnnual (snd sl)"
  "l_totalExpenses (snd (retiredPhase e d m sl)) = l_totalExpenses (snd sl)"
  by (simp_all add: retiredPhase_def Let_def)

lemma recordPhase_frame [simp]:
  "v_grossSalary1 (recordPhase e sy d a sl) = v_grossSalary1 (fst sl)"
  "v_grossSalary2 (recordPhase e sy d a sl) = v_grossSalary2 (fst sl)"
  "v_grossBonus (recordPhase e sy d a sl) = v_grossBonus (fst sl)"
  "v_pillar2Wealth (recordPhase e sy d a sl) = v_pillar2Wealth (fst sl)"
  "v_pillar3Wealth (recordPhase e sy d a sl) = v_pillar3Wealth (fst sl)"
  "v_cashBuffer (recordPhase e sy d a sl) = v_cashBuffer (fst sl)"
  "v_investedWealth (recordPhase e sy d a sl) = v_investedWealth (fst sl)"
  "v_ahvAnnualPensionSnapshot (recordPhase e sy d a sl) = v_ahvAnnualPensionSnapshot (fst sl)"
  "v_lppAnnualPensionSnapshot (recordPhase e sy d a sl) = v_lppAnnualPensionSnapshot (fst sl)"
  "v_pillar3AnnualDrawdownSnapshot (recordPhase e sy d a sl) = v_pillar3AnnualDrawdownSnapshot (fst sl)"
  "v_retirementSnapshotTaken (recordPhase e sy d a sl) = v_retirementSnapshotTaken (fst sl)"
  "v_childrenAges (recordPhase e sy d a sl) = v_childrenAges (fst sl)"
  "v_currentRent (recordPhase e sy d a sl) = v_currentRent (fst sl)"
  "v_hasMovedHouse (recordPhase e sy d a sl) = v_hasMovedHouse (fst sl)"
  by (simp_all add: recordPhase_def Let_def)

lemma makePoint_fields [simp]:
  "childrenExpenses (makePoint e sy d a sl) = l_annualChildrenExpenses (snd sl)"
  "housingExpenses (makePoint e sy d a sl) = l_housingAnnual (snd sl)"
  "activeChildren (makePoint e sy d a sl) = l_activeChildrenCount (snd sl)"
  "pensionAHV (makePoint e sy d a sl) = l_pensionAHV (snd sl)"
  "pensionLPP (makePoint e sy d a sl) = l_pensionLPP (snd sl)"
  "pension3a (makePoint e sy d a sl) = l_pension3a (snd sl)"
  "yearlySavings (makePoint e sy d a sl) = l_annualSavingsCapacity (snd sl)"
  "notes_opt (makePoint e sy d a sl) =
     (if notesNow e sl = [] then None else Some (notesNow e sl))"
  by (simp_all add: makePoint_def Let_def)

text \<open>The part of a step that every later phase leaves alone.\<close>

lemma incomePhase_frame [simp]:
  "v_childrenAges (fst (incomePhase e d m a sl)) = v_childrenAges (fst sl)"
  "v_maxWealth (fst (incomePhase e d m a sl)) = v_maxWealth (fst sl)"
  "v_savingsDepletedAge (fst (incomePhase e d m a sl)) = v_savingsDepletedAge (fst sl)"
  "v_currentRent (fst (incomePhase e d m a sl)) = v_currentRent (fst sl)"
  "v_hasMovedHouse (fst (incomePhase e d m a sl)) = v_hasMovedHouse (fst sl)"
  "l_inflationFactor (snd (incomePhase e d m a sl)) = l_inflationFactor (snd sl)"
  "l_activeChildrenCount (snd (incomePhase e d m a sl)) = l_activeChildrenCount (snd sl)"
  "l_annualChildrenExpenses (snd (incomePhase e d m a sl)) = l_annualChildrenExpenses (snd sl)"
  "l_livingAnnual (snd (incomePhase e d m a sl)) = l_livingAnnual (snd sl)"
  "l_travelAnnual (snd (incomePhase e d m a sl)) = l_travelAnnual (snd sl)"
  "l_housingAnnual (snd (incomePhase e d m a sl)) = l_housingAnnual (snd sl)"
  "l_totalExpenses (snd (incomePhase e d m a sl)) = l_totalExpenses (snd sl)"
  by (simp_all add: incomePhase_def)

lemma yearStep_children [simp]:
  "v_childrenAges (yearStep e sy d m a st) = map (\<lambda>x. x + 1) (v_childrenAges st)"
  by (simp add: yearStep_def)

lemma yearStep_last_childrenExpenses:
  "childrenExpenses (last (v_points (yearStep e sy d m a st))) =
     sum_list (map (\<lambda>x. if x < 0 then 0 else childCost e d x) (v_childrenAges st)) * expMult m"
  by (simp add: yearStep_def)

lemma ageLoop_prefix:
  "\<exists>ys. v_points (ageLoop e sy d m a st) = v_points st @ ys"
proof -
  let ?I = "\<lambda>(a::int) (s::loopState). \<exists>ys. v_points s = v_points st @ ys"
  have "?I (max a (DEFAULT_MAX_AGE + 1)) (ageLoop e sy d m a st)"
    by (rule ageLoop_rule[where I = ?I]) (auto simp: yearStep_points)
  then show ?thesis .
qed

lemma ageLoop_unfold:
  "a \<le> DEFAULT_MAX_AGE \<Longrightarrow>
   ageLoop e sy d m a st = ageLoop e sy d m (a + 1) (yearStep e sy d m a st)"
  by (simp add: ageLoop.simps[of e sy d m a st])

subsection \<open>Pillar 2 after retirement\<close>

text \<open>
  C4. In every yearly snapshot produced at an age greater than or equal to the retirement
  age, the pillar-2 wealth bucket is exactly 0, for every profile, scenario and engine.
\<close>

theorem pillar2_zero_after_retirement:
  "\<forall>p \<in> set (data (calculateProjections e sy d scenario)).
     age p \<ge> retirementAge d \<longrightarrow> pillar2Wealth p = 0"
proof -
  let ?I = "\<lambda>(a::int) (st::loopState). \<forall>p \<in> set (v_points st). age p \<ge> retirementAge d \<longrightarrow> pillar2Wealth p = 0"
  have "?I (max (currentAge d) (DEFAULT_MAX_AGE + 1))
          (ageLoop e sy d (modifiersFor scenario) (currentAge d) (initialState d))"
  proof (rule ageLoop_rule[where I = ?I])
    show "?I (currentAge d) (initialState d)" by (simp add: initialState_def)
  next
    fix a s assume "?I a s"
    then show "?I (a + 1) (yearStep e sy d (modifiersFor scenario) a s)"
      by (auto simp: yearStep_points incomePhase_retired_pillar2)
  qed
  then show ?thesis by (simp add: calculateProjections_def makeResult_def)
qed

theorem pillar2_zero_after_retirement_witness:
  "pillar2Wealth (data (calculateProjections Current 2025 soloRetiree Neutral) ! 1) = 0"
proof -
  let ?ps = "data (calculateProjections Current 2025 soloRetiree Neutral)"
  have len: "length ?ps = 2" by (simp add: engine_defs soloRetiree_def)
  have ag: "age (?ps ! 1) = 90" by (simp add: engine_defs soloRetiree_def)
  have "?ps ! 1 \<in> set ?ps" using len by (simp del: calc_fields)
  moreover have "retirementAge soloRetiree \<le> age (?ps ! 1)"
    using ag by (simp add: soloRetiree_def)
  ultimately show ?thesis
    using pillar2_zero_after_retirement[of Current 2025 soloRetiree Neutral] by blast
qed

subsection \<open>Children not yet born\<close>

text \<open>
  C9. For a profile with a monthly daycare cost of 2500 whose child schedule is the single
  slot \<open>-1\<close> (one child, born next year), the neutral run reports children expenses of 0
  in simulation year 0 and of 30000 in simulation year 1; both years exist when the
  current age is at most 89. In general the child loop adds the cost of the slots with a
  non-negative age only.
\<close>

theorem newborn_daycare_example:
  assumes daycare: "monthlyDaycareCost d = 2500"
    and sched: "computeChildrenSchedule d = [- 1]"
    and two: "currentAge d + 1 \<le> DEFAULT_MAX_AGE"
  shows "childrenExpenses (data (calculateProjections e sy d Neutral) ! 0) = 0 \<and>
         childrenExpenses (data (calculateProjections e sy d Neutral) ! 1) = 30000 \<and>
         fst (snd (childrenLoop e d ages 0 0)) =
           sum_list (map (childCost e d) (filter (\<lambda>x. 0 \<le> x) ages))"
proof -
  let ?m = "modifiersFor Neutral"
  let ?s0 = "initialState d"
  let ?s1 = "yearStep e sy d ?m (currentAge d) ?s0"
  let ?s2 = "yearStep e sy d ?m (currentAge d + 1) ?s1"
  have unf: "ageLoop e sy d ?m (currentAge d) ?s0 = ageLoop e sy d ?m (currentAge d + 1 + 1) ?s2"
    using two by (simp add: ageLoop_unfold)
  obtain ys where ys: "v_points (ageLoop e sy d ?m (currentAge d + 1 + 1) ?s2) = v_points ?s2 @ ys"
    using ageLoop_prefix by blast
  have p0: "v_points ?s0 = []" by (simp add: initialState_def)
  obtain q0 where q0: "v_points ?s1 = [q0]" using p0 by (simp add: yearStep_points)
  obtain q1 where q1: "v_points ?s2 = [q0, q1]" using q0 by (simp add: yearStep_points)
  have pts: "data (calculateProjections e sy d Neutral) = [q0, q1] @ ys"
    using unf ys q1 by simp
  have c0: "childrenExpenses q0 = 0"
    using yearStep_last_childrenExpenses[of e sy d ?m "currentAge d" ?s0] q0 sched
    by (simp add: initialState_def)
  have ages1: "v_childrenAges ?s1 = [0]" using sched by (simp add: initialState_def)
  have "childrenExpenses (last (v_points ?s2)) =
          sum_list (map (\<lambda>x. if x < 0 then 0 else childCost e d x) [0]) * expMult ?m"
    unfolding yearStep_last_childrenExpenses ages1 ..
  then have "childrenExpenses (last (v_points ?s2)) = 30000"
    using daycare by (simp add: childCost_def expMult_def modifiersFor_def)
  then have c1: "childrenExpenses q1 = 30000"
    unfolding q1 by simp
  have g0: "childrenExpenses (data (calculateProjections e sy d Neutral) ! 0) = 0"
    using pts c0 by simp
  have g1: "childrenExpenses (data (calculateProjections e sy d Neutral) ! 1) = 30000"
    using pts c1 by simp
  have g2: "fst (snd (childrenLoop e d ages 0 0)) =
           sum_list (map (childCost e d) (filter (\<lambda>x. 0 \<le> x) ages))"
    by (induction ages) (simp_all add: childrenLoop_eq)
  from g0 g1 g2 show ?thesis by blast
qed

theorem newborn_daycare_example_witness:
  "childrenExpenses (data (calculateProjections Current 2025 newbornHousehold Neutral) ! 0) = 0 \<and>
   childrenExpenses (data (calculateProjections Current 2025 newbornHousehold Neutral) ! 1) = 30000"
proof -
  have a: "monthlyDaycareCost newbornHousehold = 2500"
    by (simp add: newbornHousehold_def)
  have b: "computeChildrenSchedule newbornHousehold = [- 1]"
    by (simp add: newbornHousehold_def soloRetiree_def computeChildrenSchedule_def)
  have c: "currentAge newbornHousehold + 1 \<le> DEFAULT_MAX_AGE"
    by (simp add: newbornHousehold_def soloRetiree_def DEFAULT_MAX_AGE_def)
  from newborn_daycare_example[OF a b c, of Current 2025 "[]"] show ?thesis by blast
qed

subsection \<open>The run as a sequence of states\<close>

lemma ageLoop_done: "\<not> a \<le> DEFAULT_MAX_AGE \<Longrightarrow> ageLoop e sy d m a st = st"
  by (simp add: ageLoop.simps[of e sy d m a st])

lemma ageLoop_stateAfter_from:
  "k \<le> simulatedYears d \<Longrightarrow>
   ageLoop e sy d m (currentAge d + int k) (stateAfter e sy d m k) =
     stateAfter e sy d m (simulatedYears d)"
proof (induction "simulatedYears d - k" arbitrary: k)
  case 0
  then have k: "k = simulatedYears d" by simp
  then have "\<not> currentAge d + int k \<le> DEFAULT_MAX_AGE"
    by (simp add: simulatedYears_def)
  then show ?case using k by (simp add: ageLoop_done)
next
  case (Suc n)
  then have lt: "k < simulatedYears d" by simp
  then have le: "currentAge d + int k \<le> DEFAULT_MAX_AGE"
    by (simp add: simulatedYears_def)
  have ih: "ageLoop e sy d m (currentAge d + int (Suc k)) (stateAfter e sy d m (Suc k)) =
          stateAfter e sy d m (simulatedYears d)"
    by (rule Suc.hyps(1)) (use Suc.hyps(2) lt in simp_all)
  have eq: "currentAge d + int (Suc k) = currentAge d + int k + 1" by simp
  have "ageLoop e sy d m (currentAge d + int k) (stateAfter e sy d m k) =
        ageLoop e sy d m (currentAge d + int k + 1) (stateAfter e sy d m (Suc k))"
    unfolding stateAfter.simps by (rule ageLoop_unfold[OF le])
  then show ?case using ih unfolding eq by simp
qed

lemma ageLoop_stateAfter:
  "ageLoop e sy d m (currentAge d) (initialState d) = stateAfter e sy d m (simulatedYears d)"
  using ageLoop_stateAfter_from[of 0 d e sy m] by simp

lemma stateAfter_points:
  "v_points (stateAfter e sy d m k) = map (pointAt e sy d m) [0 ..< k]"
  by (induction k) (simp_all add: initialState_def yearStep_points pointAt_def)

lemma data_pointAt:
  "data (calculateProjections e sy d sc) =
     map (pointAt e sy d (modifiersFor sc)) [0 ..< simulatedYears d]"
  by (simp add: ageLoop_stateAfter stateAfter_points)

lemma data_length: "length (data (calculateProjections e sy d sc)) = simulatedYears d"
  by (simp only: data_pointAt length_map length_upt diff_zero)

lemma data_nth:
  "k < simulatedYears d \<Longrightarrow>
   data (calculateProjections e sy d sc) ! k = pointAt e sy d (modifiersFor sc) k"
  by (simp only: data_pointAt) simp

lemma pointAt_age [simp]: "age (pointAt e sy d m k) = currentAge d + int k"
  by (simp add: pointAt_def)

subsection \<open>The wealth buckets after one year\<close>

lemma workingPhase_wealth:
  "v_pillar2Wealth (fst (workingPhase e d m a sl)) =
     v_pillar2Wealth (fst sl) * (1 + LPP_INTEREST_RATE) +
     (v_grossSalary1 (fst sl) + v_grossSalary2 (fst sl)) * 0.12"
  "v_pillar3Wealth (fst (workingPhase e d m a sl)) =
     v_pillar3Wealth (fst sl) * Num (1 + effectiveInvestmentReturnPct d m / 100) +
     workingP3 e d (fst sl)"
  "v_cashBuffer (fst (workingPhase e d m a sl)) =
     fst (allocateWorking (v_cashBuffer (fst sl)) (v_investedWealth (fst sl))
            (l_annualSavingsCapacity (snd (workingPhase e d m a sl))))"
  "v_investedWealth (fst (workingPhase e d m a sl)) =
     snd (allocateWorking (v_cashBuffer (fst sl)) (v_investedWealth (fst sl))
            (l_annualSavingsCapacity (snd (workingPhase e d m a sl)))) *
     Num (1 + effectiveInvestmentReturnPct d m / 100)"
  "l_annualSavingsCapacity (snd (workingPhase e d m a sl)) =
     workingNet d (fst sl) - workingP3 e d (fst sl) - Num (l_totalExpenses (snd sl))"
  "l_totalIncomeNet (snd (workingPhase e d m a sl)) = workingNet d (fst sl)"
  by (simp_all add: workingPhase_def Let_def workingNet_def workingP3_def plannedP3_def
        split: engine.splits)

lemma retiredPhase_wealth:
  "v_pillar3Wealth (fst (retiredPhase e d m sl)) =
     Math_max (Num 0)
       (v_pillar3Wealth (fst (takeSnapshot e d sl)) - drawdown e (fst (takeSnapshot e d sl))) *
     Num (1 + (effectiveInvestmentReturnPct d m / 100) * 0.3)"
  "v_cashBuffer (fst (retiredPhase e d m sl)) =
     fst (allocateRetired (v_cashBuffer (fst sl)) (v_investedWealth (fst sl))
            (l_annualSavingsCapacity (snd (retiredPhase e d m sl))))"
  "v_investedWealth (fst (retiredPhase e d m sl)) =
     snd (allocateRetired (v_cashBuffer (fst sl)) (v_investedWealth (fst sl))
            (l_annualSavingsCapacity (snd (retiredPhase e d m sl)))) *
     Num (1 + effectiveInvestmentReturnPct d m / 100)"
  "l_annualSavingsCapacity (snd (retiredPhase e d m sl)) =
     (Num (AHV_COUPLE_MAX_ANNUAL_2025 * l_inflationFactor (snd sl)) +
      Num (v_lppAnnualPensionSnapshot (fst (takeSnapshot e d sl))) +
      drawdown e (fst (takeSnapshot e d sl))) * Num 0.85 - Num (l_totalExpenses (snd sl))"
  "v_lppAnnualPensionSnapshot (fst (retiredPhase e d m sl)) =
     v_lppAnnualPensionSnapshot (fst (takeSnapshot e d sl))"
  "v_pillar3AnnualDrawdownSnapshot (fst (retiredPhase e d m sl)) =
     v_pillar3AnnualDrawdownSnapshot (fst (takeSnapshot e d sl))"
  by (simp_all add: retiredPhase_def Let_def drawdown_def split: engine.splits)

lemma pointAt_buckets:
  "cashSavings (pointAt e sy d m k) = v_cashBuffer (stateAfter e sy d m (Suc k))"
  "investedAssets (pointAt e sy d m k) = v_investedWealth (stateAfter e sy d m (Suc k))"
  "pillar2Wealth (pointAt e sy d m k) = v_pillar2Wealth (stateAfter e sy d m (Suc k))"
  "pillar3Wealth (pointAt e sy d m k) = v_pillar3Wealth (stateAfter e sy d m (Suc k))"
  by (simp_all add: pointAt_def yearStep_def)

subsection \<open>Depletion\<close>

lemma getTaxFactor_range:
  "getTaxFactor c \<in> {NaN, Num 0.78, Num 0.82, Num 0.70, Num 0.73, Num 0.75}"
  by (simp add: getTaxFactor_def taxFactorByCanton_def)

lemma getTaxFactor_pos: "getTaxFactor c = Num f \<Longrightarrow> 0 < f"
  using getTaxFactor_range[of c] by auto

lemma eff_nonneg: "0 \<le> effectiveInvestmentReturnPct d m"
  by (simp add: effectiveInvestmentReturnPct_def)

lemma notNegative_add: "notNegative x \<Longrightarrow> notNegative y \<Longrightarrow> notNegative (x + y)"
  by (cases x; cases y) simp_all

lemma notNegative_scale: "notNegative x \<Longrightarrow> 0 \<le> g \<Longrightarrow> notNegative (x * Num g)"
  by (cases x) simp_all

lemma notNegative_floor: "notNegative (Math_max (Num 0) x)"
  by (cases x) simp_all

lemma allocateWorking_notNegative:
  assumes "notNegative c" and "notNegative i"
  shows "notNegative (fst (allocateWorking c i x))" and "notNegative (snd (allocateWorking c i x))"
  using assms by (cases c; cases i; cases x; simp add: allocateWorking_def absorbDeficit_def)+

lemma allocateRetired_notNegative:
  assumes "notNegative c" and "notNegative i"
  shows "notNegative (fst (allocateRetired c i x))" and "notNegative (snd (allocateRetired c i x))"
  using assms by (cases c; cases i; cases x; simp add: allocateRetired_def absorbDeficit_def)+

lemma boost_nonneg: "b \<le> getSalaryGrowthRate a stage b"
  by (simp add: getSalaryGrowthRate_def)

lemma salary_factor_nonneg:
  assumes "- 99.5 \<le> expectedSalaryIncrease d"
  shows "0 \<le> 1 + getSalaryGrowthRate a stage (baseInflationPct d (modifiersFor sc) / 100)
              + salaryGrowthModPct (modifiersFor sc) / 100"
proof -
  have "baseInflationPct d (modifiersFor sc) / 100 \<le>
        getSalaryGrowthRate a stage (baseInflationPct d (modifiersFor sc) / 100)"
    by (rule boost_nonneg)
  moreover have "0 \<le> 1 + baseInflationPct d (modifiersFor sc) / 100
                       + salaryGrowthModPct (modifiersFor sc) / 100"
    using assms by (cases sc) (simp_all add: baseInflationPct_def modifiersFor_def field_simps)
  ultimately show ?thesis by linarith
qed

lemma bonus_factor_nonneg:
  assumes "- 99.5 \<le> expectedSalaryIncrease d"
  shows "0 \<le> 1 + baseInflationPct d (modifiersFor sc) / 100"
  using assms by (cases sc) (simp_all add: baseInflationPct_def modifiersFor_def field_simps)

lemma workingNet_notNegative:
  assumes "0 \<le> v_grossSalary1 st" and "0 \<le> v_grossSalary2 st" and "0 \<le> v_grossBonus st"
  shows "notNegative (workingNet d st)"
proof (cases "getTaxFactor (canton d)")
  case (Num f)
  then have "0 \<le> f" using getTaxFactor_pos[of "canton d" f] by simp
  then show ?thesis using assms Num by (simp add: workingNet_def)
next
  case NaN
  then show ?thesis by (simp add: workingNet_def)
qed

lemma workingP3_notNegative:
  assumes "0 \<le> plannedP3 d" and "notNegative (workingNet d st)"
  shows "notNegative (workingP3 e d st)"
  using assms by (cases "workingNet d st"; cases e) (simp_all add: workingP3_def)

lemma workingPhase_solvent:
  assumes nn: "nonNegativeMonetary d" and rate: "- 99.5 \<le> expectedSalaryIncrease d"
    and s: "0 \<le> v_grossSalary1 (fst sl)" "0 \<le> v_grossSalary2 (fst sl)" "0 \<le> v_grossBonus (fst sl)"
      "0 \<le> v_pillar2Wealth (fst sl)" "notNegative (v_pillar3Wealth (fst sl))"
      "notNegative (v_cashBuffer (fst sl))" "notNegative (v_investedWealth (fst sl))"
  shows "0 \<le> v_grossSalary1 (fst (workingPhase e d (modifiersFor sc) a sl))"
    and "0 \<le> v_grossSalary2 (fst (workingPhase e d (modifiersFor sc) a sl))"
    and "0 \<le> v_grossBonus (fst (workingPhase e d (modifiersFor sc) a sl))"
    and "0 \<le> v_pillar2Wealth (fst (workingPhase e d (modifiersFor sc) a sl))"
    and "notNegative (v_pillar3Wealth (fst (workingPhase e d (modifiersFor sc) a sl)))"
    and "notNegative (v_cashBuffer (fst (workingPhase e d (modifiersFor sc) a sl)))"
    and "notNegative (v_investedWealth (fst (workingPhase e d (modifiersFor sc) a sl)))"
proof -
  let ?m = "modifiersFor sc"
  have planned: "0 \<le> plannedP3 d"
    using nn by (simp add: nonNegativeMonetary_def plannedP3_def)
  have p3c: "notNegative (workingP3 e d (fst sl))"
    by (rule workingP3_notNegative[OF planned workingNet_notNegative[OF s(1) s(2) s(3)]])
  have eff: "0 \<le> 1 + effectiveInvestmentReturnPct d ?m / 100" using eff_nonneg[of d ?m] by simp
  show "0 \<le> v_grossSalary1 (fst (workingPhase e d ?m a sl))"
    using s(1) salary_factor_nonneg[OF rate, of a "careerStage1 d" sc]
    by (simp add: workingPhase_def Let_def)
  show "0 \<le> v_grossSalary2 (fst (workingPhase e d ?m a sl))"
    using s(2) salary_factor_nonneg[OF rate, of a "careerStage2 d" sc]
    by (simp add: workingPhase_def Let_def)
  show "0 \<le> v_grossBonus (fst (workingPhase e d ?m a sl))"
    using s(3) bonus_factor_nonneg[OF rate, of sc]
    by (simp add: workingPhase_def Let_def)
  show "0 \<le> v_pillar2Wealth (fst (workingPhase e d ?m a sl))"
    using s by (simp add: workingPhase_wealth LPP_INTEREST_RATE_def)
  show "notNegative (v_pillar3Wealth (fst (workingPhase e d ?m a sl)))"
    unfolding workingPhase_wealth
    by (rule notNegative_add[OF notNegative_scale[OF s(5) eff] p3c])
  show "notNegative (v_cashBuffer (fst (workingPhase e d ?m a sl)))"
    unfolding workingPhase_wealth(3) by (rule allocateWorking_notNegative[OF s(6) s(7)])
  show "notNegative (v_investedWealth (fst (workingPhase e d ?m a sl)))"
    unfolding workingPhase_wealth(4)
    by (rule notNegative_scale[OF allocateWorking_notNegative(2)[OF s(6) s(7)] eff])
qed

lemma retiredPhase_solvent:
  assumes s: "notNegative (v_cashBuffer (fst sl))" "notNegative (v_investedWealth (fst sl))"
  shows "notNegative (v_pillar3Wealth (fst (retiredPhase e d m sl)))"
    and "notNegative (v_cashBuffer (fst (retiredPhase e d m sl)))"
    and "notNegative (v_investedWealth (fst (retiredPhase e d m sl)))"
proof -
  have eff: "0 \<le> 1 + effectiveInvestmentReturnPct d m / 100"
      "0 \<le> 1 + (effectiveInvestmentReturnPct d m / 100) * 0.3"
    using eff_nonneg[of d m] by simp_all
  show "notNegative (v_pillar3Wealth (fst (retiredPhase e d m sl)))"
    unfolding retiredPhase_wealth(1) by (rule notNegative_scale[OF notNegative_floor eff(2)])
  show "notNegative (v_cashBuffer (fst (retiredPhase e d m sl)))"
    unfolding retiredPhase_wealth(2) by (rule allocateRetired_notNegative[OF s])
  show "notNegative (v_investedWealth (fst (retiredPhase e d m sl)))"
    unfolding retiredPhase_wealth(3)
    by (rule notNegative_scale[OF allocateRetired_notNegative(2)[OF s] eff(1)])
qed

lemma calc_isViable [simp]:
  "isViable (calculateProjections Older sy d sc) =
     (v_savingsDepletedAge (ageLoop Older sy d (modifiersFor sc) (currentAge d) (initialState d)) = None)"
  "isViable (calculateProjections Current sy d sc) =
     (Num 0 \<le> lastTotalWealth (v_points (ageLoop Current sy d (modifiersFor sc) (currentAge d) (initialState d))))"
  by (simp_all add: calculateProjections_def makeResult_def)

lemma expensesPhase_notes: "FundsDepleted \<notin> set (l_notes (snd (expensesPhase e d m a st)))"
  by (simp add: expensesPhase_def Let_def)

lemma retiredPhase_notes:
  "FundsDepleted \<notin> set (l_notes (snd sl)) \<Longrightarrow>
   FundsDepleted \<notin> set (l_notes (snd (retiredPhase e d m sl)))"
  by (cases e) (simp_all add: retiredPhase_def takeSnapshot_def Let_def)

lemma recordPhase_solvent:
  assumes "0 \<le> v_grossSalary1 (fst sl)" "0 \<le> v_grossSalary2 (fst sl)" "0 \<le> v_grossBonus (fst sl)"
      "0 \<le> v_pillar2Wealth (fst sl)" "notNegative (v_pillar3Wealth (fst sl))"
      "notNegative (v_cashBuffer (fst sl))" "notNegative (v_investedWealth (fst sl))"
      "v_savingsDepletedAge (fst sl) = None"
      "\<forall>p \<in> set (v_points (fst sl)). \<not> hasNote FundsDepleted p"
      "FundsDepleted \<notin> set (l_notes (snd sl))"
  shows "solvent (recordPhase e sy d a sl)"
proof -
  have "notNegative (Num (v_pillar2Wealth (fst sl)))" using assms(4) by simp
  then have "notNegative (totalWealthOf (fst sl))"
    unfolding totalWealthOf_def
    by (intro notNegative_add assms(5) assms(6) assms(7))
  then have nd: "\<not> depletedNow e (fst sl)" by (simp add: depletedNow_def notNegative_def)
  have dep: "v_savingsDepletedAge (recordPhase e sy d a sl) = None"
    using nd assms(8) by (simp add: recordPhase_def Let_def)
  have nt: "\<not> hasNote FundsDepleted (makePoint e sy d a sl)"
    using nd assms(10) by (simp add: hasNote_def notesNow_def)
  show ?thesis
    unfolding solvent_def using assms dep nt by simp
qed

lemma yearStep_solvent:
  assumes nn: "nonNegativeMonetary d" and rate: "- 99.5 \<le> expectedSalaryIncrease d"
    and s: "solvent st"
  shows "solvent (yearStep e sy d (modifiersFor sc) a st)"
proof (cases "a < retirementAge d")
  case True
  let ?sl = "expensesPhase e d (modifiersFor sc) a st"
  have pre: "0 \<le> v_grossSalary1 (fst ?sl)" "0 \<le> v_grossSalary2 (fst ?sl)" "0 \<le> v_grossBonus (fst ?sl)"
      "0 \<le> v_pillar2Wealth (fst ?sl)" "notNegative (v_pillar3Wealth (fst ?sl))"
      "notNegative (v_cashBuffer (fst ?sl))" "notNegative (v_investedWealth (fst ?sl))"
    using s by (simp_all add: solvent_def)
  have "solvent (recordPhase e sy d a (workingPhase e d (modifiersFor sc) a ?sl))"
  proof (rule recordPhase_solvent)
    show "v_savingsDepletedAge (fst (workingPhase e d (modifiersFor sc) a ?sl)) = None"
      using s by (simp add: solvent_def)
    show "\<forall>p \<in> set (v_points (fst (workingPhase e d (modifiersFor sc) a ?sl))).
            \<not> hasNote FundsDepleted p"
      using s by (simp add: solvent_def)
    show "FundsDepleted \<notin> set (l_notes (snd (workingPhase e d (modifiersFor sc) a ?sl)))"
      by (simp add: expensesPhase_notes)
  qed (rule workingPhase_solvent[OF nn rate pre])+
  then show ?thesis using True by (simp add: yearStep_working)
next
  case False
  let ?sl = "expensesPhase e d (modifiersFor sc) a st"
  have pre: "notNegative (v_cashBuffer (fst ?sl))" "notNegative (v_investedWealth (fst ?sl))"
    using s by (simp_all add: solvent_def)
  have "solvent (recordPhase e sy d a (retiredPhase e d (modifiersFor sc) ?sl))"
  proof (rule recordPhase_solvent)
    show "v_savingsDepletedAge (fst (retiredPhase e d (modifiersFor sc) ?sl)) = None"
      using s by (simp add: solvent_def)
    show "\<forall>p \<in> set (v_points (fst (retiredPhase e d (modifiersFor sc) ?sl))).
            \<not> hasNote FundsDepleted p"
      using s by (simp add: solvent_def)
    show "FundsDepleted \<notin> set (l_notes (snd (retiredPhase e d (modifiersFor sc) ?sl)))"
      by (simp add: retiredPhase_notes expensesPhase_notes)
    show "0 \<le> v_grossSalary1 (fst (retiredPhase e d (modifiersFor sc) ?sl))"
      "0 \<le> v_grossSalary2 (fst (retiredPhase e d (modifiersFor sc) ?sl))"
      "0 \<le> v_grossBonus (fst (retiredPhase e d (modifiersFor sc) ?sl))"
      using s by (simp_all add: solvent_def)
    show "0 \<le> v_pillar2Wealth (fst (retiredPhase e d (modifiersFor sc) ?sl))" by simp
  qed (rule retiredPhase_solvent[OF pre])+
  then show ?thesis using False by (simp add: yearStep_retired)
qed

lemma initialState_solvent: "nonNegativeMonetary d \<Longrightarrow> solvent (initialState d)"
  by (simp add: solvent_def initialState_def nonNegativeMonetary_def)

lemma stateAfter_solvent:
  assumes nn: "nonNegativeMonetary d" and rate: "- 99.5 \<le> expectedSalaryIncrease d"
  shows "solvent (stateAfter e sy d (modifiersFor sc) k)"
  by (induction k) (simp_all add: initialState_solvent[OF nn] yearStep_solvent[OF nn rate])

lemma ageLoop_solvent:
  assumes nn: "nonNegativeMonetary d" and rate: "- 99.5 \<le> expectedSalaryIncrease d"
  shows "solvent (ageLoop e sy d (modifiersFor sc) (currentAge d) (initialState d))"
  unfolding ageLoop_stateAfter by (rule stateAfter_solvent[OF nn rate])

text \<open>
  C7, amended. Under the same two hypotheses no run records a depletion age, no snapshot
  carries the funds-depleted note, and the older engine's viability criterion holds.
\<close>

theorem depletion_unreachable:
  assumes "nonNegativeMonetary d" and "- 99.5 \<le> expectedSalaryIncrease d"
  shows "savingsDepletedAge (calculateProjections e sy d sc) = None \<and>
         (\<forall>p \<in> set (data (calculateProjections e sy d sc)). \<not> hasNote FundsDepleted p) \<and>
         isViable (calculateProjections Older sy d sc)"
  using ageLoop_solvent[OF assms, of e sy sc] ageLoop_solvent[OF assms, of Older sy sc]
  by (simp add: solvent_def)

theorem depletion_unreachable_witness:
  "savingsDepletedAge (calculateProjections Current 2025 soloRetiree Neutral) = None \<and>
   isViable (calculateProjections Older 2025 soloRetiree Neutral)"
proof -
  have a: "nonNegativeMonetary soloRetiree" by (simp add: nonNegativeMonetary_def soloRetiree_def)
  have b: "- 99.5 \<le> expectedSalaryIncrease soloRetiree" by (simp add: soloRetiree_def)
  from depletion_unreachable[OF a b, of Current 2025 Neutral] show ?thesis by blast
qed

text \<open>
  With non-negative monetary fields only, the depletion branch is reachable: the household
  with the -300 percent growth assumption is recorded as depleted at age 90.
\<close>

theorem depletion_reached_counterexample:
  "nonNegativeMonetary shrinkingSalary \<and>
   savingsDepletedAge (calculateProjections Current 2025 shrinkingSalary Neutral) = Some 90 \<and>
   hasNote FundsDepleted (data (calculateProjections Current 2025 shrinkingSalary Neutral) ! 1) \<and>
   \<not> isViable (calculateProjections Older 2025 shrinkingSalary Neutral)"
  by (simp add: nonNegativeMonetary_def shrinkingSalary_def soloRetiree_def engine_defs hasNote_def)

subsection \<open>Non-negative buckets\<close>

lemma not_NaN_iff: "x \<noteq> NaN \<longleftrightarrow> (\<exists>a. x = Num a)"
  by (cases x) simp_all

lemma allocate_numeric:
  "fst (allocateWorking (Num c) (Num i) (Num x)) \<noteq> NaN"
  "snd (allocateWorking (Num c) (Num i) (Num x)) \<noteq> NaN"
  "fst (allocateRetired (Num c) (Num i) (Num x)) \<noteq> NaN"
  "snd (allocateRetired (Num c) (Num i) (Num x)) \<noteq> NaN"
  by (simp_all add: allocateWorking_def allocateRetired_def absorbDeficit_def)

lemma workingP3_numeric: "workingNet d st \<noteq> NaN \<Longrightarrow> workingP3 e d st \<noteq> NaN"
  by (cases "workingNet d st"; cases e) (simp_all add: workingP3_def)

text \<open>
  The tax factor is a number exactly when the canton is not the name of a member of
  \<open>Object.prototype\<close>.
\<close>

lemma taxFactorIsNumber_iff:
  "taxFactorIsNumber d \<longleftrightarrow> canton d \<notin> set objectPrototypeKeys"
  by (auto simp: taxFactorIsNumber_def getTaxFactor_def taxFactorByCanton_def
        objectPrototypeKeys_def)

lemma workingNet_numeric: "taxFactorIsNumber d \<Longrightarrow> workingNet d st \<noteq> NaN"
  by (cases "getTaxFactor (canton d)") (simp_all add: taxFactorIsNumber_def workingNet_def)

lemma drawdown_numeric:
  "v_pillar3Wealth st \<noteq> NaN \<Longrightarrow> v_pillar3AnnualDrawdownSnapshot st \<noteq> NaN \<Longrightarrow>
   drawdown e st \<noteq> NaN"
  by (cases "v_pillar3Wealth st"; cases "v_pillar3AnnualDrawdownSnapshot st"; cases e)
     (simp_all add: drawdown_def)

lemma takeSnapshot_numeric:
  "numericBuckets (fst sl) \<Longrightarrow> numericBuckets (fst (takeSnapshot e d sl))"
  by (cases "v_pillar3Wealth (fst sl)") (simp_all add: numericBuckets_def takeSnapshot_def Let_def)

lemma workingPhase_numeric:
  assumes tax: "taxFactorIsNumber d" and n: "numericBuckets (fst sl)"
  shows "numericBuckets (fst (workingPhase e d m a sl))"
proof -
  obtain c i p where v: "v_cashBuffer (fst sl) = Num c" "v_investedWealth (fst sl) = Num i"
      "v_pillar3Wealth (fst sl) = Num p"
    using n unfolding numericBuckets_def not_NaN_iff by blast
  obtain w where w: "workingNet d (fst sl) = Num w"
    using workingNet_numeric[OF tax, of "fst sl"] unfolding not_NaN_iff by blast
  obtain q where q: "workingP3 e d (fst sl) = Num q"
    using workingP3_numeric[of d "fst sl" e] w unfolding not_NaN_iff by auto
  have s: "v_pillar3AnnualDrawdownSnapshot (fst sl) \<noteq> NaN" using n by (simp add: numericBuckets_def)
  define y where "y = w - q - l_totalExpenses (snd sl)"
  have cap: "l_annualSavingsCapacity (snd (workingPhase e d m a sl)) = Num y"
    unfolding workingPhase_wealth w q y_def by simp
  obtain a1 a2 where al: "fst (allocateWorking (Num c) (Num i) (Num y)) = Num a1"
      "snd (allocateWorking (Num c) (Num i) (Num y)) = Num a2"
    using allocate_numeric(1,2)[of c i y] unfolding not_NaN_iff by blast
  show ?thesis
    unfolding numericBuckets_def workingPhase_wealth(2,3,4) workingPhase_frame cap v q al
    using s by simp
qed

lemma retiredPhase_numeric:
  assumes n: "numericBuckets (fst sl)"
  shows "numericBuckets (fst (retiredPhase e d m sl))"
proof -
  define t where "t = fst (takeSnapshot e d sl)"
  have nt: "numericBuckets t" unfolding t_def by (rule takeSnapshot_numeric[OF n])
  obtain c i where v: "v_cashBuffer (fst sl) = Num c" "v_investedWealth (fst sl) = Num i"
    using n unfolding numericBuckets_def not_NaN_iff by blast
  obtain p s where u: "v_pillar3Wealth t = Num p" "v_pillar3AnnualDrawdownSnapshot t = Num s"
    using nt unfolding numericBuckets_def not_NaN_iff by blast
  obtain q where q: "drawdown e t = Num q"
    using drawdown_numeric[of t e] u unfolding not_NaN_iff by auto
  define y where "y = (AHV_COUPLE_MAX_ANNUAL_2025 * l_inflationFactor (snd sl) +
      v_lppAnnualPensionSnapshot t + q) * 0.85 - l_totalExpenses (snd sl)"
  have cap: "l_annualSavingsCapacity (snd (retiredPhase e d m sl)) = Num y"
    unfolding retiredPhase_wealth t_def[symmetric] q y_def by simp
  obtain a1 a2 where al: "fst (allocateRetired (Num c) (Num i) (Num y)) = Num a1"
      "snd (allocateRetired (Num c) (Num i) (Num y)) = Num a2"
    using allocate_numeric(3,4)[of c i y] unfolding not_NaN_iff by blast
  show ?thesis
    unfolding numericBuckets_def retiredPhase_wealth(1,2,3,6) cap t_def[symmetric] v u q al
    by simp
qed

lemma yearStep_numeric:
  assumes "taxFactorIsNumber d \<or> retirementAge d \<le> a" and "numericBuckets st"
  shows "numericBuckets (yearStep e sy d m a st)"
proof -
  have pre: "numericBuckets (fst (expensesPhase e d m a st))"
    using assms(2) by (simp add: numericBuckets_def)
  have rec: "numericBuckets (recordPhase e sy d a sl) = numericBuckets (fst sl)" for sl
    by (simp add: numericBuckets_def)
  show ?thesis
  proof (cases "a < retirementAge d")
    case True
    then have "taxFactorIsNumber d" using assms(1) by simp
    then show ?thesis
      using True workingPhase_numeric[OF _ pre] by (simp add: yearStep_working rec)
  next
    case False
    then show ?thesis using retiredPhase_numeric[OF pre] by (simp add: yearStep_retired rec)
  qed
qed

lemma stateAfter_numeric:
  assumes "taxFactorIsNumber d \<or> retirementAge d \<le> currentAge d"
  shows "numericBuckets (stateAfter e sy d m k)"
proof (induction k)
  case 0
  show ?case by (simp add: numericBuckets_def initialState_def)
next
  case (Suc k)
  have "taxFactorIsNumber d \<or> retirementAge d \<le> currentAge d + int k" using assms by auto
  then show ?case using Suc by (simp add: yearStep_numeric)
qed

lemma notNegative_number: "notNegative x \<Longrightarrow> x \<noteq> NaN \<Longrightarrow> Num 0 \<le> x"
  by (cases x) simp_all

text \<open>
  C6, amended. For every profile whose monetary fields are non-negative, whose baseline
  growth assumption \<open>expectedSalaryIncrease\<close> is at least -99.5 percent (so that no yearly
  salary or bonus factor is negative in any scenario) and whose tax factor is a number
  (the canton is not the name of a member of \<open>Object.prototype\<close>) or who is retired from
  the first simulated year on (so that the tax factor is never used), every yearly snapshot
  of every scenario run of either engine reports non-negative cash, invested, pillar-2 and
  pillar-3 balances.
\<close>

theorem buckets_never_negative:
  assumes "nonNegativeMonetary d" and "- 99.5 \<le> expectedSalaryIncrease d"
    and "taxFactorIsNumber d \<or> retirementAge d \<le> currentAge d"
  shows "\<forall>p \<in> set (data (calculateProjections e sy d sc)).
           Num 0 \<le> cashSavings p \<and> Num 0 \<le> investedAssets p \<and> 0 \<le> pillar2Wealth p \<and>
           Num 0 \<le> pillar3Wealth p"
proof
  fix p assume "p \<in> set (data (calculateProjections e sy d sc))"
  then obtain k where p: "p = pointAt e sy d (modifiersFor sc) k"
    unfolding data_pointAt by auto
  have s: "solvent (stateAfter e sy d (modifiersFor sc) (Suc k))"
    by (rule stateAfter_solvent[OF assms(1,2)])
  have n: "numericBuckets (stateAfter e sy d (modifiersFor sc) (Suc k))"
    by (rule stateAfter_numeric[OF assms(3)])
  show "Num 0 \<le> cashSavings p \<and> Num 0 \<le> investedAssets p \<and> 0 \<le> pillar2Wealth p \<and>
        Num 0 \<le> pillar3Wealth p"
    unfolding p pointAt_buckets
    using s n by (simp add: solvent_def numericBuckets_def notNegative_number)
qed

theorem buckets_never_negative_witness:
  "Num 0 \<le> investedAssets (data (calculateProjections Current 2025 initialData Pessimistic) ! 60)"
proof -
  let ?ps = "data (calculateProjections Current 2025 initialData Pessimistic)"
  have a: "nonNegativeMonetary initialData" by (simp add: nonNegativeMonetary_def initialData_def)
  have b: "- 99.5 \<le> expectedSalaryIncrease initialData" by (simp add: initialData_def)
  have c: "taxFactorIsNumber initialData \<or> retirementAge initialData \<le> currentAge initialData"
    by (simp add: taxFactorIsNumber_def initialData_def getTaxFactor_def taxFactorByCanton_def)
  have "length ?ps = 61"
    unfolding data_length by (simp add: simulatedYears_def initialData_def DEFAULT_MAX_AGE_def)
  then have "?ps ! 60 \<in> set ?ps" by (simp del: calc_fields)
  then show ?thesis using buckets_never_negative[OF a b c, of Current 2025 Pessimistic] by blast
qed

text \<open>
  The claim as stated, with non-negative monetary fields only, fails in two ways. With a
  growth assumption of -300 percent the pillar-2 capital of the second year is negative.
  With the canton \<open>toString\<close> the tax factor is a method of \<open>Object.prototype\<close>, the net
  income of a working year is \<open>NaN\<close>, and so are the invested and pillar-3 balances of
  the first snapshot.
\<close>

theorem buckets_negative_counterexample:
  "nonNegativeMonetary shrinkingSalary \<and>
   pillar2Wealth (data (calculateProjections Current 2025 shrinkingSalary Neutral) ! 1) < 0 \<and>
   nonNegativeMonetary prototypeCanton \<and>
   investedAssets (data (calculateProjections Current 2025 prototypeCanton Neutral) ! 0) = NaN \<and>
   pillar3Wealth (data (calculateProjections Current 2025 prototypeCanton Neutral) ! 0) = NaN \<and>
   \<not> Num 0 \<le> investedAssets (data (calculateProjections Current 2025 prototypeCanton Neutral) ! 0)"
  by (simp add: nonNegativeMonetary_def shrinkingSalary_def prototypeCanton_def soloRetiree_def
        engine_defs)

subsection \<open>The early-retirement search\<close>

declare searchLoop.simps [simp del]

lemma searchLoop_None_iff:
  "searchLoop e sy d hi lo = None \<longleftrightarrow>
     (\<forall>a. lo \<le> a \<and> a \<le> hi \<longrightarrow> \<not> candidateViable e sy d a)"
proof (induction "nat (hi + 1 - lo)" arbitrary: lo)
  case 0
  then have "\<not> lo \<le> hi" by simp
  then show ?case by (auto simp: searchLoop.simps[of e sy d hi lo])
next
  case (Suc n)
  then have le: "lo \<le> hi" by simp
  have n: "n = nat (hi + 1 - (lo + 1))" using Suc.hyps(2) by simp
  show ?case
  proof (cases "candidateViable e sy d lo")
    case True
    then show ?thesis using le by (auto simp: searchLoop.simps[of e sy d hi lo])
  next
    case False
    have "(\<forall>a. lo \<le> a \<and> a \<le> hi \<longrightarrow> \<not> candidateViable e sy d a) \<longleftrightarrow>
          (\<forall>a. lo + 1 \<le> a \<and> a \<le> hi \<longrightarrow> \<not> candidateViable e sy d a)"
    proof
      assume r: "\<forall>a. lo + 1 \<le> a \<and> a \<le> hi \<longrightarrow> \<not> candidateViable e sy d a"
      show "\<forall>a. lo \<le> a \<and> a \<le> hi \<longrightarrow> \<not> candidateViable e sy d a"
      proof (intro allI impI)
        fix a assume "lo \<le> a \<and> a \<le> hi"
        then have "a = lo \<or> (lo + 1 \<le> a \<and> a \<le> hi)" by arith
        then show "\<not> candidateViable e sy d a" using r False by blast
      qed
    qed auto
    then show ?thesis
      using le False Suc.hyps(1)[OF n] by (simp add: searchLoop.simps[of e sy d hi lo])
  qed
qed

lemma searchLoop_Some_iff:
  "searchLoop e sy d hi lo = Some r \<longleftrightarrow>
     (lo \<le> r \<and> r \<le> hi \<and> candidateViable e sy d r \<and>
      (\<forall>a. lo \<le> a \<and> a < r \<longrightarrow> \<not> candidateViable e sy d a))"
proof (induction "nat (hi + 1 - lo)" arbitrary: lo)
  case 0
  then have "\<not> lo \<le> hi" by simp
  then show ?case by (auto simp: searchLoop.simps[of e sy d hi lo])
next
  case (Suc n)
  then have le: "lo \<le> hi" by simp
  have n: "n = nat (hi + 1 - (lo + 1))" using Suc.hyps(2) by simp
  show ?case
  proof (cases "candidateViable e sy d lo")
    case True
    have "(lo \<le> r \<and> r \<le> hi \<and> candidateViable e sy d r \<and>
           (\<forall>a. lo \<le> a \<and> a < r \<longrightarrow> \<not> candidateViable e sy d a)) \<longleftrightarrow> r = lo"
    proof
      assume l: "lo \<le> r \<and> r \<le> hi \<and> candidateViable e sy d r \<and>
           (\<forall>a. lo \<le> a \<and> a < r \<longrightarrow> \<not> candidateViable e sy d a)"
      show "r = lo"
      proof (rule ccontr)
        assume "r \<noteq> lo"
        then have "lo \<le> lo \<and> lo < r" using l by simp
        then show False using l True by blast
      qed
    next
      assume "r = lo"
      then show "lo \<le> r \<and> r \<le> hi \<and> candidateViable e sy d r \<and>
           (\<forall>a. lo \<le> a \<and> a < r \<longrightarrow> \<not> candidateViable e sy d a)"
        using True le by auto
    qed
    then show ?thesis using True le by (auto simp: searchLoop.simps[of e sy d hi lo])
  next
    case False
    have "(lo \<le> r \<and> r \<le> hi \<and> candidateViable e sy d r \<and>
           (\<forall>a. lo \<le> a \<and> a < r \<longrightarrow> \<not> candidateViable e sy d a)) \<longleftrightarrow>
          (lo + 1 \<le> r \<and> r \<le> hi \<and> candidateViable e sy d r \<and>
           (\<forall>a. lo + 1 \<le> a \<and> a < r \<longrightarrow> \<not> candidateViable e sy d a))" (is "?L \<longleftrightarrow> ?R")
    proof
      assume l: ?L
      then have "r \<noteq> lo" using False by blast
      then have "lo + 1 \<le> r" using l by arith
      then show ?R using l by auto
    next
      assume r: ?R
      have "\<forall>a. lo \<le> a \<and> a < r \<longrightarrow> \<not> candidateViable e sy d a"
      proof (intro allI impI)
        fix a assume "lo \<le> a \<and> a < r"
        then have "a = lo \<or> (lo + 1 \<le> a \<and> a < r)" by arith
        then show "\<not> candidateViable e sy d a" using r False by blast
      qed
      then show ?L using r by auto
    qed
    then show ?thesis
      using le False Suc.hyps(1)[OF n] by (simp add: searchLoop.simps[of e sy d hi lo])
  qed
qed

text \<open>
  C8. \<open>calculateViableEarlyRetirement\<close> returns null exactly when no candidate age of
  its scanned range (45 to 65 in the current engine, 50 to max(retirementAge, 65) in the
  older one) satisfies the viability criterion, and otherwise returns the lowest
  candidate age that satisfies it.
\<close>

theorem early_retirement_search:
  "(calculateViableEarlyRetirement e sy d = None \<longleftrightarrow>
      (\<forall>a \<in> {searchFrom e .. searchTo e d}. \<not> candidateViable e sy d a)) \<and>
   (calculateViableEarlyRetirement e sy d = Some r \<longleftrightarrow>
      r \<in> {searchFrom e .. searchTo e d} \<and> candidateViable e sy d r \<and>
      (\<forall>a \<in> {searchFrom e ..< r}. \<not> candidateViable e sy d a)) \<and>
   {searchFrom Current .. searchTo Current d} = {45 .. 65}"
  by (auto simp: calculateViableEarlyRetirement_def searchLoop_None_iff searchLoop_Some_iff
        searchFrom_def searchTo_def)

lemma soloRetiree_search_none: "calculateViableEarlyRetirement Current 2025 soloRetiree = None"
  by (simp add: calculateViableEarlyRetirement_def searchFrom_def searchTo_def searchLoop.simps
        candidateViable_def meetsCriterion_def soloRetiree_def engine_defs)

lemma soloRetiree_search_some: "calculateViableEarlyRetirement Older 2025 soloRetiree = Some 50"
  by (simp add: calculateViableEarlyRetirement_def searchFrom_def searchTo_def searchLoop.simps
        candidateViable_def meetsCriterion_def soloRetiree_def engine_defs)

theorem early_retirement_search_witness:
  "calculateViableEarlyRetirement Current 2025 soloRetiree = None \<and>
   \<not> candidateViable Current 2025 soloRetiree 65 \<and>
   candidateViable Older 2025 soloRetiree 50"
proof -
  have "\<forall>a \<in> {searchFrom Current .. searchTo Current soloRetiree}.
          \<not> candidateViable Current 2025 soloRetiree a"
    using early_retirement_search[of Current 2025 soloRetiree 0] soloRetiree_search_none by blast
  moreover have "(65::int) \<in> {searchFrom Current .. searchTo Current soloRetiree}"
    by (simp add: searchFrom_def searchTo_def)
  ultimately have a: "\<not> candidateViable Current 2025 soloRetiree 65" by blast
  have b: "candidateViable Older 2025 soloRetiree 50"
    using early_retirement_search[of Older 2025 soloRetiree 50] soloRetiree_search_some by blast
  from a b soloRetiree_search_none show ?thesis by blast
qed

subsection \<open>The retirement snapshot\<close>

lemma expensesPhase_inflation [simp]:
  "l_inflationFactor (snd (expensesPhase e d m a st)) =
     (1 + baseInflationPct d m / 100) ^ nat (a - currentAge d)"
  by (simp add: expensesPhase_def Let_def)

lemma takeSnapshot_taken:
  "v_retirementSnapshotTaken (fst sl) \<Longrightarrow> takeSnapshot e d sl = sl"
  by (simp add: takeSnapshot_def Let_def)

lemma takeSnapshot_fresh:
  assumes "\<not> v_retirementSnapshotTaken (fst sl)"
  shows "snapshotOf (fst (takeSnapshot e d sl)) =
     (AHV_COUPLE_MAX_ANNUAL_2025 * l_inflationFactor (snd sl),
      v_pillar2Wealth (fst sl) * LPP_CONVERSION_RATE,
      v_pillar3Wealth (fst sl) / Num (max 1 (real_of_int (DEFAULT_MAX_AGE - retirementAge d))),
      True)"
  using assms by (simp add: takeSnapshot_def Let_def snapshotOf_def)

lemma retiredPhase_snapshot:
  "snapshotOf (fst (retiredPhase e d m sl)) = snapshotOf (fst (takeSnapshot e d sl))"
  by (simp add: retiredPhase_def Let_def snapshotOf_def)

lemma retiredPhase_pensions:
  "l_pensionLPP (snd (retiredPhase e d m sl)) = v_lppAnnualPensionSnapshot (fst (retiredPhase e d m sl))"
  "l_pensionAHV (snd (retiredPhase e d m sl)) = AHV_COUPLE_MAX_ANNUAL_2025 * l_inflationFactor (snd sl)"
  by (simp_all add: retiredPhase_def Let_def)

lemma snapshotOf_frame:
  "snapshotOf (fst (expensesPhase e d m a st)) = snapshotOf st"
  "snapshotOf (fst (workingPhase e d m a sl)) = snapshotOf (fst sl)"
  "snapshotOf (recordPhase e sy d a sl) = snapshotOf (fst sl)"
  by (simp_all add: snapshotOf_def)

lemma yearStep_snapshot_working:
  "a < retirementAge d \<Longrightarrow> snapshotOf (yearStep e sy d m a st) = snapshotOf st"
  by (simp add: yearStep_working snapshotOf_frame)

lemma yearStep_snapshot_frozen:
  assumes "retirementAge d \<le> a" and "v_retirementSnapshotTaken st"
  shows "snapshotOf (yearStep e sy d m a st) = snapshotOf st"
proof -
  have "v_retirementSnapshotTaken (fst (expensesPhase e d m a st))" using assms(2) by simp
  then have "takeSnapshot e d (expensesPhase e d m a st) = expensesPhase e d m a st"
    by (rule takeSnapshot_taken)
  then show ?thesis
    using assms(1) by (simp add: yearStep_retired snapshotOf_frame retiredPhase_snapshot)
qed

lemma yearStep_snapshot_fresh:
  assumes "retirementAge d \<le> a" and "\<not> v_retirementSnapshotTaken st"
  shows "snapshotOf (yearStep e sy d m a st) =
     (AHV_COUPLE_MAX_ANNUAL_2025 * (1 + baseInflationPct d m / 100) ^ nat (a - currentAge d),
      v_pillar2Wealth st * LPP_CONVERSION_RATE,
      v_pillar3Wealth st / Num (max 1 (real_of_int (DEFAULT_MAX_AGE - retirementAge d))),
      True)"
proof -
  have "\<not> v_retirementSnapshotTaken (fst (expensesPhase e d m a st))" using assms(2) by simp
  from takeSnapshot_fresh[OF this, of e d] show ?thesis
    using assms(1) by (simp add: yearStep_retired snapshotOf_frame retiredPhase_snapshot)
qed

lemma stateAfter_taken_iff:
  "v_retirementSnapshotTaken (stateAfter e sy d m k) \<longleftrightarrow>
     (\<exists>j<k. retirementAge d \<le> currentAge d + int j)"
proof (induction k)
  case 0
  show ?case by (simp add: initialState_def)
next
  case (Suc k)
  let ?a = "currentAge d + int k"
  let ?st = "stateAfter e sy d m k"
  have "v_retirementSnapshotTaken (yearStep e sy d m ?a ?st) \<longleftrightarrow>
          (v_retirementSnapshotTaken ?st \<or> retirementAge d \<le> ?a)"
  proof (cases "?a < retirementAge d")
    case True
    have "snapshotOf (yearStep e sy d m ?a ?st) = snapshotOf ?st"
      by (rule yearStep_snapshot_working[OF True])
    then show ?thesis using True by (simp add: snapshotOf_def)
  next
    case False
    then show ?thesis by (simp add: yearStep_retired)
  qed
  then show ?case using Suc by (auto simp: less_Suc_eq)
qed

lemma firstRetiredYear_not_taken:
  assumes "firstRetiredYear d k"
  shows "\<not> v_retirementSnapshotTaken (stateAfter e sy d m k)"
proof
  assume "v_retirementSnapshotTaken (stateAfter e sy d m k)"
  then obtain j where j: "j < k" "retirementAge d \<le> currentAge d + int j"
    using stateAfter_taken_iff by blast
  then have "k \<noteq> 0" and "currentAge d + int j \<le> currentAge d + int k - 1" by simp_all
  then show False using assms j(2) by (simp add: firstRetiredYear_def)
qed

lemma later_retired_taken:
  assumes "retirementAge d \<le> currentAge d + int k" and "\<not> firstRetiredYear d k"
  shows "v_retirementSnapshotTaken (stateAfter e sy d m k)"
proof -
  from assms have k: "k \<noteq> 0" and r: "retirementAge d \<le> currentAge d + int k - 1"
    by (auto simp: firstRetiredYear_def)
  then obtain j where "k = Suc j" by (cases k) auto
  then have "j < k \<and> retirementAge d \<le> currentAge d + int j" using r by simp
  then show ?thesis using stateAfter_taken_iff by blast
qed

lemma snapshot_step:
  "snapshotOf (stateAfter e sy d m (Suc k)) =
     (if firstRetiredYear d k then
        (AHV_COUPLE_MAX_ANNUAL_2025 * (1 + baseInflationPct d m / 100) ^ k,
         v_pillar2Wealth (stateAfter e sy d m k) * LPP_CONVERSION_RATE,
         v_pillar3Wealth (stateAfter e sy d m k) /
           Num (max 1 (real_of_int (DEFAULT_MAX_AGE - retirementAge d))),
         True)
      else snapshotOf (stateAfter e sy d m k))"
proof (cases "firstRetiredYear d k")
  case True
  then have r: "retirementAge d \<le> currentAge d + int k" by (simp add: firstRetiredYear_def)
  show ?thesis
    using True yearStep_snapshot_fresh[OF r firstRetiredYear_not_taken[OF True], of e sy m]
    by simp
next
  case False
  show ?thesis
  proof (cases "currentAge d + int k < retirementAge d")
    case True
    then show ?thesis using False by (simp add: yearStep_snapshot_working)
  next
    case nw: False
    then have r: "retirementAge d \<le> currentAge d + int k" by simp
    show ?thesis
      using False yearStep_snapshot_frozen[OF r later_retired_taken[OF r False]] by simp
  qed
qed

lemma lpp_frozen:
  assumes "v_retirementSnapshotTaken (stateAfter e sy d m i)" and "i \<le> j"
  shows "v_lppAnnualPensionSnapshot (stateAfter e sy d m j) =
         v_lppAnnualPensionSnapshot (stateAfter e sy d m i)"
  using assms(2)
proof (induction j)
  case 0
  then show ?case by simp
next
  case (Suc j)
  show ?case
  proof (cases "i = Suc j")
    case True
    then show ?thesis by simp
  next
    case False
    then have ij: "i \<le> j" using Suc.prems by simp
    have "v_retirementSnapshotTaken (stateAfter e sy d m j)"
      using assms(1) ij stateAfter_taken_iff[of e sy d m i] stateAfter_taken_iff[of e sy d m j]
      by (meson less_le_trans)
    then have "\<not> firstRetiredYear d j" using firstRetiredYear_not_taken by blast
    then have "snapshotOf (stateAfter e sy d m (Suc j)) = snapshotOf (stateAfter e sy d m j)"
      using snapshot_step[of e sy d m j] by simp
    then show ?thesis using Suc.IH[OF ij] by (simp add: snapshotOf_def)
  qed
qed

lemma pointAt_pensionLPP:
  assumes "retirementAge d \<le> currentAge d + int k"
  shows "pensionLPP (pointAt e sy d m k) = v_lppAnnualPensionSnapshot (stateAfter e sy d m (Suc k))"
  using assms by (simp add: pointAt_def incomePhase_def retiredPhase_pensions yearStep_retired)

lemma pointAt_pensionAHV:
  assumes "retirementAge d \<le> currentAge d + int k"
  shows "pensionAHV (pointAt e sy d m k) =
           AHV_COUPLE_MAX_ANNUAL_2025 * (1 + baseInflationPct d m / 100) ^ k"
  using assms by (simp add: pointAt_def incomePhase_def retiredPhase_pensions)

lemma retired_lpp_equal:
  assumes i: "retirementAge d \<le> currentAge d + int i" and ij: "i \<le> j"
  shows "pensionLPP (pointAt e sy d m j) = pensionLPP (pointAt e sy d m i)"
proof -
  have j: "retirementAge d \<le> currentAge d + int j" using i ij by simp
  have "v_retirementSnapshotTaken (stateAfter e sy d m (Suc i))"
    using i stateAfter_taken_iff[of e sy d m "Suc i"] by blast
  then have "v_lppAnnualPensionSnapshot (stateAfter e sy d m (Suc j)) =
             v_lppAnnualPensionSnapshot (stateAfter e sy d m (Suc i))"
    by (rule lpp_frozen) (use ij in simp)
  then show ?thesis by (simp add: pointAt_pensionLPP[OF i] pointAt_pensionLPP[OF j])
qed

lemma data_point_index:
  assumes "p \<in> set (data (calculateProjections e sy d sc))"
  obtains k where "k < simulatedYears d" and "p = pointAt e sy d (modifiersFor sc) k"
  using assms unfolding data_pointAt by auto

text \<open>
  C3, amended. The retirement snapshot is computed in the first simulated year whose age
  has reached the retirement age and in no other year (so at most once per run, and exactly
  once when such a year is simulated): in that iteration the three snapshot variables
  receive the public pension 44100 times the cumulative inflation factor, the pillar-2
  capital times 0.058 and the pillar-3 capital divided by max(1, 90 - retirementAge), and
  in every other iteration they and the flag keep their values. The pillar-2 annuity
  reported by any two retirement-year snapshots is the same (in particular at ages R and
  R + 5). The reported public pension strictly increases with age over the retirement
  years when the effective inflation rate \<open>expectedSalaryIncrease + inflationModPct\<close> is
  positive.
\<close>

theorem retirement_snapshot_once:
  "(\<forall>k. snapshotOf (stateAfter e sy d (modifiersFor sc) (Suc k)) =
      (if firstRetiredYear d k then
         (AHV_COUPLE_MAX_ANNUAL_2025 * (1 + baseInflationPct d (modifiersFor sc) / 100) ^ k,
          v_pillar2Wealth (stateAfter e sy d (modifiersFor sc) k) * LPP_CONVERSION_RATE,
          v_pillar3Wealth (stateAfter e sy d (modifiersFor sc) k) /
            Num (max 1 (real_of_int (DEFAULT_MAX_AGE - retirementAge d))),
          True)
       else snapshotOf (stateAfter e sy d (modifiersFor sc) k))) \<and>
   (\<forall>p \<in> set (data (calculateProjections e sy d sc)).
    \<forall>q \<in> set (data (calculateProjections e sy d sc)).
      retirementAge d \<le> age p \<and> retirementAge d \<le> age q \<longrightarrow> pensionLPP p = pensionLPP q) \<and>
   (0 < baseInflationPct d (modifiersFor sc) \<longrightarrow>
    (\<forall>p \<in> set (data (calculateProjections e sy d sc)).
     \<forall>q \<in> set (data (calculateProjections e sy d sc)).
       retirementAge d \<le> age p \<and> age p < age q \<longrightarrow> pensionAHV p < pensionAHV q))"
proof (intro conjI allI ballI impI)
  fix k
  show "snapshotOf (stateAfter e sy d (modifiersFor sc) (Suc k)) =
      (if firstRetiredYear d k then
         (AHV_COUPLE_MAX_ANNUAL_2025 * (1 + baseInflationPct d (modifiersFor sc) / 100) ^ k,
          v_pillar2Wealth (stateAfter e sy d (modifiersFor sc) k) * LPP_CONVERSION_RATE,
          v_pillar3Wealth (stateAfter e sy d (modifiersFor sc) k) /
            Num (max 1 (real_of_int (DEFAULT_MAX_AGE - retirementAge d))),
          True)
       else snapshotOf (stateAfter e sy d (modifiersFor sc) k))"
    by (rule snapshot_step)
next
  fix p q
  assume p: "p \<in> set (data (calculateProjections e sy d sc))"
    and q: "q \<in> set (data (calculateProjections e sy d sc))"
    and r: "retirementAge d \<le> age p \<and> retirementAge d \<le> age q"
  obtain i where i: "p = pointAt e sy d (modifiersFor sc) i" using p by (rule data_point_index)
  obtain j where j: "q = pointAt e sy d (modifiersFor sc) j" using q by (rule data_point_index)
  have ri: "retirementAge d \<le> currentAge d + int i" using r i by simp
  have rj: "retirementAge d \<le> currentAge d + int j" using r j by simp
  show "pensionLPP p = pensionLPP q"
  proof (cases "i \<le> j")
    case True
    then show ?thesis using retired_lpp_equal[OF ri True] i j by simp
  next
    case False
    then have "j \<le> i" by simp
    then show ?thesis using retired_lpp_equal[OF rj, of i] i j by simp
  qed
next
  fix p q
  assume pos: "0 < baseInflationPct d (modifiersFor sc)"
    and p: "p \<in> set (data (calculateProjections e sy d sc))"
    and q: "q \<in> set (data (calculateProjections e sy d sc))"
    and r: "retirementAge d \<le> age p \<and> age p < age q"
  obtain i where i: "p = pointAt e sy d (modifiersFor sc) i" using p by (rule data_point_index)
  obtain j where j: "q = pointAt e sy d (modifiersFor sc) j" using q by (rule data_point_index)
  have ri: "retirementAge d \<le> currentAge d + int i" using r i by simp
  have ij: "i < j" using r i j by simp
  have rj: "retirementAge d \<le> currentAge d + int j" using ri ij by simp
  have "(1 + baseInflationPct d (modifiersFor sc) / 100) ^ i <
        (1 + baseInflationPct d (modifiersFor sc) / 100) ^ j"
    using pos ij by (intro power_strict_increasing) simp_all
  then show "pensionAHV p < pensionAHV q"
    unfolding i j pointAt_pensionAHV[OF ri] pointAt_pensionAHV[OF rj]
    by (simp add: AHV_COUPLE_MAX_ANNUAL_2025_def)
qed

theorem retirement_snapshot_once_witness:
  "pensionLPP (data (calculateProjections Current 2025 initialData Neutral) ! 35) =
   pensionLPP (data (calculateProjections Current 2025 initialData Neutral) ! 40) \<and>
   pensionAHV (data (calculateProjections Current 2025 initialData Neutral) ! 35) <
   pensionAHV (data (calculateProjections Current 2025 initialData Neutral) ! 40)"
proof -
  let ?ps = "data (calculateProjections Current 2025 initialData Neutral)"
  have n: "simulatedYears initialData = 61"
    by (simp add: simulatedYears_def initialData_def DEFAULT_MAX_AGE_def)
  have len: "length ?ps = 61" using data_length[of Current 2025 initialData Neutral] n by simp
  have m35: "?ps ! 35 \<in> set ?ps" and m40: "?ps ! 40 \<in> set ?ps"
    using len by (simp_all del: calc_fields)
  have a35: "age (?ps ! 35) = 65"
    using data_nth[of 35 initialData Current 2025 Neutral] n by (simp add: initialData_def)
  have a40: "age (?ps ! 40) = 70"
    using data_nth[of 40 initialData Current 2025 Neutral] n by (simp add: initialData_def)
  have r: "retirementAge initialData = 65" by (simp add: initialData_def)
  have pos: "0 < baseInflationPct initialData (modifiersFor Neutral)"
    by (simp add: baseInflationPct_def initialData_def modifiersFor_def)
  note inst = retirement_snapshot_once[of Current 2025 initialData Neutral]
  have r35: "retirementAge initialData \<le> age (?ps ! 35)" using a35 r by (simp del: calc_fields)
  have r40: "retirementAge initialData \<le> age (?ps ! 40)" using a40 r by (simp del: calc_fields)
  have lt: "age (?ps ! 35) < age (?ps ! 40)" using a35 a40 by (simp del: calc_fields)
  have "pensionLPP (?ps ! 35) = pensionLPP (?ps ! 40)"
    using inst[THEN conjunct2, THEN conjunct1, rule_format, OF m35 m40] r35 r40 by blast
  moreover have "pensionAHV (?ps ! 35) < pensionAHV (?ps ! 40)"
    using inst[THEN conjunct2, THEN conjunct2, rule_format, OF pos m35 m40] r35 lt by blast
  ultimately show ?thesis by blast
qed

text \<open>
  The claim as stated fails where the effective inflation rate is zero: for the retired
  couple in the neutral scenario the public pension of the two retirement years is the same.
\<close>

theorem public_pension_flat_counterexample:
  "retirementAge soloRetiree \<le> age (data (calculateProjections Current 2025 soloRetiree Neutral) ! 0) \<and>
   age (data (calculateProjections Current 2025 soloRetiree Neutral) ! 1) =
     age (data (calculateProjections Current 2025 soloRetiree Neutral) ! 0) + 1 \<and>
   \<not> pensionAHV (data (calculateProjections Current 2025 soloRetiree Neutral) ! 0) <
      pensionAHV (data (calculateProjections Current 2025 soloRetiree Neutral) ! 1)"
  by (simp add: soloRetiree_def engine_defs)

subsection \<open>Relocation\<close>

lemma hasNote_makePoint: "hasNote n (makePoint e sy d a sl) \<longleftrightarrow> n \<in> set (notesNow e sl)"
  by (simp add: hasNote_def)

lemma moved_notesNow: "MovedHouse \<in> set (notesNow e sl) \<longleftrightarrow> MovedHouse \<in> set (l_notes (snd sl))"
  by (simp add: notesNow_def)

lemma moved_incomePhase:
  "MovedHouse \<in> set (l_notes (snd (incomePhase e d m a sl))) \<longleftrightarrow>
   MovedHouse \<in> set (l_notes (snd sl))"
  by (cases e) (simp_all add: incomePhase_def retiredPhase_def takeSnapshot_def Let_def)

lemma expensesPhase_moves:
  "MovedHouse \<in> set (l_notes (snd (expensesPhase e d m a st))) \<longleftrightarrow>
     (\<not> v_hasMovedHouse st \<and>
      2 + real (l_activeChildrenCount (snd (expensesPhase e d m a st))) > currentRooms d + 0.5)"
  "v_hasMovedHouse (fst (expensesPhase e d m a st)) \<longleftrightarrow>
     (v_hasMovedHouse st \<or>
      2 + real (l_activeChildrenCount (snd (expensesPhase e d m a st))) > currentRooms d + 0.5)"
  "l_housingAnnual (snd (expensesPhase e d m a st)) =
     v_currentRent (fst (expensesPhase e d m a st)) * 12"
  "v_currentRent (fst (expensesPhase e d m a st)) =
     v_currentRent st * rentFactor d m *
       (if MovedHouse \<in> set (l_notes (snd (expensesPhase e d m a st))) then 1.30 else 1)"
  by (simp_all add: expensesPhase_def Let_def rentFactor_def) blast


lemma pointAt_moved:
  "hasNote MovedHouse (pointAt e sy d m k) \<longleftrightarrow>
     (\<not> v_hasMovedHouse (stateAfter e sy d m k) \<and> outgrown d (pointAt e sy d m k))"
  by (simp add: pointAt_def hasNote_makePoint moved_notesNow moved_incomePhase
        expensesPhase_moves(1) outgrown_def)

lemma stateAfter_moved_step:
  "v_hasMovedHouse (stateAfter e sy d m (Suc k)) \<longleftrightarrow>
     (v_hasMovedHouse (stateAfter e sy d m k) \<or> outgrown d (pointAt e sy d m k))"
  by (simp add: yearStep_def expensesPhase_moves(2) pointAt_def outgrown_def)

lemma stateAfter_moved_iff:
  "v_hasMovedHouse (stateAfter e sy d m k) \<longleftrightarrow> (\<exists>j<k. outgrown d (pointAt e sy d m j))"
proof (induction k)
  case 0
  show ?case by (simp add: initialState_def)
next
  case (Suc k)
  show ?case unfolding stateAfter_moved_step Suc by (auto simp: less_Suc_eq)
qed

lemma pointAt_moved_first:
  "hasNote MovedHouse (pointAt e sy d m k) \<longleftrightarrow>
     (outgrown d (pointAt e sy d m k) \<and> (\<forall>j<k. \<not> outgrown d (pointAt e sy d m j)))"
  unfolding pointAt_moved stateAfter_moved_iff by blast

lemma pointAt_housing:
  "housingExpenses (pointAt e sy d m k) = v_currentRent (stateAfter e sy d m (Suc k)) * 12"
  by (simp add: pointAt_def yearStep_def expensesPhase_moves(3))

lemma stateAfter_rent_step:
  "v_currentRent (stateAfter e sy d m (Suc k)) =
     v_currentRent (stateAfter e sy d m k) * rentFactor d m *
       (if hasNote MovedHouse (pointAt e sy d m k) then 1.30 else 1)"
proof -
  have "hasNote MovedHouse (pointAt e sy d m k) \<longleftrightarrow>
        MovedHouse \<in> set (l_notes (snd (expensesPhase e d m (currentAge d + int k)
                                        (stateAfter e sy d m k))))"
    by (simp add: pointAt_def hasNote_makePoint moved_notesNow moved_incomePhase)
  then show ?thesis
    using expensesPhase_moves(4)[of e d m "currentAge d + int k" "stateAfter e sy d m k"]
    by (simp add: yearStep_def)
qed

lemma pointAt_housing_step:
  "housingExpenses (pointAt e sy d m k) =
     (if k = 0 then currentHousingCost d * 12 else housingExpenses (pointAt e sy d m (k - 1))) *
     rentFactor d m * (if hasNote MovedHouse (pointAt e sy d m k) then 1.30 else 1)"
proof (cases k)
  case 0
  have "v_currentRent (stateAfter e sy d m 0) = currentHousingCost d"
    by (simp add: initialState_def)
  then show ?thesis
    unfolding 0 pointAt_housing stateAfter_rent_step[of e sy d m 0] by simp
next
  case (Suc j)
  show ?thesis
    unfolding Suc pointAt_housing[of e sy d m "Suc j"] stateAfter_rent_step[of e sy d m "Suc j"]
    by (simp add: pointAt_housing[of e sy d m j])
qed

text \<open>
  C5, amended. The relocation note appears in the snapshot of the first year in which
  \<open>2 + activeChildren > rooms + 0.5\<close> holds and in no other, so the event fires at most
  once. Each year's rent is the rent of the year before (the initial rent in year 0) times
  the yearly rent factor \<open>1 + (housingCostIncrease + inflationModPct) / 100\<close>, and times 1.30
  in the firing year: the rent of the firing year is 1.30 times the rent immediately before
  firing, and the rent of the year after is that times the yearly rent factor.
\<close>

theorem relocation_once:
  "(\<forall>k < length (data (calculateProjections e sy d sc)).
      (hasNote MovedHouse (data (calculateProjections e sy d sc) ! k) \<longleftrightarrow>
         outgrown d (data (calculateProjections e sy d sc) ! k) \<and>
         (\<forall>j<k. \<not> outgrown d (data (calculateProjections e sy d sc) ! j))) \<and>
      housingExpenses (data (calculateProjections e sy d sc) ! k) =
        (if k = 0 then currentHousingCost d * 12
         else housingExpenses (data (calculateProjections e sy d sc) ! (k - 1))) *
        rentFactor d (modifiersFor sc) *
        (if hasNote MovedHouse (data (calculateProjections e sy d sc) ! k) then 1.30 else 1)) \<and>
   (\<forall>j < length (data (calculateProjections e sy d sc)).
    \<forall>k < length (data (calculateProjections e sy d sc)).
      hasNote MovedHouse (data (calculateProjections e sy d sc) ! j) \<and>
      hasNote MovedHouse (data (calculateProjections e sy d sc) ! k) \<longrightarrow> j = k)"
proof -
  define ps where "ps = data (calculateProjections e sy d sc)"
  let ?m = "modifiersFor sc"
  have len: "length ps = simulatedYears d" unfolding ps_def by (rule data_length)
  have nth: "ps ! k = pointAt e sy d ?m k" if "k < length ps" for k
    unfolding ps_def by (rule data_nth) (use that len in simp)
  have first: "hasNote MovedHouse (ps ! k) \<longleftrightarrow>
         outgrown d (ps ! k) \<and> (\<forall>j<k. \<not> outgrown d (ps ! j))" if k: "k < length ps" for k
  proof -
    have "\<forall>j<k. ps ! j = pointAt e sy d ?m j" using k nth by simp
    then show ?thesis
      using pointAt_moved_first[of e sy d ?m k] nth[OF k] by simp
  qed
  have rent: "housingExpenses (ps ! k) =
        (if k = 0 then currentHousingCost d * 12 else housingExpenses (ps ! (k - 1))) *
        rentFactor d ?m * (if hasNote MovedHouse (ps ! k) then 1.30 else 1)"
    if k: "k < length ps" for k
  proof -
    have "k - 1 < length ps" using k by simp
    then have "ps ! (k - 1) = pointAt e sy d ?m (k - 1)" by (rule nth)
    then show ?thesis
      using pointAt_housing_step[of e sy d ?m k] nth[OF k] by simp
  qed
  have once: "j = k"
    if "j < length ps" "k < length ps" "hasNote MovedHouse (ps ! j)" "hasNote MovedHouse (ps ! k)"
    for j k
  proof (rule ccontr)
    assume "j \<noteq> k"
    then have "j < k \<or> k < j" by arith
    then show False using first[OF that(1)] first[OF that(2)] that(3,4) by blast
  qed
  have "(\<forall>k < length ps.
      (hasNote MovedHouse (ps ! k) \<longleftrightarrow> outgrown d (ps ! k) \<and> (\<forall>j<k. \<not> outgrown d (ps ! j))) \<and>
      housingExpenses (ps ! k) =
        (if k = 0 then currentHousingCost d * 12 else housingExpenses (ps ! (k - 1))) *
        rentFactor d ?m * (if hasNote MovedHouse (ps ! k) then 1.30 else 1)) \<and>
   (\<forall>j < length ps. \<forall>k < length ps.
      hasNote MovedHouse (ps ! j) \<and> hasNote MovedHouse (ps ! k) \<longrightarrow> j = k)"
    using first rent once by blast
  then show ?thesis unfolding ps_def .
qed

theorem relocation_once_witness:
  "hasNote MovedHouse (data (calculateProjections Current 2025 crowdedHousehold Neutral) ! 0) \<and>
   housingExpenses (data (calculateProjections Current 2025 crowdedHousehold Neutral) ! 0) = 17160 \<and>
   \<not> hasNote MovedHouse (data (calculateProjections Current 2025 crowdedHousehold Neutral) ! 1)"
proof -
  define ps where "ps = data (calculateProjections Current 2025 crowdedHousehold Neutral)"
  have len: "length ps = 2"
    unfolding ps_def data_length
    by (simp add: simulatedYears_def crowdedHousehold_def soloRetiree_def DEFAULT_MAX_AGE_def)
  have out: "outgrown crowdedHousehold (ps ! 0)"
    unfolding ps_def
    by (simp add: outgrown_def crowdedHousehold_def soloRetiree_def engine_defs eval_nat_numeral)
  note inst = relocation_once[of Current 2025 crowdedHousehold Neutral, folded ps_def]
  have k0: "0 < length ps" and k1: "1 < length ps" using len by simp_all
  have a: "hasNote MovedHouse (ps ! 0)"
    using inst[THEN conjunct1, rule_format, OF k0] out by blast
  have "housingExpenses (ps ! 0) =
          currentHousingCost crowdedHousehold * 12 *
          rentFactor crowdedHousehold (modifiersFor Neutral) * 1.30"
    using inst[THEN conjunct1, rule_format, OF k0] a by simp
  then have b: "housingExpenses (ps ! 0) = 17160"
    by (simp add: crowdedHousehold_def soloRetiree_def rentFactor_def modifiersFor_def)
  have c: "\<not> hasNote MovedHouse (ps ! 1)"
    using inst[THEN conjunct2, rule_format, OF k0 k1] a by auto
  from a b c show ?thesis unfolding ps_def by blast
qed

text \<open>
  The claim as stated fails where rent inflates: the household relocates in year 0, the
  rent immediately before firing is 1100 a month (1000 before that year's increase), and
  the rent of the year after is 1573 a month, neither 1.30 times 1100 nor 1.30 times 1000.
\<close>

theorem rent_after_relocation_counterexample:
  "hasNote MovedHouse (data (calculateProjections Current 2025 crowdedHousehold Neutral) ! 0) \<and>
   housingExpenses (data (calculateProjections Current 2025 crowdedHousehold Neutral) ! 1) = 1573 * 12 \<and>
   housingExpenses (data (calculateProjections Current 2025 crowdedHousehold Neutral) ! 1)
     \<noteq> 1.30 * (1100 * 12) \<and>
   housingExpenses (data (calculateProjections Current 2025 crowdedHousehold Neutral) ! 1)
     \<noteq> 1.30 * (1000 * 12)"
  by (simp add: crowdedHousehold_def soloRetiree_def engine_defs hasNote_def eval_nat_numeral)

subsection \<open>Monotonicity of one year\<close>

lemma allocateWorking_mono:
  assumes "0 \<le> c1" and "c1 \<le> c2" and "0 \<le> i1" and "i1 \<le> i2" and "x1 \<le> x2"
  shows "Num 0 \<le> fst (allocateWorking (Num c1) (Num i1) (Num x1))"
    and "fst (allocateWorking (Num c1) (Num i1) (Num x1)) \<le>
         fst (allocateWorking (Num c2) (Num i2) (Num x2))"
    and "Num 0 \<le> snd (allocateWorking (Num c1) (Num i1) (Num x1))"
    and "snd (allocateWorking (Num c1) (Num i1) (Num x1)) \<le>
         snd (allocateWorking (Num c2) (Num i2) (Num x2))"
  using assms by (auto simp: allocateWorking_def absorbDeficit_def)

lemma allocateRetired_mono:
  assumes "0 \<le> c1" and "c1 \<le> c2" and "0 \<le> i1" and "i1 \<le> i2" and "x1 \<le> x2"
  shows "Num 0 \<le> fst (allocateRetired (Num c1) (Num i1) (Num x1))"
    and "fst (allocateRetired (Num c1) (Num i1) (Num x1)) \<le>
         fst (allocateRetired (Num c2) (Num i2) (Num x2))"
    and "Num 0 \<le> snd (allocateRetired (Num c1) (Num i1) (Num x1))"
    and "snd (allocateRetired (Num c1) (Num i1) (Num x1)) \<le>
         snd (allocateRetired (Num c2) (Num i2) (Num x2))"
  using assms by (auto simp: allocateRetired_def absorbDeficit_def)

lemma scale_mono:
  assumes "Num 0 \<le> X" and "X \<le> Y" and "0 \<le> g1" and "g1 \<le> g2"
  shows "Num 0 \<le> X * Num g1" and "X * Num g1 \<le> Y * Num g2"
proof -
  obtain x y where xy: "X = Num x" "Y = Num y" "x \<le> y" using assms(2) by (rule jsnum_le_cases)
  have x0: "0 \<le> x" using assms(1) xy by simp
  then have y0: "0 \<le> y" using xy by simp
  show "Num 0 \<le> X * Num g1" using x0 assms(3) xy by simp
  have "x * g1 \<le> y * g2" by (rule mult_mono[OF xy(3) assms(4) y0 assms(3)])
  then show "X * Num g1 \<le> Y * Num g2" using xy by simp
qed

lemma drawdown_min:
  assumes "v_pillar3Wealth st = Num p" and "v_pillar3AnnualDrawdownSnapshot st = Num s"
    and "0 \<le> p" and "0 \<le> s"
  shows "drawdown e st = Num (min p s)"
  using assms by (cases e) (auto simp: drawdown_def)

lemma payout_arith:
  fixes p1 p2 s1 s2 :: real
  assumes p: "0 \<le> p1" "p1 \<le> p2" and s: "0 \<le> s1" "s1 \<le> s2" and r: "p1 * s2 \<le> p2 * s1"
  shows "max 0 (p1 - min p1 s1) \<le> max 0 (p2 - min p2 s2)"
    and "max 0 (p1 - min p1 s1) * s2 \<le> max 0 (p2 - min p2 s2) * s1"
proof -
  let ?X1 = "max 0 (p1 - min p1 s1)" and ?X2 = "max 0 (p2 - min p2 s2)"
  have x2: "0 \<le> ?X2" "p2 - s2 \<le> ?X2" by (simp_all add: min_def max_def)
  show k2: "?X1 * s2 \<le> ?X2 * s1"
  proof (cases "p1 \<le> s1")
    case True
    then have "?X1 = 0" by (simp add: min_def)
    then show ?thesis using x2(1) s(1) by simp
  next
    case False
    then have x1: "?X1 = p1 - s1" by (simp add: min_def max_def)
    have "(p1 - s1) * s2 \<le> (p2 - s2) * s1" using r by (simp add: algebra_simps)
    also have "\<dots> \<le> ?X2 * s1" using x2(2) s(1) by (rule mult_right_mono)
    finally show ?thesis using x1 by simp
  qed
  show "?X1 \<le> ?X2"
  proof (cases "p1 \<le> s1")
    case True
    then have "?X1 = 0" by (simp add: min_def)
    then show ?thesis using x2(1) by simp
  next
    case False
    then have x1: "?X1 = p1 - s1" and pos: "0 < p1 - s1" by (simp_all add: min_def max_def)
    show ?thesis
    proof (cases "s1 = 0")
      case True
      then have "p1 * s2 \<le> 0" using r by simp
      moreover have "0 < p1" using pos True by simp
      ultimately have "s2 \<le> 0" by (simp add: mult_le_0_iff)
      then have "s2 = 0" using s True by simp
      then have "?X2 = p2" using p by (simp add: min_def max_def)
      then show ?thesis using x1 True p by simp
    next
      case nz: False
      then have s1pos: "0 < s1" using s(1) by simp
      have "(p1 - s1) * s1 \<le> (p1 - s1) * s2" using s(2) pos by (simp add: mult_left_mono)
      also have "\<dots> \<le> ?X2 * s1" using k2 x1 by simp
      finally have "p1 - s1 \<le> ?X2" using s1pos by simp
      then show ?thesis using x1 by simp
    qed
  qed
qed

lemma scaled_payout:
  fixes X1 X2 h1 h2 s1 s2 :: real
  assumes "X1 \<le> X2" and "X1 * s2 \<le> X2 * s1" and "0 \<le> X1" and "0 \<le> s1"
    and "0 \<le> h1" and "h1 \<le> h2"
  shows "0 \<le> X1 * h1" and "X1 * h1 \<le> X2 * h2" and "X1 * h1 * s2 \<le> X2 * h2 * s1"
proof -
  have x2: "0 \<le> X2" using assms(1,3) by simp
  show "0 \<le> X1 * h1" using assms(3,5) by simp
  show "X1 * h1 \<le> X2 * h2" by (rule mult_mono[OF assms(1) assms(6) x2 assms(5)])
  have b: "0 \<le> X2 * s1" using x2 assms(4) by simp
  have "(X1 * s2) * h1 \<le> (X2 * s1) * h2" by (rule mult_mono[OF assms(2) assms(6) b assms(5)])
  then show "X1 * h1 * s2 \<le> X2 * h2 * s1" by (simp add: mult.assoc mult.commute mult.left_commute)
qed

text \<open>The numbers behind two ordered states.\<close>

lemma wealthOrdered_numbers:
  assumes "wealthOrdered s t"
  obtains c1 c2 i1 i2 p1 p2 s1 s2 where
    "v_cashBuffer s = Num c1" "v_cashBuffer t = Num c2" "0 \<le> c1" "c1 \<le> c2"
    "v_investedWealth s = Num i1" "v_investedWealth t = Num i2" "0 \<le> i1" "i1 \<le> i2"
    "v_pillar3Wealth s = Num p1" "v_pillar3Wealth t = Num p2" "0 \<le> p1" "p1 \<le> p2"
    "v_pillar3AnnualDrawdownSnapshot s = Num s1" "v_pillar3AnnualDrawdownSnapshot t = Num s2"
    "0 \<le> s1" "s1 \<le> s2" "p1 * s2 \<le> p2 * s1"
proof -
  obtain c1 c2 where c: "v_cashBuffer s = Num c1" "v_cashBuffer t = Num c2" "c1 \<le> c2"
    using assms unfolding wealthOrdered_def by (elim conjE jsnum_le_cases[of "v_cashBuffer s"]) auto
  obtain i1 i2 where i: "v_investedWealth s = Num i1" "v_investedWealth t = Num i2" "i1 \<le> i2"
    using assms unfolding wealthOrdered_def by (elim conjE jsnum_le_cases[of "v_investedWealth s"]) auto
  obtain p1 p2 where p: "v_pillar3Wealth s = Num p1" "v_pillar3Wealth t = Num p2" "p1 \<le> p2"
    using assms unfolding wealthOrdered_def by (elim conjE jsnum_le_cases[of "v_pillar3Wealth s"]) auto
  obtain s1 s2 where s: "v_pillar3AnnualDrawdownSnapshot s = Num s1"
      "v_pillar3AnnualDrawdownSnapshot t = Num s2" "s1 \<le> s2"
    using assms unfolding wealthOrdered_def
    by (elim conjE jsnum_le_cases[of "v_pillar3AnnualDrawdownSnapshot s"]) auto
  have "0 \<le> c1" "0 \<le> i1" "0 \<le> p1" "0 \<le> s1" "p1 * s2 \<le> p2 * s1"
    using assms c i p s by (simp_all add: wealthOrdered_def)
  then show ?thesis using that c i p s by blast
qed

lemma wealthOrderedI:
  assumes "v_cashBuffer s = Num c1" "v_cashBuffer t = Num c2" "0 \<le> c1" "c1 \<le> c2"
    "v_investedWealth s = Num i1" "v_investedWealth t = Num i2" "0 \<le> i1" "i1 \<le> i2"
    "v_pillar3Wealth s = Num p1" "v_pillar3Wealth t = Num p2" "0 \<le> p1" "p1 \<le> p2"
    "v_pillar3AnnualDrawdownSnapshot s = Num s1" "v_pillar3AnnualDrawdownSnapshot t = Num s2"
    "0 \<le> s1" "s1 \<le> s2" "p1 * s2 \<le> p2 * s1"
    "v_retirementSnapshotTaken s = v_retirementSnapshotTaken t"
    "\<not> v_retirementSnapshotTaken s \<Longrightarrow> s1 = 0 \<and> s2 = 0"
  shows "wealthOrdered s t"
  unfolding wealthOrdered_def using assms by simp

lemma takeSnapshot_ordered:
  assumes wo: "wealthOrdered (fst sl1) (fst sl2)"
    and ra: "retirementAge d1 = retirementAge d2"
  shows "wealthOrdered (fst (takeSnapshot e d1 sl1)) (fst (takeSnapshot e d2 sl2))"
proof (cases "v_retirementSnapshotTaken (fst sl1)")
  case True
  then have "v_retirementSnapshotTaken (fst sl2)" using wo by (simp add: wealthOrdered_def)
  then show ?thesis using True wo by (simp add: takeSnapshot_taken)
next
  case False
  then have f2: "\<not> v_retirementSnapshotTaken (fst sl2)" using wo by (simp add: wealthOrdered_def)
  define D where "D = max 1 (real_of_int (DEFAULT_MAX_AGE - retirementAge d2))"
  have D: "0 < D" unfolding D_def by simp
  from wo obtain c1 c2 i1 i2 p1 p2 s1 s2 where n:
    "v_cashBuffer (fst sl1) = Num c1" "v_cashBuffer (fst sl2) = Num c2" "0 \<le> c1" "c1 \<le> c2"
    "v_investedWealth (fst sl1) = Num i1" "v_investedWealth (fst sl2) = Num i2" "0 \<le> i1" "i1 \<le> i2"
    "v_pillar3Wealth (fst sl1) = Num p1" "v_pillar3Wealth (fst sl2) = Num p2" "0 \<le> p1" "p1 \<le> p2"
    by (rule wealthOrdered_numbers)
  have s1: "v_pillar3AnnualDrawdownSnapshot (fst (takeSnapshot e d1 sl1)) = Num (p1 / D)"
    using takeSnapshot_fresh[OF False, of e d1] n(9) ra by (simp add: snapshotOf_def D_def)
  have s2: "v_pillar3AnnualDrawdownSnapshot (fst (takeSnapshot e d2 sl2)) = Num (p2 / D)"
    using takeSnapshot_fresh[OF f2, of e d2] n(10) by (simp add: snapshotOf_def D_def)
  have a: "0 \<le> p1 / D" using n(11) D by simp
  have b: "p1 / D \<le> p2 / D" using n(12) D by (simp add: divide_right_mono)
  have c: "p1 * (p2 / D) \<le> p2 * (p1 / D)" by (simp add: mult.commute)
  show ?thesis
    by (rule wealthOrderedI[where ?c1.0 = c1 and ?c2.0 = c2 and ?i1.0 = i1 and ?i2.0 = i2
          and ?p1.0 = p1 and ?p2.0 = p2 and ?s1.0 = "p1 / D" and ?s2.0 = "p2 / D"])
       (use n s1 s2 a b c False in simp_all)
qed

lemma workingPhase_ordered:
  assumes wo: "wealthOrdered (fst sl1) (fst sl2)"
    and nt: "\<not> v_retirementSnapshotTaken (fst sl1)"
    and cap: "l_annualSavingsCapacity (snd (workingPhase e d1 m1 a sl1)) \<le>
              l_annualSavingsCapacity (snd (workingPhase e d2 m2 a sl2))"
    and p3: "Num 0 \<le> workingP3 e d1 (fst sl1)"
            "workingP3 e d1 (fst sl1) \<le> workingP3 e d2 (fst sl2)"
    and eff: "effectiveInvestmentReturnPct d1 m1 \<le> effectiveInvestmentReturnPct d2 m2"
  shows "wealthOrdered (fst (workingPhase e d1 m1 a sl1)) (fst (workingPhase e d2 m2 a sl2))"
proof -
  define g1 where "g1 = 1 + effectiveInvestmentReturnPct d1 m1 / 100"
  define g2 where "g2 = 1 + effectiveInvestmentReturnPct d2 m2 / 100"
  have g: "0 \<le> g1" "g1 \<le> g2" using eff eff_nonneg[of d1 m1] by (simp_all add: g1_def g2_def)
  from wo obtain c1 c2 i1 i2 p1 p2 s1 s2 where n:
    "v_cashBuffer (fst sl1) = Num c1" "v_cashBuffer (fst sl2) = Num c2" "0 \<le> c1" "c1 \<le> c2"
    "v_investedWealth (fst sl1) = Num i1" "v_investedWealth (fst sl2) = Num i2" "0 \<le> i1" "i1 \<le> i2"
    "v_pillar3Wealth (fst sl1) = Num p1" "v_pillar3Wealth (fst sl2) = Num p2" "0 \<le> p1" "p1 \<le> p2"
    "v_pillar3AnnualDrawdownSnapshot (fst sl1) = Num s1"
    "v_pillar3AnnualDrawdownSnapshot (fst sl2) = Num s2"
    by (rule wealthOrdered_numbers)
  obtain x1 x2 where x: "l_annualSavingsCapacity (snd (workingPhase e d1 m1 a sl1)) = Num x1"
      "l_annualSavingsCapacity (snd (workingPhase e d2 m2 a sl2)) = Num x2" "x1 \<le> x2"
    using cap by (rule jsnum_le_cases)
  obtain q1 q2 where q: "workingP3 e d1 (fst sl1) = Num q1" "workingP3 e d2 (fst sl2) = Num q2"
      "q1 \<le> q2"
    using p3(2) by (rule jsnum_le_cases)
  have q0: "0 \<le> q1" using p3(1) q by simp
  have snaps: "s1 = 0" "s2 = 0" and tk: "\<not> v_retirementSnapshotTaken (fst sl2)"
    using wo nt n(13,14) by (simp_all add: wealthOrdered_def)
  define A1 where "A1 = allocateWorking (Num c1) (Num i1) (Num x1)"
  define A2 where "A2 = allocateWorking (Num c2) (Num i2) (Num x2)"
  note am = allocateWorking_mono[OF n(3) n(4) n(7) n(8) x(3), folded A1_def A2_def]
  obtain a1 a2 where a: "fst A1 = Num a1" "fst A2 = Num a2" "a1 \<le> a2"
    using am(2) by (rule jsnum_le_cases)
  have a0: "0 \<le> a1" using am(1) a by simp
  obtain b1 b2 where b: "snd A1 * Num g1 = Num b1" "snd A2 * Num g2 = Num b2" "b1 \<le> b2"
    using scale_mono(2)[OF am(3) am(4) g] by (rule jsnum_le_cases)
  have b0: "0 \<le> b1" using scale_mono(1)[OF am(3) am(4) g] b by simp
  have pm: "p1 * g1 \<le> p2 * g2"
    by (rule mult_mono) (use n(11,12) g in simp_all)
  have e1: "v_cashBuffer (fst (workingPhase e d1 m1 a sl1)) = Num a1"
      "v_investedWealth (fst (workingPhase e d1 m1 a sl1)) = Num b1"
      "v_pillar3Wealth (fst (workingPhase e d1 m1 a sl1)) = Num (p1 * g1 + q1)"
    unfolding workingPhase_wealth(2,3,4) x n q
    using a b by (simp_all add: A1_def g1_def)
  have e2: "v_cashBuffer (fst (workingPhase e d2 m2 a sl2)) = Num a2"
      "v_investedWealth (fst (workingPhase e d2 m2 a sl2)) = Num b2"
      "v_pillar3Wealth (fst (workingPhase e d2 m2 a sl2)) = Num (p2 * g2 + q2)"
    unfolding workingPhase_wealth(2,3,4) x n q
    using a b by (simp_all add: A2_def g2_def)
  show ?thesis
    by (rule wealthOrderedI[where ?c1.0 = a1 and ?c2.0 = a2 and ?i1.0 = b1 and ?i2.0 = b2
          and ?p1.0 = "p1 * g1 + q1" and ?p2.0 = "p2 * g2 + q2" and ?s1.0 = 0 and ?s2.0 = 0])
       (use e1 e2 a a0 b b0 pm q q0 n(11) g(1) n(13,14) snaps nt tk in simp_all)
qed

lemma retiredPhase_ordered:
  assumes wo: "wealthOrdered (fst sl1) (fst sl2)"
    and ra: "retirementAge d1 = retirementAge d2"
    and cap: "l_annualSavingsCapacity (snd (retiredPhase e d1 m1 sl1)) \<le>
              l_annualSavingsCapacity (snd (retiredPhase e d2 m2 sl2))"
    and eff: "effectiveInvestmentReturnPct d1 m1 \<le> effectiveInvestmentReturnPct d2 m2"
  shows "wealthOrdered (fst (retiredPhase e d1 m1 sl1)) (fst (retiredPhase e d2 m2 sl2))"
proof -
  define t1 where "t1 = fst (takeSnapshot e d1 sl1)"
  define t2 where "t2 = fst (takeSnapshot e d2 sl2)"
  have wt: "wealthOrdered t1 t2" unfolding t1_def t2_def by (rule takeSnapshot_ordered[OF wo ra])
  from wt obtain c1 c2 i1 i2 p1 p2 s1 s2 where n:
    "v_cashBuffer t1 = Num c1" "v_cashBuffer t2 = Num c2" "0 \<le> c1" "c1 \<le> c2"
    "v_investedWealth t1 = Num i1" "v_investedWealth t2 = Num i2" "0 \<le> i1" "i1 \<le> i2"
    "v_pillar3Wealth t1 = Num p1" "v_pillar3Wealth t2 = Num p2" "0 \<le> p1" "p1 \<le> p2"
    "v_pillar3AnnualDrawdownSnapshot t1 = Num s1" "v_pillar3AnnualDrawdownSnapshot t2 = Num s2"
    "0 \<le> s1" "s1 \<le> s2" "p1 * s2 \<le> p2 * s1"
    by (rule wealthOrdered_numbers)
  have cs: "v_cashBuffer (fst sl1) = Num c1" "v_cashBuffer (fst sl2) = Num c2"
      "v_investedWealth (fst sl1) = Num i1" "v_investedWealth (fst sl2) = Num i2"
    using n(1,2,5,6) by (simp_all add: t1_def t2_def)
  have p2': "0 \<le> p2" and s2': "0 \<le> s2" using n(11,12,15,16) by simp_all
  have d1: "drawdown e t1 = Num (min p1 s1)" by (rule drawdown_min[OF n(9) n(13) n(11) n(15)])
  have d2: "drawdown e t2 = Num (min p2 s2)" by (rule drawdown_min[OF n(10) n(14) p2' s2'])
  define X1 where "X1 = max 0 (p1 - min p1 s1)"
  define X2 where "X2 = max 0 (p2 - min p2 s2)"
  have X: "X1 \<le> X2" "X1 * s2 \<le> X2 * s1"
    unfolding X1_def X2_def using payout_arith[OF n(11) n(12) n(15) n(16) n(17)] by simp_all
  have X0: "0 \<le> X1" unfolding X1_def by simp
  define h1 where "h1 = 1 + (effectiveInvestmentReturnPct d1 m1 / 100) * 0.3"
  define h2 where "h2 = 1 + (effectiveInvestmentReturnPct d2 m2 / 100) * 0.3"
  define g1 where "g1 = 1 + effectiveInvestmentReturnPct d1 m1 / 100"
  define g2 where "g2 = 1 + effectiveInvestmentReturnPct d2 m2 / 100"
  have h: "0 \<le> h1" "h1 \<le> h2" and g: "0 \<le> g1" "g1 \<le> g2"
    using eff eff_nonneg[of d1 m1] by (simp_all add: h1_def h2_def g1_def g2_def)
  note P = scaled_payout[OF X X0 n(15) h]
  obtain x1 x2 where x: "l_annualSavingsCapacity (snd (retiredPhase e d1 m1 sl1)) = Num x1"
      "l_annualSavingsCapacity (snd (retiredPhase e d2 m2 sl2)) = Num x2" "x1 \<le> x2"
    using cap by (rule jsnum_le_cases)
  define A1 where "A1 = allocateRetired (Num c1) (Num i1) (Num x1)"
  define A2 where "A2 = allocateRetired (Num c2) (Num i2) (Num x2)"
  note am = allocateRetired_mono[OF n(3) n(4) n(7) n(8) x(3), folded A1_def A2_def]
  obtain a1 a2 where a: "fst A1 = Num a1" "fst A2 = Num a2" "a1 \<le> a2"
    using am(2) by (rule jsnum_le_cases)
  have a0: "0 \<le> a1" using am(1) a by simp
  obtain b1 b2 where b: "snd A1 * Num g1 = Num b1" "snd A2 * Num g2 = Num b2" "b1 \<le> b2"
    using scale_mono(2)[OF am(3) am(4) g] by (rule jsnum_le_cases)
  have b0: "0 \<le> b1" using scale_mono(1)[OF am(3) am(4) g] b by simp
  have e1: "v_cashBuffer (fst (retiredPhase e d1 m1 sl1)) = Num a1"
      "v_investedWealth (fst (retiredPhase e d1 m1 sl1)) = Num b1"
      "v_pillar3Wealth (fst (retiredPhase e d1 m1 sl1)) = Num (X1 * h1)"
      "v_pillar3AnnualDrawdownSnapshot (fst (retiredPhase e d1 m1 sl1)) = Num s1"
    unfolding retiredPhase_wealth(1,2,3,6) x cs t1_def[symmetric] n d1
    using a b by (simp_all add: A1_def g1_def X1_def h1_def)
  have e2: "v_cashBuffer (fst (retiredPhase e d2 m2 sl2)) = Num a2"
      "v_investedWealth (fst (retiredPhase e d2 m2 sl2)) = Num b2"
      "v_pillar3Wealth (fst (retiredPhase e d2 m2 sl2)) = Num (X2 * h2)"
      "v_pillar3AnnualDrawdownSnapshot (fst (retiredPhase e d2 m2 sl2)) = Num s2"
    unfolding retiredPhase_wealth(1,2,3,6) x cs t2_def[symmetric] n d2
    using a b by (simp_all add: A2_def g2_def X2_def h2_def)
  show ?thesis
    by (rule wealthOrderedI[where ?c1.0 = a1 and ?c2.0 = a2 and ?i1.0 = b1 and ?i2.0 = b2
          and ?p1.0 = "X1 * h1" and ?p2.0 = "X2 * h2" and ?s1.0 = s1 and ?s2.0 = s2])
       (use e1 e2 a a0 b b0 P n(15,16) in simp_all)
qed

lemma wealthOrdered_total:
  assumes "wealthOrdered s t" and "v_pillar2Wealth s = v_pillar2Wealth t"
  shows "totalWealthOf s \<le> totalWealthOf t"
proof -
  from assms(1) obtain c1 c2 i1 i2 p1 p2 s1 s2 where n:
    "v_cashBuffer s = Num c1" "v_cashBuffer t = Num c2" "0 \<le> c1" "c1 \<le> c2"
    "v_investedWealth s = Num i1" "v_investedWealth t = Num i2" "0 \<le> i1" "i1 \<le> i2"
    "v_pillar3Wealth s = Num p1" "v_pillar3Wealth t = Num p2" "0 \<le> p1" "p1 \<le> p2"
    by (rule wealthOrdered_numbers)
  show ?thesis unfolding totalWealthOf_def n assms(2) using n(4,8,12) by simp
qed

lemma wealthOrdered_expensesPhase:
  "wealthOrdered (fst (expensesPhase e d1 m1 a s)) (fst (expensesPhase e d2 m2 a t)) =
   wealthOrdered s t"
  by (simp add: wealthOrdered_def)

lemma wealthOrdered_recordPhase:
  "wealthOrdered (recordPhase e sy1 d1 a sl1) (recordPhase e sy2 d2 a sl2) =
   wealthOrdered (fst sl1) (fst sl2)"
  by (simp add: wealthOrdered_def)

lemma totalWealthOf_recordPhase:
  "totalWealthOf (recordPhase e sy d a sl) = totalWealthOf (fst sl)"
  by (simp add: totalWealthOf_def)

lemma lastTotalWealth_snoc: "lastTotalWealth (xs @ [x]) = totalWealth x"
  by (cases xs) (simp_all add: lastTotalWealth_def)

lemma finalWealth_stateAfter:
  "finalWealth (calculateProjections e sy d sc) =
     (if simulatedYears d = 0 then Num 0
      else totalWealthOf (stateAfter e sy d (modifiersFor sc) (simulatedYears d)))"
proof (cases "simulatedYears d")
  case 0
  then show ?thesis
    by (simp add: ageLoop_stateAfter lastTotalWealth_def) (simp add: initialState_def)
next
  case (Suc n)
  have a: "finalWealth (calculateProjections e sy d sc) =
             lastTotalWealth (map (pointAt e sy d (modifiersFor sc)) [0 ..< Suc n])"
    unfolding calc_fields ageLoop_stateAfter Suc stateAfter_points ..
  have b: "lastTotalWealth (map (pointAt e sy d (modifiersFor sc)) [0 ..< Suc n]) =
             totalWealth (pointAt e sy d (modifiersFor sc) n)"
    by (simp add: lastTotalWealth_snoc)
  have c: "totalWealth (pointAt e sy d (modifiersFor sc) n) =
             totalWealthOf (stateAfter e sy d (modifiersFor sc) (Suc n))"
    by (simp add: pointAt_def yearStep_def totalWealthOf_recordPhase)
  show ?thesis unfolding a b c using Suc by simp
qed



lemma workingPhase_salaries:
  "v_grossSalary1 (fst (workingPhase e d m a sl)) =
     v_grossSalary1 (fst sl) *
       (1 + getSalaryGrowthRate a (careerStage1 d) (baseInflationPct d m / 100) +
        salaryGrowthModPct m / 100)"
  "v_grossSalary2 (fst (workingPhase e d m a sl)) =
     v_grossSalary2 (fst sl) *
       (1 + getSalaryGrowthRate a (careerStage2 d) (baseInflationPct d m / 100) +
        salaryGrowthModPct m / 100)"
  "v_grossBonus (fst (workingPhase e d m a sl)) =
     v_grossBonus (fst sl) * (1 + baseInflationPct d m / 100)"
  by (simp_all add: workingPhase_def Let_def)

lemma workingP3_current_nonneg:
  assumes "0 \<le> plannedP3 d" and "workingNet d st \<noteq> NaN"
  shows "Num 0 \<le> workingP3 Current d st"
  using assms by (cases "workingNet d st") (simp_all add: workingP3_def)


lemma takeSnapshot_lpp:
  "v_lppAnnualPensionSnapshot (fst (takeSnapshot e d sl)) =
     (if v_retirementSnapshotTaken (fst sl) then v_lppAnnualPensionSnapshot (fst sl)
      else v_pillar2Wealth (fst sl) * LPP_CONVERSION_RATE)"
  by (simp add: takeSnapshot_def Let_def)

lemma drawdown_ordered:
  assumes "wealthOrdered s t"
  shows "drawdown e s \<le> drawdown e t"
proof -
  from assms obtain c1 c2 i1 i2 p1 p2 s1 s2 where n:
    "v_cashBuffer s = Num c1" "v_cashBuffer t = Num c2" "0 \<le> c1" "c1 \<le> c2"
    "v_investedWealth s = Num i1" "v_investedWealth t = Num i2" "0 \<le> i1" "i1 \<le> i2"
    "v_pillar3Wealth s = Num p1" "v_pillar3Wealth t = Num p2" "0 \<le> p1" "p1 \<le> p2"
    "v_pillar3AnnualDrawdownSnapshot s = Num s1" "v_pillar3AnnualDrawdownSnapshot t = Num s2"
    "0 \<le> s1" "s1 \<le> s2"
    by (rule wealthOrdered_numbers)
  have p2': "0 \<le> p2" and s2': "0 \<le> s2" using n(11,12,15,16) by simp_all
  show ?thesis
    unfolding drawdown_min[OF n(9) n(13) n(11) n(15)] drawdown_min[OF n(10) n(14) p2' s2']
    using n(12,16) by (simp add: min_def)
qed

lemma retired_capacity_ordered:
  assumes wo: "wealthOrdered (fst sl1) (fst sl2)"
    and ra: "retirementAge d1 = retirementAge d2"
    and inc: "AHV_COUPLE_MAX_ANNUAL_2025 * l_inflationFactor (snd sl1) * 0.85 +
              v_lppAnnualPensionSnapshot (fst (takeSnapshot e d1 sl1)) * 0.85 -
              l_totalExpenses (snd sl1) \<le>
              AHV_COUPLE_MAX_ANNUAL_2025 * l_inflationFactor (snd sl2) * 0.85 +
              v_lppAnnualPensionSnapshot (fst (takeSnapshot e d2 sl2)) * 0.85 -
              l_totalExpenses (snd sl2)"
  shows "l_annualSavingsCapacity (snd (retiredPhase e d1 m1 sl1)) \<le>
         l_annualSavingsCapacity (snd (retiredPhase e d2 m2 sl2))"
proof -
  have "drawdown e (fst (takeSnapshot e d1 sl1)) \<le> drawdown e (fst (takeSnapshot e d2 sl2))"
    by (rule drawdown_ordered[OF takeSnapshot_ordered[OF wo ra]])
  then obtain q1 q2 where q: "drawdown e (fst (takeSnapshot e d1 sl1)) = Num q1"
      "drawdown e (fst (takeSnapshot e d2 sl2)) = Num q2" "q1 \<le> q2"
    by (rule jsnum_le_cases)
  show ?thesis
    unfolding retiredPhase_wealth(4) q using inc q(3) by (simp add: field_simps)
qed

lemma eff_mono_return:
  "r1 \<le> r2 \<Longrightarrow>
   effectiveInvestmentReturnPct (d\<lparr>investmentReturn := r1\<rparr>) m \<le>
   effectiveInvestmentReturnPct (d\<lparr>investmentReturn := r2\<rparr>) m"
  by (simp add: effectiveInvestmentReturnPct_def)

lemma childCost_return [simp]:
  "childCost e (d\<lparr>investmentReturn := r\<rparr>) x = childCost e d x"
  by (simp add: childCost_def uniCost_def split: engine.splits)

lemma expensesPhase_return:
  assumes "v_currentRent s = v_currentRent t" and "v_childrenAges s = v_childrenAges t"
    and "v_hasMovedHouse s = v_hasMovedHouse t"
  shows "snd (expensesPhase e (d\<lparr>investmentReturn := r1\<rparr>) m a s) =
         snd (expensesPhase e (d\<lparr>investmentReturn := r2\<rparr>) m a t)"
    and "v_currentRent (fst (expensesPhase e (d\<lparr>investmentReturn := r1\<rparr>) m a s)) =
         v_currentRent (fst (expensesPhase e (d\<lparr>investmentReturn := r2\<rparr>) m a t))"
    and "v_hasMovedHouse (fst (expensesPhase e (d\<lparr>investmentReturn := r1\<rparr>) m a s)) =
         v_hasMovedHouse (fst (expensesPhase e (d\<lparr>investmentReturn := r2\<rparr>) m a t))"
  using assms by (simp_all add: expensesPhase_def Let_def baseInflationPct_def childrenLoop_eq cong: if_cong)

text \<open>What two runs that differ in \<open>investmentReturn\<close> only have in common.\<close>

lemma return_runs_related:
  assumes r: "r1 \<le> r2" and planned: "0 \<le> plannedP3 d"
    and sav: "0 \<le> currentSavings d" and bal: "0 \<le> pillar3Balance1 d + pillar3Balance2 d"
    and tax: "taxFactorIsNumber d \<or> retirementAge d \<le> currentAge d"
  shows "wealthOrdered (stateAfter Current sy (d\<lparr>investmentReturn := r1\<rparr>) m k)
                       (stateAfter Current sy (d\<lparr>investmentReturn := r2\<rparr>) m k) \<and>
         v_pillar2Wealth (stateAfter Current sy (d\<lparr>investmentReturn := r1\<rparr>) m k) =
           v_pillar2Wealth (stateAfter Current sy (d\<lparr>investmentReturn := r2\<rparr>) m k) \<and>
         v_lppAnnualPensionSnapshot (stateAfter Current sy (d\<lparr>investmentReturn := r1\<rparr>) m k) =
           v_lppAnnualPensionSnapshot (stateAfter Current sy (d\<lparr>investmentReturn := r2\<rparr>) m k) \<and>
         v_grossSalary1 (stateAfter Current sy (d\<lparr>investmentReturn := r1\<rparr>) m k) =
           v_grossSalary1 (stateAfter Current sy (d\<lparr>investmentReturn := r2\<rparr>) m k) \<and>
         v_grossSalary2 (stateAfter Current sy (d\<lparr>investmentReturn := r1\<rparr>) m k) =
           v_grossSalary2 (stateAfter Current sy (d\<lparr>investmentReturn := r2\<rparr>) m k) \<and>
         v_grossBonus (stateAfter Current sy (d\<lparr>investmentReturn := r1\<rparr>) m k) =
           v_grossBonus (stateAfter Current sy (d\<lparr>investmentReturn := r2\<rparr>) m k) \<and>
         v_currentRent (stateAfter Current sy (d\<lparr>investmentReturn := r1\<rparr>) m k) =
           v_currentRent (stateAfter Current sy (d\<lparr>investmentReturn := r2\<rparr>) m k) \<and>
         v_childrenAges (stateAfter Current sy (d\<lparr>investmentReturn := r1\<rparr>) m k) =
           v_childrenAges (stateAfter Current sy (d\<lparr>investmentReturn := r2\<rparr>) m k) \<and>
         v_hasMovedHouse (stateAfter Current sy (d\<lparr>investmentReturn := r1\<rparr>) m k) =
           v_hasMovedHouse (stateAfter Current sy (d\<lparr>investmentReturn := r2\<rparr>) m k)"
proof (induction k)
  case 0
  show ?case
    using sav bal
    by (simp add: initialState_def wealthOrdered_def computeChildrenSchedule_def)
next
  case (Suc k)
  define d1 where "d1 = d\<lparr>investmentReturn := r1\<rparr>"
  define d2 where "d2 = d\<lparr>investmentReturn := r2\<rparr>"
  define s where "s = stateAfter Current sy d1 m k"
  define t where "t = stateAfter Current sy d2 m k"
  define a where "a = currentAge d + int k"
  define sl1 where "sl1 = expensesPhase Current d1 m a s"
  define sl2 where "sl2 = expensesPhase Current d2 m a t"
  have ih: "wealthOrdered s t" "v_pillar2Wealth s = v_pillar2Wealth t"
      "v_lppAnnualPensionSnapshot s = v_lppAnnualPensionSnapshot t"
      "v_grossSalary1 s = v_grossSalary1 t"
      "v_grossSalary2 s = v_grossSalary2 t" "v_grossBonus s = v_grossBonus t"
      "v_currentRent s = v_currentRent t" "v_childrenAges s = v_childrenAges t"
      "v_hasMovedHouse s = v_hasMovedHouse t"
    using Suc unfolding s_def t_def d1_def d2_def by simp_all
  have loc: "snd sl1 = snd sl2"
    and rent: "v_currentRent (fst sl1) = v_currentRent (fst sl2)"
    and moved: "v_hasMovedHouse (fst sl1) = v_hasMovedHouse (fst sl2)"
    unfolding sl1_def sl2_def d1_def d2_def
    using expensesPhase_return[OF ih(7) ih(8) ih(9)] by simp_all
  have wo: "wealthOrdered (fst sl1) (fst sl2)"
    unfolding sl1_def sl2_def wealthOrdered_expensesPhase by (rule ih(1))
  have sal: "v_grossSalary1 (fst sl1) = v_grossSalary1 (fst sl2)"
      "v_grossSalary2 (fst sl1) = v_grossSalary2 (fst sl2)"
      "v_grossBonus (fst sl1) = v_grossBonus (fst sl2)"
      "v_childrenAges (fst sl1) = v_childrenAges (fst sl2)"
      "v_pillar2Wealth (fst sl1) = v_pillar2Wealth (fst sl2)"
      "v_lppAnnualPensionSnapshot (fst sl1) = v_lppAnnualPensionSnapshot (fst sl2)"
    unfolding sl1_def sl2_def using ih by simp_all
  have tk: "v_retirementSnapshotTaken (fst sl1) = v_retirementSnapshotTaken (fst sl2)"
    using wo by (simp add: wealthOrdered_def)
  have eff: "effectiveInvestmentReturnPct d1 m \<le> effectiveInvestmentReturnPct d2 m"
    unfolding d1_def d2_def by (rule eff_mono_return[OF r])
  have st1: "stateAfter Current sy d1 m (Suc k) = recordPhase Current sy d1 a (incomePhase Current d1 m a sl1)"
    by (simp add: yearStep_def sl1_def s_def a_def d1_def)
  have st2: "stateAfter Current sy d2 m (Suc k) = recordPhase Current sy d2 a (incomePhase Current d2 m a sl2)"
    by (simp add: yearStep_def sl2_def t_def a_def d2_def)
  have ra: "retirementAge d1 = retirementAge d2" "retirementAge d1 = retirementAge d"
    by (simp_all add: d1_def d2_def)
  have "wealthOrdered (fst (incomePhase Current d1 m a sl1)) (fst (incomePhase Current d2 m a sl2)) \<and>
        v_pillar2Wealth (fst (incomePhase Current d1 m a sl1)) =
          v_pillar2Wealth (fst (incomePhase Current d2 m a sl2)) \<and>
        v_lppAnnualPensionSnapshot (fst (incomePhase Current d1 m a sl1)) =
          v_lppAnnualPensionSnapshot (fst (incomePhase Current d2 m a sl2)) \<and>
        v_grossSalary1 (fst (incomePhase Current d1 m a sl1)) =
          v_grossSalary1 (fst (incomePhase Current d2 m a sl2)) \<and>
        v_grossSalary2 (fst (incomePhase Current d1 m a sl1)) =
          v_grossSalary2 (fst (incomePhase Current d2 m a sl2)) \<and>
        v_grossBonus (fst (incomePhase Current d1 m a sl1)) =
          v_grossBonus (fst (incomePhase Current d2 m a sl2))"
  proof (cases "a < retirementAge d")
    case True
    then have "taxFactorIsNumber d" using tax by (auto simp: a_def)
    then have tn: "taxFactorIsNumber d1" by (simp add: d1_def taxFactorIsNumber_def)
    have "\<not> v_retirementSnapshotTaken s"
      unfolding s_def stateAfter_taken_iff using True by (simp add: a_def d1_def)
    then have nt: "\<not> v_retirementSnapshotTaken (fst sl1)" by (simp add: sl1_def)
    have net: "workingNet d1 (fst sl1) = workingNet d2 (fst sl2)"
      using sal by (simp add: workingNet_def d1_def d2_def)
    have num: "workingNet d1 (fst sl1) \<noteq> NaN" by (rule workingNet_numeric[OF tn])
    have pl: "plannedP3 d1 = plannedP3 d2" "0 \<le> plannedP3 d1"
      using planned by (simp_all add: plannedP3_def d1_def d2_def)
    have p3: "workingP3 Current d1 (fst sl1) = workingP3 Current d2 (fst sl2)"
      using net pl by (simp add: workingP3_def)
    have p3nn: "Num 0 \<le> workingP3 Current d1 (fst sl1)"
      by (rule workingP3_current_nonneg[OF pl(2) num])
    then obtain q where q: "workingP3 Current d1 (fst sl1) = Num q" by (auto simp: Num_le_iff)
    obtain w where w: "workingNet d1 (fst sl1) = Num w" using num by (auto simp: not_NaN_iff)
    have p3le: "workingP3 Current d1 (fst sl1) \<le> workingP3 Current d2 (fst sl2)"
      unfolding p3[symmetric] q by simp
    have cap: "l_annualSavingsCapacity (snd (workingPhase Current d1 m a sl1)) \<le>
               l_annualSavingsCapacity (snd (workingPhase Current d2 m a sl2))"
      unfolding workingPhase_wealth(5) net[symmetric] p3[symmetric] loc w q by simp
    have wp: "wealthOrdered (fst (workingPhase Current d1 m a sl1)) (fst (workingPhase Current d2 m a sl2))"
      by (rule workingPhase_ordered[OF wo nt cap p3nn p3le eff])
    have g: "v_grossSalary1 (fst (workingPhase Current d1 m a sl1)) =
               v_grossSalary1 (fst (workingPhase Current d2 m a sl2))"
        "v_grossSalary2 (fst (workingPhase Current d1 m a sl1)) =
               v_grossSalary2 (fst (workingPhase Current d2 m a sl2))"
        "v_grossBonus (fst (workingPhase Current d1 m a sl1)) =
               v_grossBonus (fst (workingPhase Current d2 m a sl2))"
      unfolding workingPhase_salaries using sal
      by (simp_all add: d1_def d2_def baseInflationPct_def)
    have p2: "v_pillar2Wealth (fst (workingPhase Current d1 m a sl1)) =
              v_pillar2Wealth (fst (workingPhase Current d2 m a sl2))"
      unfolding workingPhase_wealth(1) using sal by simp
    show ?thesis using True wp g p2 ra sal(6) by (simp add: incomePhase_def)
  next
    case False
    have lpp: "v_lppAnnualPensionSnapshot (fst (takeSnapshot Current d1 sl1)) =
               v_lppAnnualPensionSnapshot (fst (takeSnapshot Current d2 sl2))"
      unfolding takeSnapshot_lpp using sal(5,6) tk by simp
    have cap: "l_annualSavingsCapacity (snd (retiredPhase Current d1 m sl1)) \<le>
               l_annualSavingsCapacity (snd (retiredPhase Current d2 m sl2))"
      by (rule retired_capacity_ordered[OF wo ra(1)]) (simp add: lpp loc)
    have wp: "wealthOrdered (fst (retiredPhase Current d1 m sl1)) (fst (retiredPhase Current d2 m sl2))"
      by (rule retiredPhase_ordered[OF wo ra(1) cap eff])
    show ?thesis using False wp sal ra lpp by (simp add: incomePhase_def retiredPhase_wealth(5))
  qed
  then show ?case
    unfolding st1[unfolded d1_def] st2[unfolded d2_def] wealthOrdered_recordPhase
    using rent moved sal(4) by (simp add: d1_def d2_def)
qed

subsection \<open>Investment return\<close>

text \<open>
  C2, amended. For every household profile whose current savings, pillar-3 balances (in
  sum) and planned pillar-3 contributions (in sum) are non-negative and whose tax factor is
  a number (the canton is not the name of a member of \<open>Object.prototype\<close>) or who is
  retired from the first simulated year on, and for every pair of baseline investment
  returns \<open>r1 \<le> r2\<close>, all other fields being the same, the final wealth of the neutral
  run of the current engine with return \<open>r2\<close> is at least that with return \<open>r1\<close>.
\<close>

theorem investment_return_monotone:
  assumes "0 \<le> currentSavings d" and "0 \<le> pillar3Balance1 d + pillar3Balance2 d"
    and "0 \<le> pillar3AnnualContribution1 d + pillar3AnnualContribution2 d"
    and "taxFactorIsNumber d \<or> retirementAge d \<le> currentAge d"
    and "r1 \<le> r2"
  shows "finalWealth (calculateProjections Current sy (d\<lparr>investmentReturn := r1\<rparr>) Neutral) \<le>
         finalWealth (calculateProjections Current sy (d\<lparr>investmentReturn := r2\<rparr>) Neutral)"
proof -
  have planned: "0 \<le> plannedP3 d" using assms(3) by (simp add: plannedP3_def)
  have n: "simulatedYears (d\<lparr>investmentReturn := r1\<rparr>) = simulatedYears d"
      "simulatedYears (d\<lparr>investmentReturn := r2\<rparr>) = simulatedYears d"
    by (simp_all add: simulatedYears_def)
  note rel = return_runs_related[OF assms(5) planned assms(1) assms(2) assms(4),
      of sy "modifiersFor Neutral" "simulatedYears d"]
  have "totalWealthOf
          (stateAfter Current sy (d\<lparr>investmentReturn := r1\<rparr>) (modifiersFor Neutral) (simulatedYears d)) \<le>
        totalWealthOf
          (stateAfter Current sy (d\<lparr>investmentReturn := r2\<rparr>) (modifiersFor Neutral) (simulatedYears d))"
    by (rule wealthOrdered_total) (use rel in blast)+
  then show ?thesis
    unfolding finalWealth_stateAfter n by simp
qed

theorem investment_return_monotone_witness:
  "finalWealth (calculateProjections Current 2025 (initialData\<lparr>investmentReturn := 3\<rparr>) Neutral) \<le>
   finalWealth (calculateProjections Current 2025 (initialData\<lparr>investmentReturn := 4.5\<rparr>) Neutral)"
proof -
  have a: "0 \<le> currentSavings initialData"
    and b: "0 \<le> pillar3Balance1 initialData + pillar3Balance2 initialData"
    and c: "0 \<le> pillar3AnnualContribution1 initialData + pillar3AnnualContribution2 initialData"
    by (simp_all add: initialData_def)
  have t: "taxFactorIsNumber initialData \<or> retirementAge initialData \<le> currentAge initialData"
    by (simp add: taxFactorIsNumber_def initialData_def getTaxFactor_def taxFactorByCanton_def)
  have r: "(3::real) \<le> 4.5" by simp
  show ?thesis by (rule investment_return_monotone[OF a b c t r])
qed

text \<open>
  The claim as stated fails in two ways. With savings of -1000 the invested bucket is
  negative and a higher return makes it more negative: the retired couple ends with 73970
  at a return of 0 percent and with 73823 at 10 percent. With the canton \<open>toString\<close> and a
  working year the final wealth is \<open>NaN\<close> at every return, and \<open>NaN\<close> is not at least
  \<open>NaN\<close>.
\<close>

theorem investment_return_counterexample:
  "finalWealth (calculateProjections Current 2025 (indebtedRetiree\<lparr>investmentReturn := 0\<rparr>) Neutral)
     = Num 73970 \<and>
   finalWealth (calculateProjections Current 2025 (indebtedRetiree\<lparr>investmentReturn := 10\<rparr>) Neutral)
     = Num 73823 \<and>
   \<not> finalWealth (calculateProjections Current 2025 (indebtedRetiree\<lparr>investmentReturn := 0\<rparr>) Neutral) \<le>
     finalWealth (calculateProjections Current 2025 (indebtedRetiree\<lparr>investmentReturn := 10\<rparr>) Neutral) \<and>
   \<not> finalWealth (calculateProjections Current 2025 (prototypeCanton\<lparr>investmentReturn := 0\<rparr>) Neutral) \<le>
     finalWealth (calculateProjections Current 2025 (prototypeCanton\<lparr>investmentReturn := 10\<rparr>) Neutral)"
  by (simp add: indebtedRetiree_def prototypeCanton_def soloRetiree_def engine_defs)

subsection \<open>Pessimistic against optimistic\<close>








subsection \<open>The input profile is never written\<close>

declare ageLoop_ref.simps [simp del] searchLoop_ref.simps [simp del]

lemma yearStep_ref_sim:
  assumes "profiles h pa = Some d" and "arrays h ca = Some (v_childrenAges st)"
  shows "yearStep_ref e sy m pa ca a (st, h) =
           Some (yearStep e sy d m a st,
                 h\<lparr>arrays := (arrays h)(ca \<mapsto> v_childrenAges (yearStep e sy d m a st))\<rparr>)"
  using assms by (simp add: yearStep_ref_def)

lemma ageLoop_ref_sim:
  assumes "profiles h pa = Some d" and "arrays h ca = Some (v_childrenAges st)"
  shows "\<exists>h'. ageLoop_ref e sy m pa ca a (st, h) = Some (ageLoop e sy d m a st, h') \<and>
              profiles h' = profiles h \<and> nextRef h' = nextRef h"
  using assms
proof (induction "nat (DEFAULT_MAX_AGE + 1 - a)" arbitrary: a st h)
  case 0
  then have "\<not> a \<le> DEFAULT_MAX_AGE" by simp
  then show ?case
    by (simp add: ageLoop_ref.simps[of e sy m pa ca a] ageLoop_done)
next
  case (Suc n)
  then have le: "a \<le> DEFAULT_MAX_AGE" by simp
  have n: "n = nat (DEFAULT_MAX_AGE + 1 - (a + 1))" using Suc.hyps(2) by simp
  define st' where "st' = yearStep e sy d m a st"
  define h1 where "h1 = h\<lparr>arrays := (arrays h)(ca \<mapsto> v_childrenAges st')\<rparr>"
  have step: "yearStep_ref e sy m pa ca a (st, h) = Some (st', h1)"
    unfolding st'_def h1_def by (rule yearStep_ref_sim[OF Suc.prems])
  have p1: "profiles h1 pa = Some d" and a1: "arrays h1 ca = Some (v_childrenAges st')"
    using Suc.prems(1) by (simp_all add: h1_def)
  obtain h' where h': "ageLoop_ref e sy m pa ca (a + 1) (st', h1) = Some (ageLoop e sy d m (a + 1) st', h')"
      "profiles h' = profiles h1" "nextRef h' = nextRef h1"
    using Suc.hyps(1)[OF n p1 a1] by blast
  have "ageLoop_ref e sy m pa ca a (st, h) = Some (ageLoop e sy d m a st, h')"
    using le step h'(1)
    by (simp add: ageLoop_ref.simps[of e sy m pa ca a] ageLoop_unfold[OF le] st'_def)
  moreover have "profiles h' = profiles h" "nextRef h' = nextRef h"
    using h'(2,3) by (simp_all add: h1_def)
  ultimately show ?case by blast
qed

lemma calculateProjections_ref_sim:
  assumes "profiles h pa = Some d"
  shows "\<exists>h'. calculateProjections_ref e sy pa sc h = Some (calculateProjections e sy d sc, h') \<and>
              profiles h' = profiles h \<and> nextRef h' = Suc (nextRef h)"
proof -
  define h1 where "h1 = snd (allocArray (computeChildrenSchedule d) h)"
  define ca where "ca = fst (allocArray (computeChildrenSchedule d) h)"
  have p1: "profiles h1 pa = Some d" using assms by (simp add: h1_def allocArray_def)
  have a1: "arrays h1 ca = Some (v_childrenAges (initialState d))"
    by (simp add: h1_def ca_def allocArray_def initialState_def)
  obtain h' where h': "ageLoop_ref e sy (modifiersFor sc) pa ca (currentAge d) (initialState d, h1) =
        Some (ageLoop e sy d (modifiersFor sc) (currentAge d) (initialState d), h')"
      "profiles h' = profiles h1" "nextRef h' = nextRef h1"
    using ageLoop_ref_sim[OF p1 a1] by blast
  have "calculateProjections_ref e sy pa sc h = Some (calculateProjections e sy d sc, h')"
    using assms h'(1)
    by (simp add: calculateProjections_ref_def Let_def calculateProjections_def h1_def ca_def)
  moreover have "profiles h' = profiles h" "nextRef h' = Suc (nextRef h)"
    using h'(2,3) by (simp_all add: h1_def allocArray_def)
  ultimately show ?thesis by blast
qed

lemma runOnClone_sim:
  assumes "profiles h pa = Some d" and "pa < nextRef h"
  shows "\<exists>h'. runOnClone e sy pa sc h = Some (calculateProjections e sy d sc, h') \<and>
              profiles h' pa = Some d \<and> pa < nextRef h'"
proof -
  define c where "c = allocProfile d h"
  have cl: "clone pa h = Some c" using assms(1) by (simp add: clone_def c_def)
  have pc: "profiles (snd c) (fst c) = Some d" by (simp add: c_def allocProfile_def)
  have keep: "profiles (snd c) pa = Some d" "pa < nextRef (snd c)"
    using assms by (simp_all add: c_def allocProfile_def)
  obtain h' where h': "calculateProjections_ref e sy (fst c) sc (snd c) =
        Some (calculateProjections e sy d sc, h')"
      "profiles h' = profiles (snd c)" "nextRef h' = Suc (nextRef (snd c))"
    using calculateProjections_ref_sim[OF pc] by blast
  have "runOnClone e sy pa sc h = Some (calculateProjections e sy d sc, h')"
    using cl h'(1) by (simp add: runOnClone_def)
  moreover have "profiles h' pa = Some d" "pa < nextRef h'" using h'(2,3) keep by simp_all
  ultimately show ?thesis by blast
qed

lemma runAllScenarios_ref_sim:
  assumes "profiles h pa = Some d" and "pa < nextRef h"
  shows "\<exists>h'. runAllScenarios_ref e sy pa h = Some (runAllScenarios e sy d, h') \<and>
              profiles h' pa = Some d"
proof -
  obtain h1 where h1: "runOnClone e sy pa Pessimistic h = Some (calculateProjections e sy d Pessimistic, h1)"
      "profiles h1 pa = Some d" "pa < nextRef h1"
    using runOnClone_sim[OF assms] by blast
  obtain h2 where h2: "runOnClone e sy pa Neutral h1 = Some (calculateProjections e sy d Neutral, h2)"
      "profiles h2 pa = Some d" "pa < nextRef h2"
    using runOnClone_sim[OF h1(2,3)] by blast
  obtain h3 where h3: "runOnClone e sy pa Optimistic h2 = Some (calculateProjections e sy d Optimistic, h3)"
      "profiles h3 pa = Some d" "pa < nextRef h3"
    using runOnClone_sim[OF h2(2,3)] by blast
  have "runAllScenarios_ref e sy pa h = Some (runAllScenarios e sy d, h3)"
    using h1(1) h2(1) h3(1) by (simp add: runAllScenarios_ref_def runAllScenarios_def)
  then show ?thesis using h3(2) by blast
qed

lemma testCandidate_sim:
  assumes "profiles h pa = Some d" and "pa < nextRef h"
  shows "\<exists>h'. testCandidate e sy pa testAge h =
                 Some (calculateProjections e sy (d\<lparr>retirementAge := testAge\<rparr>) Neutral, h') \<and>
              profiles h' pa = Some d \<and> pa < nextRef h'"
proof -
  define c where "c = allocProfile d h"
  define h2 where "h2 = (snd c)\<lparr>profiles := (profiles (snd c))(fst c \<mapsto> d\<lparr>retirementAge := testAge\<rparr>)\<rparr>"
  have cl: "clone pa h = Some c" using assms(1) by (simp add: clone_def c_def)
  have pc: "profiles (snd c) (fst c) = Some d" by (simp add: c_def allocProfile_def)
  have ne: "fst c \<noteq> pa" using assms(2) by (simp add: c_def allocProfile_def)
  have p2: "profiles h2 (fst c) = Some (d\<lparr>retirementAge := testAge\<rparr>)" by (simp add: h2_def)
  have keep: "profiles h2 pa = Some d" "pa < nextRef h2"
    using assms ne by (simp_all add: h2_def c_def allocProfile_def)
  obtain h' where h': "calculateProjections_ref e sy (fst c) Neutral h2 =
        Some (calculateProjections e sy (d\<lparr>retirementAge := testAge\<rparr>) Neutral, h')"
      "profiles h' = profiles h2" "nextRef h' = Suc (nextRef h2)"
    using calculateProjections_ref_sim[OF p2] by blast
  have "testCandidate e sy pa testAge h =
          Some (calculateProjections e sy (d\<lparr>retirementAge := testAge\<rparr>) Neutral, h')"
    using cl pc h'(1) by (simp add: testCandidate_def h2_def)
  moreover have "profiles h' pa = Some d" "pa < nextRef h'" using h'(2,3) keep by simp_all
  ultimately show ?thesis by blast
qed

lemma searchLoop_ref_sim:
  assumes "profiles h pa = Some d" and "pa < nextRef h"
  shows "\<exists>h'. searchLoop_ref e sy pa hi lo h = Some (searchLoop e sy d hi lo, h') \<and>
              profiles h' pa = Some d"
  using assms
proof (induction "nat (hi + 1 - lo)" arbitrary: lo h)
  case 0
  then have "\<not> lo \<le> hi" by simp
  then show ?case
    using 0(2) by (simp add: searchLoop_ref.simps[of e sy pa hi lo] searchLoop.simps[of e sy d hi lo])
next
  case (Suc n)
  then have le: "lo \<le> hi" by simp
  have n: "n = nat (hi + 1 - (lo + 1))" using Suc.hyps(2) by simp
  obtain h1 where h1: "testCandidate e sy pa lo h =
        Some (calculateProjections e sy (d\<lparr>retirementAge := lo\<rparr>) Neutral, h1)"
      "profiles h1 pa = Some d" "pa < nextRef h1"
    using testCandidate_sim[OF Suc.prems] by blast
  show ?case
  proof (cases "candidateViable e sy d lo")
    case True
    then have "searchLoop_ref e sy pa hi lo h = Some (searchLoop e sy d hi lo, h1)"
      using le h1(1)
      by (simp add: searchLoop_ref.simps[of e sy pa hi lo] searchLoop.simps[of e sy d hi lo]
            candidateViable_def)
    then show ?thesis using h1(2) by blast
  next
    case False
    obtain h' where h': "searchLoop_ref e sy pa hi (lo + 1) h1 = Some (searchLoop e sy d hi (lo + 1), h')"
        "profiles h' pa = Some d"
      using Suc.hyps(1)[OF n h1(2,3)] by blast
    have "searchLoop_ref e sy pa hi lo h = Some (searchLoop e sy d hi lo, h')"
      using le h1(1) False h'(1)
      by (simp add: searchLoop_ref.simps[of e sy pa hi lo] searchLoop.simps[of e sy d hi lo]
            candidateViable_def)
    then show ?thesis using h'(2) by blast
  qed
qed

text \<open>
  C10. A run of \<open>calculateProjections\<close> on a profile held in the store returns the result
  of the function on the profile's value and leaves every profile object of the store,
  the input included, as it was (its only writes go to the child-age array it allocated).
  A second run on the store the first one left therefore gives the result of the function
  on the same value, whatever ran before; \<open>runAllScenarios\<close> and the early-retirement
  search, which write only to their clones, return the results of the functions on the
  input's value and leave the input as it was.
\<close>

theorem input_profile_unchanged:
  assumes "profiles h r = Some d" and "r < nextRef h"
  shows "(\<exists>h1. calculateProjections_ref e sy r sc h = Some (calculateProjections e sy d sc, h1) \<and>
               profiles h1 = profiles h \<and>
               (\<exists>h2. calculateProjections_ref e sy r sc' h1 =
                        Some (calculateProjections e sy d sc', h2) \<and>
                     profiles h2 = profiles h)) \<and>
         (\<exists>h1. runAllScenarios_ref e sy r h = Some (runAllScenarios e sy d, h1) \<and>
               profiles h1 r = Some d) \<and>
         (\<exists>h1. calculateViableEarlyRetirement_ref e sy r h =
                  Some (calculateViableEarlyRetirement e sy d, h1) \<and>
               profiles h1 r = Some d)"
proof (intro conjI)
  obtain h1 where h1: "calculateProjections_ref e sy r sc h = Some (calculateProjections e sy d sc, h1)"
      "profiles h1 = profiles h"
    using calculateProjections_ref_sim[OF assms(1)] by blast
  have p1: "profiles h1 r = Some d" using h1(2) assms(1) by simp
  obtain h2 where h2: "calculateProjections_ref e sy r sc' h1 = Some (calculateProjections e sy d sc', h2)"
      "profiles h2 = profiles h1"
    using calculateProjections_ref_sim[OF p1] by blast
  show "\<exists>h1. calculateProjections_ref e sy r sc h = Some (calculateProjections e sy d sc, h1) \<and>
               profiles h1 = profiles h \<and>
               (\<exists>h2. calculateProjections_ref e sy r sc' h1 =
                        Some (calculateProjections e sy d sc', h2) \<and>
                     profiles h2 = profiles h)"
    using h1 h2 by auto
next
  show "\<exists>h1. runAllScenarios_ref e sy r h = Some (runAllScenarios e sy d, h1) \<and>
               profiles h1 r = Some d"
    by (rule runAllScenarios_ref_sim[OF assms])
next
  show "\<exists>h1. calculateViableEarlyRetirement_ref e sy r h =
                  Some (calculateViableEarlyRetirement e sy d, h1) \<and>
               profiles h1 r = Some d"
    using searchLoop_ref_sim[OF assms, of e sy "searchTo e d" "searchFrom e"] assms(1)
    by (simp add: calculateViableEarlyRetirement_ref_def calculateViableEarlyRetirement_def)
qed

theorem input_profile_unchanged_witness:
  "map_option fst (calculateProjections_ref Current 2025 0 Neutral exampleStore) =
     Some (calculateProjections Current 2025 soloRetiree Neutral) \<and>
   map_option fst (runAllScenarios_ref Current 2025 0 exampleStore) =
     Some (runAllScenarios Current 2025 soloRetiree)"
proof -
  have a: "profiles exampleStore 0 = Some soloRetiree" by (simp add: exampleStore_def)
  have b: "0 < nextRef exampleStore" by (simp add: exampleStore_def)
  from input_profile_unchanged[OF a b, of Current 2025 Neutral Neutral]
  show ?thesis by auto
qed

end
